theory Spec2Isabelle
  imports Main
begin

section \<open>Caption builder: combineWithHashtags\<close>

text \<open>
  \<^verbatim>\<open>config.constants.maxCaptionLength\<close> of \<^verbatim>\<open>src/config.js\<close>.
\<close>

definition maxCaptionLength :: int where
  "maxCaptionLength = 280"

text \<open>
  \<^verbatim>\<open>Array.prototype.join(' ')\<close>: the elements separated by one space, the empty
  string for the empty array.
\<close>

fun joinSpace :: "string list \<Rightarrow> string" where
  "joinSpace [] = []"
| "joinSpace [x] = x"
| "joinSpace (x # y # ys) = x @ '' '' @ joinSpace (y # ys)"

text \<open>
  \<^verbatim>\<open>s.substring(0, e)\<close>: a negative end index counts as 0 and one beyond the
  length as the length. A string is the list of its UTF-16 code units, which is what
  \<^verbatim>\<open>.length\<close> and \<^verbatim>\<open>substring\<close> count.
\<close>

definition substring0 :: "string \<Rightarrow> int \<Rightarrow> string" where
  "substring0 s e = take (nat e) s"

definition newline :: char where
  "newline = CHR 0x0A"

text \<open>
  \<^verbatim>\<open>
  combineWithHashtags(caption, hashtags) {
    const hashtagString = hashtags.join(' ');
    const maxCaptionLength = config.constants.maxCaptionLength - hashtagString.length - 2;
    let finalCaption = caption;
    if (finalCaption.length > maxCaptionLength) {
      finalCaption = finalCaption.substring(0, maxCaptionLength - 3) + '...';
    }
    return `${finalCaption}\n\n${hashtagString}`;
  }
  \<close>
\<close>

definition combineWithHashtags :: "string \<Rightarrow> string list \<Rightarrow> string" where
  "combineWithHashtags caption hashtags =
     (let hashtagString = joinSpace hashtags;
          maxCaption = maxCaptionLength - int (length hashtagString) - 2;
          finalCaption =
            (if int (length caption) > maxCaption
             then substring0 caption (maxCaption - 3) @ ''...''
             else caption)
      in finalCaption @ [newline, newline] @ hashtagString)"

section \<open>Timers\<close>

text \<open>
  The milliseconds after which \<^verbatim>\<open>setTimeout(f, ms)\<close> fires, for an integer \<open>ms\<close>: Node
  sets a delay below 1 or above \<open>2\<^sup>3\<^sup>1 - 1\<close> to 1.
\<close>

definition timerMs :: "int \<Rightarrow> nat" where
  "timerMs ms = (if ms < 1 \<or> 2147483647 < ms then 1 else nat ms)"

section \<open>Publish queue: QueueManager\<close>

text \<open>
  The object handed to the constructor is \<^verbatim>\<open>config.queue\<close>. A JavaScript number is
  an \<open>int\<close> here; \<open>0\<close> also stands for the other falsy values (\<^verbatim>\<open>undefined\<close>,
  \<^verbatim>\<open>NaN\<close>), which \<^verbatim>\<open>||\<close> treats alike.
\<close>

record queueConfig =
  cfgPostDelay :: int
  cfgMaxRetries :: int
  cfgRetryDelay :: int

definition orDefault :: "int \<Rightarrow> int \<Rightarrow> int" where
  "orDefault v d = (if v = 0 then d else v)"

text \<open>
  A queued post. The payload (images, caption) plays no part in the queue's control flow;
  \<open>hasProcessor\<close> is the test
  \<^verbatim>\<open>postData.processor && typeof postData.processor === 'function'\<close>.
\<close>

record postData =
  jobId :: nat
  hasProcessor :: bool
  retries :: int

datatype processed = Resolved | Rejected string

text \<open>
  What is observed of the queue from outside: when the processing of a post starts and
  how it ends (with the clock, in milliseconds), every \<^verbatim>\<open>this.delay(ms)\<close>, and
  the posts given up.
\<close>

datatype qevent =
    Started nat nat
  | Finished nat nat
  | Failed nat nat string
  | Waited int
  | Skipped nat

text \<open>
  The fields of the class, then the clock and the observed events. The calls of the
  logger are left out: they change neither the queue nor the control flow.
\<close>

record queueManager =
  queue :: "postData list"
  isProcessing :: bool
  config :: queueConfig
  postDelay :: int
  maxRetries :: int
  clock :: nat
  events :: "qevent list"

text \<open>
  \<^verbatim>\<open>
  constructor(config) {
    this.queue = [];
    this.isProcessing = false;
    this.config = config;
    this.logger = null;
    this.postDelay = config.postDelay || 20000;
    this.maxRetries = config.maxRetries || 2;
  }
  \<close>
\<close>

definition newQueueManager :: "queueConfig \<Rightarrow> queueManager" where
  "newQueueManager c =
     \<lparr>queue = [], isProcessing = False, config = c,
      postDelay = orDefault (cfgPostDelay c) 20000,
      maxRetries = orDefault (cfgMaxRetries c) 2,
      clock = 0, events = []\<rparr>"

text \<open>
  One turn of the environment, consumed by one pass of the loop: what the post's
  processor does and how long it takes, and the posts that \<^verbatim>\<open>addToQueue\<close> pushes
  meanwhile. While \<^verbatim>\<open>isProcessing\<close> is set, \<^verbatim>\<open>addToQueue\<close> only
  pushes to the back, with \<^verbatim>\<open>retries: 0\<close>.
\<close>

record turn =
  outcome :: processed
  took :: nat
  arrivedWhileProcessing :: "postData list"
  arrivedWhileWaiting :: "postData list"

definition pushAll :: "postData list \<Rightarrow> queueManager \<Rightarrow> queueManager" where
  "pushAll ps m = m\<lparr>queue := queue m @ map (\<lambda>p. p\<lparr>retries := 0\<rparr>) ps\<rparr>"

definition observe :: "qevent \<Rightarrow> queueManager \<Rightarrow> queueManager" where
  "observe e m = m\<lparr>events := events m @ [e]\<rparr>"

text \<open>
  \<^verbatim>\<open>delay(ms) { return new Promise(resolve => setTimeout(resolve, ms)); }\<close>
\<close>

definition delay :: "int \<Rightarrow> queueManager \<Rightarrow> queueManager" where
  "delay ms m = observe (Waited ms) (m\<lparr>clock := clock m + timerMs ms\<rparr>)"

text \<open>
  \<^verbatim>\<open>
  async processPost(postData) {
    if (postData.processor && typeof postData.processor === 'function') {
      await postData.processor(postData);
    } else {
      throw new Error('No processor function provided for post data');
    }
  }
  \<close>
  The result and the time it took.
\<close>

definition processPost :: "postData \<Rightarrow> turn \<Rightarrow> processed \<times> nat" where
  "processPost p t =
     (if hasProcessor p then (outcome t, took t)
      else (Rejected ''No processor function provided for post data'', 0))"

text \<open>
  The body of the \<^verbatim>\<open>while (this.queue.length > 0)\<close> loop of
  \<^verbatim>\<open>processQueue\<close>:
  \<^verbatim>\<open>
      const postData = this.queue.shift();
      try {
        await this.processPost(postData);
        if (this.queue.length > 0) {
          await this.delay(this.postDelay);
        }
      } catch (error) {
        if (postData.retries < this.maxRetries) {
          postData.retries++;
          this.queue.unshift(postData);
          await this.delay(5000 * postData.retries);
        } else {
          // logged: post failed after maxRetries retries, skipping
        }
      }
  \<close>
\<close>

definition iteration :: "turn \<Rightarrow> queueManager \<Rightarrow> queueManager" where
  "iteration t m =
     (case queue m of
        [] \<Rightarrow> m
      | p # rest \<Rightarrow>
          (let m1 = observe (Started (jobId p) (clock m)) (m\<lparr>queue := rest\<rparr>);
               (r, d) = processPost p t;
               m2 = pushAll (arrivedWhileProcessing t) (m1\<lparr>clock := clock m1 + d\<rparr>)
           in case r of
                Resolved \<Rightarrow>
                  (let m3 = observe (Finished (jobId p) (clock m2)) m2
                   in if queue m3 \<noteq> []
                      then pushAll (arrivedWhileWaiting t) (delay (postDelay m3) m3)
                      else m3)
              | Rejected msg \<Rightarrow>
                  (let m3 = observe (Failed (jobId p) (clock m2) msg) m2
                   in if retries p < maxRetries m3
                      then (let p' = p\<lparr>retries := retries p + 1\<rparr>;
                                m4 = m3\<lparr>queue := p' # queue m3\<rparr>
                            in pushAll (arrivedWhileWaiting t) (delay (5000 * retries p') m4))
                      else pushAll (arrivedWhileWaiting t) (observe (Skipped (jobId p)) m3))))"

text \<open>
  The loop runs for as long as the queue is non-empty, and new arrivals can keep it
  running, so it takes the turns of the environment as a list: \<open>None\<close> when the list
  ends before the queue is empty.
\<close>

fun processLoop :: "turn list \<Rightarrow> queueManager \<Rightarrow> queueManager option" where
  "processLoop ts m =
     (if queue m = [] then Some m
      else case ts of
             [] \<Rightarrow> None
           | t # ts' \<Rightarrow> processLoop ts' (iteration t m))"

declare processLoop.simps [simp del]

text \<open>
  \<^verbatim>\<open>
  async processQueue() {
    if (this.isProcessing || this.queue.length === 0) { return; }
    this.isProcessing = true;
    while (this.queue.length > 0) { ... }
    this.isProcessing = false;
  }
  \<close>
\<close>

definition processQueue :: "turn list \<Rightarrow> queueManager \<Rightarrow> queueManager option" where
  "processQueue ts m =
     (if isProcessing m \<or> queue m = [] then Some m
      else map_option (\<lambda>m'. m'\<lparr>isProcessing := False\<rparr>)
             (processLoop ts (m\<lparr>isProcessing := True\<rparr>)))"

section \<open>Publisher: TwitterPoster\<close>

text \<open>
  A promise, as far as its settling goes: it settles after some milliseconds with a
  value, or never. A race settles as the promise that settles first; when both settle in
  the same millisecond, the first argument of \<open>race\<close> wins.
\<close>

datatype 'a promise = Settles nat 'a | Never

fun race :: "'a promise \<Rightarrow> 'a promise \<Rightarrow> 'a promise" where
  "race Never q = q"
| "race (Settles a x) Never = Settles a x"
| "race (Settles a x) (Settles b y) = (if a \<le> b then Settles a x else Settles b y)"

datatype error = Error string

text \<open>How an awaited call ends: it returns, it throws, or it never settles.\<close>

datatype 'a step = Done 'a | Threw string | Hung

text \<open>
  What is observed of the publisher: the tries and their failures, the browser processes
  launched, closed and killed, the calls of \<^verbatim>\<open>captureErrorScreenshot\<close> and
  \<^verbatim>\<open>closeBrowser\<close>, the screenshots taken, the sleeps and the post.
\<close>

datatype pevent =
    AttemptStarted nat
  | AttemptFailed nat string
  | Launched nat
  | ScreenshotRequested nat
  | ScreenshotTaken nat
  | CloseRequested
  | Closed nat
  | Killed nat
  | Slept int
  | Published string
  | ImagesDeleted

text \<open>\<^verbatim>\<open>config.twitter\<close>; \<open>0\<close> stands for a falsy value.\<close>

record twitterConfig =
  cfgTwitterMaxRetries :: int
  cfgTwitterRetryDelay :: int

text \<open>
  The fields of the class (\<^verbatim>\<open>maxRetries\<close> and \<^verbatim>\<open>retryDelay\<close> under the names
  \<open>twitterMaxRetries\<close> and \<open>twitterRetryDelay\<close>), then the world around it: the browser
  processes that are running (a browser handle is its process), the number of browsers
  launched so far, the timers of \<^verbatim>\<open>closeBrowser\<close> that are still pending (when each is
  due, and whether its \<^verbatim>\<open>kill\<close> will throw), the clock in milliseconds and the observed
  events.
\<close>

record twitterPoster =
  browser :: "nat option"
  page :: "nat option"
  isLoggedIn :: bool
  twitterMaxRetries :: int
  twitterRetryDelay :: int
  running :: "nat set"
  launches :: nat
  killTimers :: "(nat \<times> bool) list"
  now :: nat
  trace :: "pevent list"

text \<open>
  \<^verbatim>\<open>
  constructor() {
    this.browser = null;
    this.page = null;
    this.isLoggedIn = false;
    this.logger = null;
    this.maxRetries = config.twitter?.maxRetries || 2;
    this.retryDelay = config.twitter?.retryDelay || 5000;
    this.setupProcessHandlers();
  }
  \<close>
\<close>

definition newTwitterPoster :: "twitterConfig \<Rightarrow> twitterPoster" where
  "newTwitterPoster c =
     \<lparr>browser = None, page = None, isLoggedIn = False,
      twitterMaxRetries = orDefault (cfgTwitterMaxRetries c) 2,
      twitterRetryDelay = orDefault (cfgTwitterRetryDelay c) 5000,
      running = {}, launches = 0, killTimers = [], now = 0, trace = []\<rparr>"

definition emit :: "pevent \<Rightarrow> twitterPoster \<Rightarrow> twitterPoster" where
  "emit e s = s\<lparr>trace := trace s @ [e]\<rparr>"

text \<open>
  The body of every kill in \<^verbatim>\<open>closeBrowser\<close>, in the timer's callback and in the
  \<^verbatim>\<open>catch\<close> block alike:
  \<^verbatim>\<open>
  try {
    if (this.browser && this.browser.process()) {
      this.browser.process().kill('SIGKILL');
    }
  } catch (killError) { console.error(...); }
  \<close>
  It reads \<^verbatim>\<open>this.browser\<close> at the moment it runs. The browser was launched by this
  program, so \<^verbatim>\<open>process()\<close> is not null; a kill that throws delivers no signal.
\<close>

definition forceKill :: "bool \<Rightarrow> twitterPoster \<Rightarrow> twitterPoster" where
  "forceKill throws s =
     (case browser s of
        None \<Rightarrow> s
      | Some b \<Rightarrow> if throws then s else emit (Killed b) (s\<lparr>running := running s - {b}\<rparr>))"

text \<open>
  The passing of time. The timer that \<^verbatim>\<open>closeBrowser\<close> sets is never cleared
  (there is no \<^verbatim>\<open>clearTimeout\<close>): when the close wins the race, the timer stays
  pending and its callback runs when it is due, on whatever \<^verbatim>\<open>this.browser\<close> is then.
  So when the clock moves to \<open>t\<close>, the pending timers due by \<open>t\<close> fire, in the order in which
  they were set.
\<close>

definition fireKillTimers :: "nat \<Rightarrow> twitterPoster \<Rightarrow> twitterPoster" where
  "fireKillTimers t s =
     fold (\<lambda>timer. forceKill (snd timer))
       (filter (\<lambda>timer. fst timer \<le> t) (killTimers s))
       (s\<lparr>killTimers := filter (\<lambda>timer. \<not> fst timer \<le> t) (killTimers s)\<rparr>)"

definition elapse :: "nat \<Rightarrow> twitterPoster \<Rightarrow> twitterPoster" where
  "elapse d s = (fireKillTimers (now s + d) s)\<lparr>now := now s + d\<rparr>"

text \<open>
  \<^verbatim>\<open>delay(ms) { return new Promise(resolve => setTimeout(resolve, ms)); }\<close>
  of the publisher.
\<close>

definition sleep :: "int \<Rightarrow> twitterPoster \<Rightarrow> twitterPoster" where
  "sleep ms s = emit (Slept ms) (elapse (timerMs ms) s)"

subsection \<open>closeBrowser\<close>

text \<open>
  The environment of one call of \<^verbatim>\<open>closeBrowser\<close>: how \<^verbatim>\<open>this.browser.close()\<close>
  settles (a close that resolves has ended the process), and whether the
  \<^verbatim>\<open>process().kill('SIGKILL')\<close> of this call throws, in its \<^verbatim>\<open>catch\<close> block and in the
  callback of its timer.
\<close>

datatype closed = CloseResolved | CloseRejected string

record teardownEnv =
  closing :: "closed promise"
  killThrows :: bool

text \<open>What wins the race inside \<^verbatim>\<open>closeBrowser\<close>: the close, or the 5 second timer.\<close>

datatype raced = ByClose closed | ByTimer

text \<open>
  The \<^verbatim>\<open>try\<close> block of \<^verbatim>\<open>closeBrowser\<close>:
  \<^verbatim>\<open>
      if (this.browser) {
        await Promise.race([
          this.browser.close(),
          new Promise((resolve) => {
            setTimeout(() => {
              try {
                if (this.browser && this.browser.process()) {
                  this.browser.process().kill('SIGKILL');
                }
              } catch (killError) { ... }
              resolve();
            }, 5000);
          })
        ]);
      }
  \<close>
  The close is the first promise of the race, as in the array of the source: a close
  that settles in the very millisecond of the timer counts as settled in time. When the
  close settles first, the timer set at the start of the call is still pending, due
  5000 ms after that start. When the timer settles first, its callback has run the kill
  on the browser that is being closed.
\<close>

definition armKillTimer :: "nat \<Rightarrow> bool \<Rightarrow> twitterPoster \<Rightarrow> twitterPoster" where
  "armKillTimer due throws s = s\<lparr>killTimers := killTimers s @ [(due, throws)]\<rparr>"

definition closeAttempt :: "teardownEnv \<Rightarrow> twitterPoster \<Rightarrow> unit step \<times> twitterPoster" where
  "closeAttempt te s =
     (case browser s of
        None \<Rightarrow> (Done (), s)
      | Some b \<Rightarrow>
          (case race (case closing te of
                        Never \<Rightarrow> Never
                      | Settles d c \<Rightarrow> Settles d (ByClose c))
                     (Settles 5000 ByTimer) of
             Settles d (ByClose CloseResolved) \<Rightarrow>
               (Done (),
                armKillTimer (now s + 5000) (killThrows te)
                  (emit (Closed b) (elapse d (s\<lparr>running := running s - {b}\<rparr>))))
           | Settles d (ByClose (CloseRejected msg)) \<Rightarrow>
               (Threw msg, armKillTimer (now s + 5000) (killThrows te) (elapse d s))
           | Settles d ByTimer \<Rightarrow> (Done (), forceKill (killThrows te) (elapse d s))
           | Never \<Rightarrow> (Hung, s)))"

text \<open>
  \<^verbatim>\<open>
  async closeBrowser() {
    try { ... }
    catch (error) {
      try {
        if (this.browser && this.browser.process()) {
          this.browser.process().kill('SIGKILL');
        }
      } catch (killError) { ... }
    } finally {
      this.browser = null;
      this.page = null;
      this.isLoggedIn = false;
    }
  }
  \<close>
  Every path runs into the \<^verbatim>\<open>finally\<close> block and returns: the result is a state.
\<close>

definition closeBrowser :: "teardownEnv \<Rightarrow> twitterPoster \<Rightarrow> twitterPoster" where
  "closeBrowser te s0 =
     (let tried = closeAttempt te (emit CloseRequested s0);
          s1 = (case fst tried of
                  Threw msg \<Rightarrow> forceKill (killThrows te) (snd tried)
                | _ \<Rightarrow> snd tried)
      in s1\<lparr>browser := None, page := None, isLoggedIn := False\<rparr>)"

subsection \<open>One try of the publish sequence\<close>

text \<open>
  The environment of one try. \<open>startTook\<close>: the milliseconds from the start of the try
  until \<^verbatim>\<open>initializeBrowser\<close> finds \<^verbatim>\<open>this.browser\<close> set or \<^verbatim>\<open>puppeteer.launch\<close>
  settles. \<open>launch\<close>: what \<^verbatim>\<open>initializeBrowser\<close> meets if it has to launch
  (\<^verbatim>\<open>puppeteer.launch\<close> fails; \<^verbatim>\<open>newPage\<close> fails; \<^verbatim>\<open>setUserAgent\<close> fails; all
  succeed). \<open>phases\<close>: how the phases from \<^verbatim>\<open>ensureLoggedIn\<close> to \<^verbatim>\<open>publishTweet\<close> end
  on a page: with the post's URL, with an error in one of them, or with one of them never
  settling. \<open>tryTook\<close>: the milliseconds from the launch until the try block ends.
  \<open>shot\<close>: what \<^verbatim>\<open>page.screenshot\<close> does in \<^verbatim>\<open>captureErrorScreenshot\<close>. \<open>teardown\<close>:
  the environment of \<^verbatim>\<open>closeBrowser\<close>. The screenshot and the calls of the logger take
  no time.
\<close>

datatype launching = LaunchFails string | NewPageFails string | SetupFails string | LaunchOk

datatype phase = EnsureLoggedIn | NavigateToCompose | UploadImages | AddCaption | PublishTweet

datatype phases = Publishes string | FailsIn phase string | HangsIn phase

datatype shot = ShotTaken | ShotThrows | ShotHangs

record attemptEnv =
  startTook :: nat
  launch :: launching
  phases :: phases
  tryTook :: nat
  shot :: shot
  teardown :: teardownEnv

text \<open>
  \<^verbatim>\<open>
  async initializeBrowser() {
    try {
      if (this.browser) { return; }          // Already initialized
      this.browser = await puppeteer.launch({...});
      this.page = await this.browser.newPage();
      await this.page.setUserAgent('...');
      await this.loadCookies();              // catches its own errors
    } catch (error) { throw error; }
  }
  \<close>
\<close>

definition initializeBrowser :: "launching \<Rightarrow> twitterPoster \<Rightarrow> unit step \<times> twitterPoster" where
  "initializeBrowser l s =
     (if browser s \<noteq> None then (Done (), s)
      else case l of
             LaunchFails msg \<Rightarrow> (Threw msg, s)
           | _ \<Rightarrow>
               (let b = launches s;
                    s1 = emit (Launched b)
                           (s\<lparr>browser := Some b, running := insert b (running s),
                              launches := launches s + 1\<rparr>)
                in case l of
                     NewPageFails msg \<Rightarrow> (Threw msg, s1)
                   | SetupFails msg \<Rightarrow> (Threw msg, s1\<lparr>page := Some b\<rparr>)
                   | _ \<Rightarrow> (Done (), s1\<lparr>page := Some b\<rparr>)))"

text \<open>
  The phases after \<^verbatim>\<open>initializeBrowser\<close>. Of their effects on the fields only
  \<^verbatim>\<open>this.isLoggedIn = true\<close> of \<^verbatim>\<open>ensureLoggedIn\<close> is kept. The first statement of
  \<^verbatim>\<open>ensureLoggedIn\<close> is \<^verbatim>\<open>await this.page.goto('https://x.com/home', ...)\<close>: without a
  page it throws a \<^verbatim>\<open>TypeError\<close>, which \<^verbatim>\<open>ensureLoggedIn\<close> rethrows.
\<close>

definition noPageError :: string where
  "noPageError =
     ''Cannot read properties of null (reading '' @ [CHR 0x27] @ ''goto'' @ [CHR 0x27] @ '')''"

definition runPhases :: "phases \<Rightarrow> twitterPoster \<Rightarrow> string step \<times> twitterPoster" where
  "runPhases ph s =
     (if page s = None then (Threw noPageError, s)
      else case ph of
        Publishes url \<Rightarrow> (Done url, s\<lparr>isLoggedIn := True\<rparr>)
      | FailsIn p msg \<Rightarrow> (Threw msg, if p = EnsureLoggedIn then s else s\<lparr>isLoggedIn := True\<rparr>)
      | HangsIn p \<Rightarrow> (Hung, if p = EnsureLoggedIn then s else s\<lparr>isLoggedIn := True\<rparr>))"

text \<open>
  The \<^verbatim>\<open>try\<close> block of \<^verbatim>\<open>postTweetWithRetry\<close>:
  \<^verbatim>\<open>
      await this.initializeBrowser();
      await this.ensureLoggedIn();
      await this.navigateToCompose();
      await this.uploadImages(imagePaths);
      await this.addCaption(caption);
      const tweetUrl = await this.publishTweet();
      await this.deleteImageFiles(imagePaths);   // catches its own errors
      return tweetUrl;
  \<close>
\<close>

definition publishSequence :: "attemptEnv \<Rightarrow> twitterPoster \<Rightarrow> string step \<times> twitterPoster" where
  "publishSequence e s =
     (let started = initializeBrowser (launch e) (elapse (startTook e) s)
      in case fst started of
           Threw msg \<Rightarrow> (Threw msg, elapse (tryTook e) (snd started))
         | Hung \<Rightarrow> (Hung, snd started)
         | Done u \<Rightarrow>
             (let ran = runPhases (phases e) (snd started)
              in case fst ran of
                   Done tweetUrl \<Rightarrow>
                     (Done tweetUrl,
                      emit ImagesDeleted (emit (Published tweetUrl) (elapse (tryTook e) (snd ran))))
                 | Threw msg \<Rightarrow> (Threw msg, elapse (tryTook e) (snd ran))
                 | Hung \<Rightarrow> (Hung, snd ran)))"

text \<open>
  \<^verbatim>\<open>
  async captureErrorScreenshot(attempt) {
    try {
      if (this.page) {
        await this.page.screenshot({...});
        if (this.logger) { await this.logger.sendPhoto(...); }
      }
    } catch (error) { console.error(...); }
  }
  \<close>
  It never throws: it returns (\<open>True\<close>) or never settles (\<open>False\<close>).
\<close>

definition captureErrorScreenshot :: "shot \<Rightarrow> nat \<Rightarrow> twitterPoster \<Rightarrow> bool \<times> twitterPoster" where
  "captureErrorScreenshot sh attempt s0 =
     (let s = emit (ScreenshotRequested attempt) s0
      in if page s \<noteq> None
         then (case sh of
                 ShotTaken \<Rightarrow> (True, emit (ScreenshotTaken attempt) s)
               | ShotThrows \<Rightarrow> (True, s)
               | ShotHangs \<Rightarrow> (False, s))
         else (True, s))"

subsection \<open>postTweetWithRetry, postTweetWithTimeout, postTweet\<close>

text \<open>
  The retry limit is a field that no step of a try changes; the recursion of
  \<^verbatim>\<open>postTweetWithRetry\<close> terminates on it.
\<close>

lemma maxRetries_emit [simp]: "twitterMaxRetries (emit e s) = twitterMaxRetries s"
  by (simp add: emit_def)

lemma maxRetries_forceKill [simp]: "twitterMaxRetries (forceKill k s) = twitterMaxRetries s"
  by (simp add: forceKill_def emit_def split: option.splits)

lemma maxRetries_kills [simp]:
  "twitterMaxRetries (fold (\<lambda>timer. forceKill (snd timer)) ts s) = twitterMaxRetries s"
  by (induction ts arbitrary: s) simp_all

lemma maxRetries_elapse [simp]: "twitterMaxRetries (elapse d s) = twitterMaxRetries s"
  by (simp add: elapse_def fireKillTimers_def)

lemma maxRetries_sleep [simp]: "twitterMaxRetries (sleep ms s) = twitterMaxRetries s"
  by (simp add: sleep_def)

lemma maxRetries_armKillTimer [simp]:
  "twitterMaxRetries (armKillTimer due k s) = twitterMaxRetries s"
  by (simp add: armKillTimer_def)

lemma maxRetries_closeAttempt [simp]:
  "twitterMaxRetries (snd (closeAttempt te s)) = twitterMaxRetries s"
  by (simp add: closeAttempt_def split: option.splits promise.splits raced.splits closed.splits)

lemma maxRetries_closeBrowser [simp]: "twitterMaxRetries (closeBrowser te s) = twitterMaxRetries s"
  by (simp add: closeBrowser_def Let_def split: step.splits)

lemma maxRetries_initializeBrowser [simp]:
  "twitterMaxRetries (snd (initializeBrowser l s)) = twitterMaxRetries s"
  by (simp add: initializeBrowser_def Let_def split: launching.splits)

lemma maxRetries_runPhases [simp]:
  "twitterMaxRetries (snd (runPhases ph s)) = twitterMaxRetries s"
  by (simp add: runPhases_def split: phases.splits)

lemma maxRetries_publishSequence [simp]:
  "twitterMaxRetries (snd (publishSequence e s)) = twitterMaxRetries s"
  by (simp add: publishSequence_def Let_def split: step.splits)

lemma maxRetries_captureErrorScreenshot [simp]:
  "twitterMaxRetries (snd (captureErrorScreenshot sh a s)) = twitterMaxRetries s"
  by (simp add: captureErrorScreenshot_def Let_def split: shot.splits)

text \<open>
  \<^verbatim>\<open>
  async postTweetWithRetry(imagePaths, caption, attempt = 0) {
    try {
      ... the publish sequence ...
      return tweetUrl;
    } catch (error) {
      await this.captureErrorScreenshot(attempt);
      await this.closeBrowser();
      if (attempt < this.maxRetries) {
        const delay = this.retryDelay * (attempt + 1);
        await this.delay(delay);
        return await this.postTweetWithRetry(imagePaths, caption, attempt + 1);
      }
      throw error;
    }
  }
  \<close>
  \<open>env k\<close> is the environment of try \<open>k\<close>. The result is \<open>None\<close> when the promise never
  settles, with the state in which the run is stuck (a kill timer that is pending in it
  fires later). The calls of the logger are left out.
\<close>

function postTweetWithRetry ::
  "(nat \<Rightarrow> attemptEnv) \<Rightarrow> nat \<Rightarrow> twitterPoster \<Rightarrow> (error + string) option \<times> twitterPoster" where
  "postTweetWithRetry env attempt s =
     (let tried = publishSequence (env attempt) (emit (AttemptStarted attempt) s)
      in case fst tried of
           Done tweetUrl \<Rightarrow> (Some (Inr tweetUrl), snd tried)
         | Hung \<Rightarrow> (None, snd tried)
         | Threw msg \<Rightarrow>
             (let captured = captureErrorScreenshot (shot (env attempt)) attempt
                               (emit (AttemptFailed attempt msg) (snd tried))
              in if \<not> fst captured then (None, snd captured)
                 else (let s3 = closeBrowser (teardown (env attempt)) (snd captured)
                       in if int attempt < twitterMaxRetries s3
                          then postTweetWithRetry env (attempt + 1)
                                 (sleep (twitterRetryDelay s3 * (int attempt + 1)) s3)
                          else (Some (Inl (Error msg)), s3))))"
  by pat_completeness auto
termination
  by (relation "measure (\<lambda>(env, attempt, s). nat (twitterMaxRetries s - int attempt))") auto

declare postTweetWithRetry.simps [simp del]

text \<open>
  The steps of the retry loop itself among the observed events: the start and the
  failure of a try, the calls of \<^verbatim>\<open>captureErrorScreenshot\<close> and \<^verbatim>\<open>closeBrowser\<close>, and
  the sleeps.
\<close>

fun isCall :: "pevent \<Rightarrow> bool" where
  "isCall (AttemptStarted k) = True"
| "isCall (AttemptFailed k msg) = True"
| "isCall (ScreenshotRequested k) = True"
| "isCall CloseRequested = True"
| "isCall (Slept ms) = True"
| "isCall e = False"

definition calls :: "pevent list \<Rightarrow> pevent list" where
  "calls es = filter isCall es"

text \<open>The tries among the observed events.\<close>

fun isAttemptStart :: "pevent \<Rightarrow> bool" where
  "isAttemptStart (AttemptStarted k) = True"
| "isAttemptStart e = False"

definition tries :: "pevent list \<Rightarrow> pevent list" where
  "tries es = filter isAttemptStart es"

text \<open>
  What the claim about the retry loop puts between the start of try \<open>k\<close> and the start
  of try \<open>k + 1\<close>: the try fails (with message \<open>msgs k\<close>), the screenshot capture is
  called, the browser session is closed, and the loop sleeps \<open>retryDelay \<times> (k + 1)\<close>.
\<close>

definition retryBlock :: "int \<Rightarrow> (nat \<Rightarrow> string) \<Rightarrow> nat \<Rightarrow> pevent list" where
  "retryBlock retryDelay msgs k =
     [AttemptStarted k, AttemptFailed k (msgs k), ScreenshotRequested k, CloseRequested,
      Slept (retryDelay * (int k + 1))]"

text \<open>
  \<^verbatim>\<open>
  async postTweetWithTimeout(imagePaths, caption, timeoutMs = 120000) {
    return Promise.race([
      this.postTweetWithRetry(imagePaths, caption, 0),
      new Promise((_, reject) =>
        setTimeout(() => reject(new Error('Tweet posting timeout - process took too long')),
                   timeoutMs))
    ]);
  }
  \<close>
  The result is the promise that is returned (after how many milliseconds it settles, and
  how) and the state that the run leaves behind: the race does not cancel the run, and
  the timer's callback touches no field. The run is the first element of the array, but
  the deadline is the first argument of \<open>race\<close>: a run that settles in the very
  millisecond of the deadline is too late. The timer of the deadline is set before the
  timers of the sleeps and pauses that the run waits for, and of two timers due in the
  same millisecond the one set first fires first.
\<close>

text \<open>The environment in which every try meets the same conditions.\<close>

definition always :: "attemptEnv \<Rightarrow> nat \<Rightarrow> attemptEnv" where
  "always e k = e"

text \<open>
  A state as the constructor and the methods leave it: a page belongs to a browser.
\<close>

definition consistent :: "twitterPoster \<Rightarrow> bool" where
  "consistent s \<longleftrightarrow> (page s \<noteq> None \<longrightarrow> browser s \<noteq> None)"

definition timeoutError :: error where
  "timeoutError = Error ''Tweet posting timeout - process took too long''"

definition postTweetWithTimeout ::
  "int \<Rightarrow> (nat \<Rightarrow> attemptEnv) \<Rightarrow> twitterPoster
     \<Rightarrow> (error + string) promise \<times> twitterPoster" where
  "postTweetWithTimeout timeoutMs env s =
     (let run = postTweetWithRetry env 0 s;
          runPromise = (case fst run of
                          None \<Rightarrow> Never
                        | Some r \<Rightarrow> Settles (now (snd run) - now s) r)
      in (race (Settles (timerMs timeoutMs) (Inl timeoutError)) runPromise, snd run))"

text \<open>
  \<^verbatim>\<open>
  async postTweet(imagePaths, caption) {
    return await this.postTweetWithTimeout(imagePaths, caption, 120000);
  }
  \<close>
\<close>

definition postTweet ::
  "(nat \<Rightarrow> attemptEnv) \<Rightarrow> twitterPoster \<Rightarrow> (error + string) promise \<times> twitterPoster" where
  "postTweet env s = postTweetWithTimeout 120000 env s"

section \<open>MediaAttached phase: uploadImages\<close>











section \<open>Verified phase: verifyTweetSuccess\<close>

text \<open>An awaited query of the page: its value, or the error it throws.\<close>

datatype 'a answer = Answer 'a | Raises string

text \<open>\<^verbatim>\<open>s.includes(p)\<close>.\<close>

fun includesStr :: "string \<Rightarrow> string \<Rightarrow> bool" where
  "includesStr [] p = (p = [])"
| "includesStr (c # cs) p = (take (length p) (c # cs) = p \<or> includesStr cs p)"

definition isDigit :: "char \<Rightarrow> bool" where
  "isDigit c \<longleftrightarrow> c \<in> set ''0123456789''"

text \<open>
  \<^verbatim>\<open>href.match(/\/status\/(\d+)/)\<close>: the digits captured by the leftmost match, \<open>None\<close>
  when there is no match.
\<close>

fun statusId :: "string \<Rightarrow> string option" where
  "statusId [] = None"
| "statusId (c # cs) =
     (if take 8 (c # cs) = ''/status/'' \<and> takeWhile isDigit (drop 8 (c # cs)) \<noteq> []
      then Some (takeWhile isDigit (drop 8 (c # cs)))
      else statusId cs)"

text \<open>
  \<^verbatim>\<open>parseInt\<close> of a string of decimal digits. The value is exact here; JavaScript
  rounds it to a double, which for identifiers beyond \<open>2\<^sup>5\<^sup>3\<close> can change which of
  several links counts as the newest, not whether there is one.
\<close>

definition parseInt :: "string \<Rightarrow> nat" where
  "parseInt ds = foldl (\<lambda>n c. 10 * n + (of_char c - 48)) 0 ds"

text \<open>
  \<^verbatim>\<open>.sort((a, b) => b.timestamp - a.timestamp)\<close> with the identifier of the link as
  timestamp, \<open>0\<close> without one: a stable sort, largest identifier first.
\<close>

definition newestFirst :: "string list \<Rightarrow> string list" where
  "newestFirst hrefs =
     sort_key (\<lambda>h. - int (case statusId h of None \<Rightarrow> 0 | Some ds \<Rightarrow> parseInt ds)) hrefs"

text \<open>
  What \<^verbatim>\<open>extractTweetUrlFromPage\<close> meets: the location, the \<^verbatim>\<open>href\<close>s of the links
  \<^verbatim>\<open>a[href*="/status/"]\<close> of the page, and those of the profile page (the navigation to
  the profile, the waits and the query are one \<^verbatim>\<open>try\<close> block: any error in it is
  caught).
\<close>

record extractEnv =
  urlNow :: string
  domLinks :: "string list answer"
  profileLinks :: "string list answer"

text \<open>
  \<^verbatim>\<open>
      const tweetLinks = await this.page.$$eval('a[href*="/status/"]', els => {
        return els.map(el => { ... { href, tweetId, timestamp } ... })
        .filter(item => item.tweetId)
        .sort((a, b) => b.timestamp - a.timestamp);
      });
      if (tweetLinks && tweetLinks.length > 0) { return tweetLinks[0].href; }
  \<close>
  inside \<^verbatim>\<open>try { ... } catch (e) { }\<close>.
\<close>

definition newestTweetLink :: "string list answer \<Rightarrow> string option" where
  "newestTweetLink a =
     (case a of
        Raises msg \<Rightarrow> None
      | Answer hrefs \<Rightarrow>
          (case newestFirst (filter (\<lambda>h. statusId h \<noteq> None) hrefs) of
             [] \<Rightarrow> None
           | u # us \<Rightarrow> Some u))"

text \<open>
  \<^verbatim>\<open>
  async extractTweetUrlFromPage() {
    let currentUrl = this.page.url();
    if (currentUrl.includes('/status/')) { return currentUrl; }
    ... the links of the page ...
    ... the links of the profile page ...
    throw new Error('Unable to extract tweet URL - tweet may not have been posted successfully');
  }
  \<close>
\<close>

definition extractTweetUrlFromPage :: "extractEnv \<Rightarrow> error + string" where
  "extractTweetUrlFromPage x =
     (if includesStr (urlNow x) ''/status/'' then Inr (urlNow x)
      else case newestTweetLink (domLinks x) of
             Some u \<Rightarrow> Inr u
           | None \<Rightarrow>
               (case newestTweetLink (profileLinks x) of
                  Some u \<Rightarrow> Inr u
                | None \<Rightarrow>
                    Inl (Error ''Unable to extract tweet URL - tweet may not have been posted successfully'')))"

text \<open>
  What one pass of the polling loop meets: the location; the link of a status link
  labelled "view", if there is one; whether the page's text has the success
  notification; the status links of the page; whether the compose text area is found;
  the location read again; and what the lookup of the post's URL meets, should it be
  called (3 seconds later).
\<close>

record pollEnv =
  currentUrl :: string
  viewButton :: "string option answer"
  successNotification :: "bool answer"
  statusLinks :: "string list answer"
  composeModal :: "bool answer"
  currentUrlCheck :: string
  extraction :: extractEnv

datatype polled = TweetUrl string | StillWaiting

text \<open>
  \<^verbatim>\<open>return await this.extractTweetUrlFromPage()\<close> inside the loop's \<^verbatim>\<open>try\<close>: an error
  of the lookup is caught by the loop's \<^verbatim>\<open>catch\<close>, which waits and goes on polling.
\<close>

definition lookedUp :: "extractEnv \<Rightarrow> polled" where
  "lookedUp x =
     (case extractTweetUrlFromPage x of
        Inr u \<Rightarrow> TweetUrl u
      | Inl e \<Rightarrow> StillWaiting)"

text \<open>
  The body of the loop of \<^verbatim>\<open>verifyTweetSuccess\<close>:
  \<^verbatim>\<open>
      try {
        const currentUrl = this.page.url();
        if (currentUrl.includes('/status/')) { return currentUrl; }
        const viewButtonFound = await this.page.evaluate(...);
        if (viewButtonFound.found) { return viewButtonFound.href; }
        const successNotification = await this.page.evaluate(...);
        if (successNotification) {
          const statusLinks = await this.page.$$eval('a[href*="/status/"]', els =>
            els.map(el => el.href).filter(href => href.includes('/status/')));
          if (statusLinks && statusLinks.length > 0) {
            const sortedLinks = statusLinks.sort(...);
            return sortedLinks[0];
          }
          await this.page.waitForTimeout(3000);
          return await this.extractTweetUrlFromPage();
        }
        const currentUrlCheck = this.page.url();
        const composeModal = await this.page.$('[data-testid="tweetTextarea_0"]');
        if (!composeModal && !currentUrlCheck.includes('/compose')) {
          await this.page.waitForTimeout(3000);
          return await this.extractTweetUrlFromPage();
        }
        await this.page.waitForTimeout(checkInterval);
        waitTime += checkInterval;
      } catch (error) {
        await this.page.waitForTimeout(checkInterval);
        waitTime += checkInterval;
      }
  \<close>
\<close>

definition pollOnce :: "pollEnv \<Rightarrow> polled" where
  "pollOnce p =
     (if includesStr (currentUrl p) ''/status/'' then TweetUrl (currentUrl p)
      else case viewButton p of
             Raises msg \<Rightarrow> StillWaiting
           | Answer (Some href) \<Rightarrow> TweetUrl href
           | Answer None \<Rightarrow>
               (case successNotification p of
                  Raises msg \<Rightarrow> StillWaiting
                | Answer True \<Rightarrow>
                    (case statusLinks p of
                       Raises msg \<Rightarrow> StillWaiting
                     | Answer hrefs \<Rightarrow>
                         (case newestFirst (filter (\<lambda>h. includesStr h ''/status/'') hrefs) of
                            u # us \<Rightarrow> TweetUrl u
                          | [] \<Rightarrow> lookedUp (extraction p)))
                | Answer False \<Rightarrow>
                    (case composeModal p of
                       Raises msg \<Rightarrow> StillWaiting
                     | Answer found \<Rightarrow>
                         if \<not> found \<and> \<not> includesStr (currentUrlCheck p) ''/compose''
                         then lookedUp (extraction p)
                         else StillWaiting)))"

definition maxWaitTime :: nat where
  "maxWaitTime = 20000"

definition checkInterval :: nat where
  "checkInterval = 1000"

definition verificationError :: error where
  "verificationError =
     Error ''Tweet posting verification failed - no success indicators found within timeout period''"

text \<open>
  \<^verbatim>\<open>
  async verifyTweetSuccess() {
    const maxWaitTime = 20000;
    const checkInterval = 1000;
    let waitTime = 0;
    while (waitTime < maxWaitTime) { ... }
    throw new Error('Tweet posting verification failed - ...');
  }
  \<close>
  \<open>env k\<close> is what pass \<open>k\<close> of the loop meets.
\<close>

function verifyLoop :: "(nat \<Rightarrow> pollEnv) \<Rightarrow> nat \<Rightarrow> error + string" where
  "verifyLoop env waitTime =
     (if waitTime < maxWaitTime
      then (case pollOnce (env (waitTime div checkInterval)) of
              TweetUrl u \<Rightarrow> Inr u
            | StillWaiting \<Rightarrow> verifyLoop env (waitTime + checkInterval))
      else Inl verificationError)"
  by pat_completeness auto
termination
  by (relation "measure (\<lambda>(env, waitTime). maxWaitTime - waitTime)")
     (auto simp: checkInterval_def)

declare verifyLoop.simps [simp del]

definition verifyTweetSuccess :: "(nat \<Rightarrow> pollEnv) \<Rightarrow> error + string" where
  "verifyTweetSuccess env = verifyLoop env 0"

text \<open>The environment in which every pass of the loop meets the same page.\<close>

definition everyPoll :: "pollEnv \<Rightarrow> nat \<Rightarrow> pollEnv" where
  "everyPoll p k = p"

section \<open>Properties of combineWithHashtags\<close>

lemma combineWithHashtags_suffix:
  "\<exists>c. combineWithHashtags caption hashtags = c @ [newline, newline] @ joinSpace hashtags"
  by (simp add: combineWithHashtags_def Let_def)

lemma combineWithHashtags_untruncated:
  "int (length caption) + 2 + int (length (joinSpace hashtags)) \<le> maxCaptionLength \<Longrightarrow>
   combineWithHashtags caption hashtags = caption @ [newline, newline] @ joinSpace hashtags"
  by (simp add: combineWithHashtags_def Let_def)

lemma combineWithHashtags_truncated:
  "int (length caption) + 2 + int (length (joinSpace hashtags)) > maxCaptionLength \<Longrightarrow>
   combineWithHashtags caption hashtags =
     substring0 caption (maxCaptionLength - int (length (joinSpace hashtags)) - 5)
       @ ''...'' @ [newline, newline] @ joinSpace hashtags"
  by (simp add: combineWithHashtags_def Let_def algebra_simps)

text \<open>
  Where the hashtag string leaves room for the ellipsis (its length plus 5 is within the
  limit), the result is within the limit.
\<close>

lemma combineWithHashtags_bound:
  assumes "int (length (joinSpace hashtags)) + 5 \<le> maxCaptionLength"
  shows "int (length (combineWithHashtags caption hashtags)) \<le> maxCaptionLength"
  using assms
  by (auto simp: combineWithHashtags_def Let_def substring0_def maxCaptionLength_def)

text \<open>
  C10. The claim: whenever the joined hashtag string \<open>h\<close> has
  \<open>length h + 2 \<le> maxCaptionLength\<close>, the result has at most \<open>maxCaptionLength\<close>
  characters. The code misses the case where fewer than three characters are left for
  the caption: with a hashtag string of 278 characters the caption budget is 0, the
  one-character caption \<open>a\<close> exceeds it, \<^verbatim>\<open>substring(0, -3)\<close> is empty, and the
  three dots are appended all the same, so the result has 3 + 2 + 278 = 283 characters.
\<close>

theorem combineWithHashtags_overflow:
  "int (length (joinSpace [CHR ''#'' # replicate 277 (CHR ''a'')])) + 2 \<le> maxCaptionLength
   \<and> combineWithHashtags ''a'' [CHR ''#'' # replicate 277 (CHR ''a'')]
       = ''...'' @ [newline, newline] @ CHR ''#'' # replicate 277 (CHR ''a'')
   \<and> int (length (combineWithHashtags ''a'' [CHR ''#'' # replicate 277 (CHR ''a'')])) = 283
   \<and> int (length (combineWithHashtags ''a'' [CHR ''#'' # replicate 277 (CHR ''a'')]))
       > maxCaptionLength"
  by (simp add: combineWithHashtags_def Let_def substring0_def maxCaptionLength_def)

section \<open>Properties of the publish queue\<close>

text \<open>One pass of the loop, by the outcome of the post's processor.\<close>

lemma iteration_resolved:
  assumes "queue m = p # rest" "hasProcessor p" "outcome t = Resolved"
  shows "iteration t m =
     (if rest @ map (\<lambda>p. p\<lparr>retries := 0\<rparr>) (arrivedWhileProcessing t) = []
      then m\<lparr>queue := [], clock := clock m + took t,
             events := events m @ [Started (jobId p) (clock m), Finished (jobId p) (clock m + took t)]\<rparr>
      else m\<lparr>queue := rest @ map (\<lambda>p. p\<lparr>retries := 0\<rparr>) (arrivedWhileProcessing t)
                         @ map (\<lambda>p. p\<lparr>retries := 0\<rparr>) (arrivedWhileWaiting t),
             clock := clock m + took t + timerMs (postDelay m),
             events := events m @ [Started (jobId p) (clock m), Finished (jobId p) (clock m + took t),
                                   Waited (postDelay m)]\<rparr>)"
  using assms
  by (simp add: iteration_def processPost_def pushAll_def observe_def delay_def Let_def)

lemma iteration_rejected_retry:
  assumes "queue m = p # rest" "fst (processPost p t) = Rejected msg" "retries p < maxRetries m"
  shows "iteration t m =
      m\<lparr>queue := p\<lparr>retries := retries p + 1\<rparr> # rest @ map (\<lambda>p. p\<lparr>retries := 0\<rparr>) (arrivedWhileProcessing t)
                         @ map (\<lambda>p. p\<lparr>retries := 0\<rparr>) (arrivedWhileWaiting t),
             clock := clock m + snd (processPost p t) + timerMs (5000 * (retries p + 1)),
             events := events m @ [Started (jobId p) (clock m), Failed (jobId p) (clock m + snd (processPost p t)) msg,
                                   Waited (5000 * (retries p + 1))]\<rparr>"
  using assms
  by (cases "processPost p t") (simp add: iteration_def pushAll_def observe_def delay_def Let_def)

lemma iteration_rejected_skip:
  assumes "queue m = p # rest" "fst (processPost p t) = Rejected msg" "\<not> retries p < maxRetries m"
  shows "iteration t m =
      m\<lparr>queue := rest @ map (\<lambda>p. p\<lparr>retries := 0\<rparr>) (arrivedWhileProcessing t)
                         @ map (\<lambda>p. p\<lparr>retries := 0\<rparr>) (arrivedWhileWaiting t),
             clock := clock m + snd (processPost p t),
             events := events m @ [Started (jobId p) (clock m), Failed (jobId p) (clock m + snd (processPost p t)) msg,
                                   Skipped (jobId p)]\<rparr>"
  using assms
  by (cases "processPost p t") (simp add: iteration_def pushAll_def observe_def delay_def Let_def)

lemma processLoop_step:
  "queue m \<noteq> [] \<Longrightarrow> processLoop (t # ts) m = processLoop ts (iteration t m)"
  by (simp add: processLoop.simps)

lemma processLoop_done:
  "queue m = [] \<Longrightarrow> processLoop ts m = Some m"
  by (simp add: processLoop.simps)

lemma second_post_start:
  assumes "queue m = p1 # p2 # rest" "hasProcessor p1" "outcome t1 = Resolved"
  shows "\<exists>es. events (iteration t2 (iteration t1 m)) =
           events m @ [Started (jobId p1) (clock m), Finished (jobId p1) (clock m + took t1),
                       Waited (postDelay m),
                       Started (jobId p2) (clock m + took t1 + timerMs (postDelay m))] @ es"
proof -
  let ?m1 = "iteration t1 m"
  have m1: "queue ?m1 = p2 # rest @ map (\<lambda>p. p\<lparr>retries := 0\<rparr>) (arrivedWhileProcessing t1)
                         @ map (\<lambda>p. p\<lparr>retries := 0\<rparr>) (arrivedWhileWaiting t1)"
    and c1: "clock ?m1 = clock m + took t1 + timerMs (postDelay m)"
    and e1: "events ?m1 = events m @ [Started (jobId p1) (clock m),
               Finished (jobId p1) (clock m + took t1), Waited (postDelay m)]"
    using assms by (simp_all add: iteration_resolved)
  obtain r d where rd: "processPost p2 t2 = (r, d)" by (cases "processPost p2 t2")
  show ?thesis
    using m1 c1 e1 rd
    by (cases r) (simp_all add: iteration_def pushAll_def observe_def delay_def Let_def)
qed

lemma two_posts_run:
  assumes "queue m = [p1, p2]" "\<not> isProcessing m" "hasProcessor p1" "hasProcessor p2"
    "outcome t1 = Resolved" "outcome t2 = Resolved"
    "arrivedWhileProcessing t1 = []" "arrivedWhileWaiting t1 = []" "arrivedWhileProcessing t2 = []"
  shows "processQueue [t1, t2] m =
     Some (m\<lparr>queue := [], 
             clock := clock m + took t1 + timerMs (postDelay m) + took t2,
             events := events m @ [Started (jobId p1) (clock m), Finished (jobId p1) (clock m + took t1),
                       Waited (postDelay m),
                       Started (jobId p2) (clock m + took t1 + timerMs (postDelay m)),
                       Finished (jobId p2) (clock m + took t1 + timerMs (postDelay m) + took t2)]\<rparr>)"
proof -
  define m0 where "m0 = m\<lparr>isProcessing := True\<rparr>"
  define m1 where "m1 = m0\<lparr>queue := [p2], clock := clock m + took t1 + timerMs (postDelay m),
             events := events m @ [Started (jobId p1) (clock m),
               Finished (jobId p1) (clock m + took t1), Waited (postDelay m)]\<rparr>"
  define m2 where "m2 = m0\<lparr>queue := [], clock := clock m + took t1 + timerMs (postDelay m) + took t2,
             events := events m @ [Started (jobId p1) (clock m), Finished (jobId p1) (clock m + took t1),
                       Waited (postDelay m),
                       Started (jobId p2) (clock m + took t1 + timerMs (postDelay m)),
                       Finished (jobId p2) (clock m + took t1 + timerMs (postDelay m) + took t2)]\<rparr>"
  have s1: "iteration t1 m0 = m1"
    using assms by (simp add: iteration_resolved [where p = p1 and rest = "[p2]"] m0_def m1_def)
  have s2: "iteration t2 m1 = m2"
    using assms by (simp add: iteration_resolved [where p = p2 and rest = "[]"] m0_def m1_def m2_def)
  have q0: "queue m0 \<noteq> []" and q1: "queue m1 \<noteq> []" and q2: "queue m2 = []"
    using assms by (simp_all add: m0_def m1_def m2_def)
  have "processLoop [t1, t2] m0 = processLoop [t2] m1"
    by (simp only: processLoop_step [OF q0] s1)
  also have "\<dots> = processLoop [] m2"
    by (simp only: processLoop_step [OF q1] s2)
  also have "\<dots> = Some m2"
    using q2 by (rule processLoop_done)
  finally show ?thesis
    using assms by (simp add: processQueue_def m0_def m2_def)
qed

lemma single_post_run:
  assumes "queue m = [p]" "\<not> isProcessing m" "hasProcessor p" "outcome t = Resolved"
    "arrivedWhileProcessing t = []"
  shows "processQueue (t # ts) m =
     Some (m\<lparr>queue := [], clock := clock m + took t,
             events := events m @ [Started (jobId p) (clock m), Finished (jobId p) (clock m + took t)]\<rparr>)"
proof -
  define m0 where "m0 = m\<lparr>isProcessing := True\<rparr>"
  define m1 where "m1 = m0\<lparr>queue := [], clock := clock m + took t,
             events := events m @ [Started (jobId p) (clock m), Finished (jobId p) (clock m + took t)]\<rparr>"
  have s1: "iteration t m0 = m1"
    using assms by (simp add: iteration_resolved [where p = p and rest = "[]"] m0_def m1_def)
  have q0: "queue m0 \<noteq> []" and q1: "queue m1 = []"
    using assms by (simp_all add: m0_def m1_def)
  have "processLoop (t # ts) m0 = processLoop ts m1"
    by (simp only: processLoop_step [OF q0] s1)
  also have "\<dots> = Some m1"
    using q1 by (rule processLoop_done)
  finally show ?thesis
    using assms by (simp add: processQueue_def m0_def m1_def)
qed

lemma post_after_dropped_post:
  assumes "queue m = p1 # p2 # rest" "fst (processPost p1 t1) = Rejected msg"
    "\<not> retries p1 < maxRetries m"
  shows "\<exists>es. events (iteration t2 (iteration t1 m)) =
           events m @ [Started (jobId p1) (clock m),
                       Failed (jobId p1) (clock m + snd (processPost p1 t1)) msg,
                       Skipped (jobId p1),
                       Started (jobId p2) (clock m + snd (processPost p1 t1))] @ es"
proof -
  let ?m1 = "iteration t1 m"
  have m1: "queue ?m1 = p2 # rest @ map (\<lambda>p. p\<lparr>retries := 0\<rparr>) (arrivedWhileProcessing t1)
                         @ map (\<lambda>p. p\<lparr>retries := 0\<rparr>) (arrivedWhileWaiting t1)"
    and c1: "clock ?m1 = clock m + snd (processPost p1 t1)"
    and e1: "events ?m1 = events m @ [Started (jobId p1) (clock m),
               Failed (jobId p1) (clock m + snd (processPost p1 t1)) msg, Skipped (jobId p1)]"
    using assms by (simp_all add: iteration_rejected_skip [where p = p1 and msg = msg])
  obtain r d where rd: "processPost p2 t2 = (r, d)" by (cases "processPost p2 t2")
  show ?thesis
    using m1 c1 e1 rd
    by (cases r) (simp_all add: iteration_def pushAll_def observe_def delay_def Let_def)
qed

text \<open>
  C7, as claimed: for two queued jobs, the second job's processing does not start before
  \<open>postDelayMs\<close> has elapsed after the first job's completion. It does when the first job
  is given up: the first of two queued posts is rejected three times (\<open>maxRetries\<close> is 2),
  the retry waits are 5000 ms and 10000 ms, the post is dropped at 15021 ms, and the
  second post starts at 15021 ms; the queue never waits the \<open>postDelay\<close> of 20000 ms.
\<close>

theorem dropped_post_no_postDelay:
  "processQueue
     [\<lparr>outcome = Rejected ''boom'', took = 7, arrivedWhileProcessing = [], arrivedWhileWaiting = []\<rparr>,
      \<lparr>outcome = Rejected ''boom'', took = 7, arrivedWhileProcessing = [], arrivedWhileWaiting = []\<rparr>,
      \<lparr>outcome = Rejected ''boom'', took = 7, arrivedWhileProcessing = [], arrivedWhileWaiting = []\<rparr>,
      \<lparr>outcome = Resolved, took = 9, arrivedWhileProcessing = [], arrivedWhileWaiting = []\<rparr>]
     ((newQueueManager \<lparr>cfgPostDelay = 20000, cfgMaxRetries = 2, cfgRetryDelay = 5000\<rparr>)
        \<lparr>queue := [\<lparr>jobId = 1, hasProcessor = True, retries = 0\<rparr>,
                   \<lparr>jobId = 2, hasProcessor = True, retries = 0\<rparr>]\<rparr>)
   = Some ((newQueueManager \<lparr>cfgPostDelay = 20000, cfgMaxRetries = 2, cfgRetryDelay = 5000\<rparr>)
        \<lparr>clock := 15030,
         events := [Started 1 0, Failed 1 7 ''boom'', Waited 5000,
                    Started 1 5007, Failed 1 5014 ''boom'', Waited 10000,
                    Started 1 15014, Failed 1 15021 ''boom'', Skipped 1,
                    Started 2 15021, Finished 2 15030]\<rparr>)"
  by (simp add: processQueue_def processLoop.simps iteration_def processPost_def pushAll_def
      observe_def delay_def timerMs_def newQueueManager_def orDefault_def Let_def)

text \<open>
  C7, amended. The inter-post delay belongs to the posts whose processing resolved. After
  such a post the delay is awaited exactly when the backlog is non-empty at that moment,
  for any backlog and any arrivals (first part); the timer runs \<open>timerMs postDelay\<close>, which
  is \<open>postDelay\<close> milliseconds between 1 and \<open>2\<^sup>3\<^sup>1 - 1\<close>. With a second post queued behind
  the first, the second post's processing starts that long after the first one finished
  (second part). A post that is alone in the backlog is followed by no delay and the loop
  ends (third part); two queued posts run as start, finish, delay, start, finish (fourth
  part). A post whose processing is rejected is never followed by the inter-post delay:
  with retries left it goes back to the front and the queue waits 5000 ms times its new
  retry count (fifth part); with none left it is dropped and the post behind it starts
  at once (sixth part). The awaits on the logger take no time in this model.
\<close>

theorem postDelay_between_posts:
  "(queue m = p # rest \<and> hasProcessor p \<and> outcome t = Resolved \<longrightarrow>
      events (iteration t m) =
        events m @ [Started (jobId p) (clock m), Finished (jobId p) (clock m + took t)]
          @ (if rest @ arrivedWhileProcessing t = [] then [] else [Waited (postDelay m)])
      \<and> clock (iteration t m) =
          clock m + took t
            + (if rest @ arrivedWhileProcessing t = [] then 0 else timerMs (postDelay m)))
   \<and> (queue m = p1 # p2 # others \<and> hasProcessor p1 \<and> outcome t1 = Resolved \<longrightarrow>
        (\<exists>es. events (iteration t2 (iteration t1 m)) =
           events m @ [Started (jobId p1) (clock m), Finished (jobId p1) (clock m + took t1),
                       Waited (postDelay m),
                       Started (jobId p2) (clock m + took t1 + timerMs (postDelay m))] @ es))
   \<and> (queue m = [p] \<and> \<not> isProcessing m \<and> hasProcessor p \<and> outcome t = Resolved
        \<and> arrivedWhileProcessing t = [] \<longrightarrow>
        processQueue (t # ts) m =
          Some (m\<lparr>queue := [], clock := clock m + took t,
                  events := events m @ [Started (jobId p) (clock m),
                                        Finished (jobId p) (clock m + took t)]\<rparr>))
   \<and> (queue m = [p1, p2] \<and> \<not> isProcessing m \<and> hasProcessor p1 \<and> hasProcessor p2
        \<and> outcome t1 = Resolved \<and> outcome t2 = Resolved
        \<and> arrivedWhileProcessing t1 = [] \<and> arrivedWhileWaiting t1 = []
        \<and> arrivedWhileProcessing t2 = [] \<longrightarrow>
        processQueue [t1, t2] m =
          Some (m\<lparr>queue := [],
                  clock := clock m + took t1 + timerMs (postDelay m) + took t2,
                  events := events m @
                    [Started (jobId p1) (clock m), Finished (jobId p1) (clock m + took t1),
                     Waited (postDelay m),
                     Started (jobId p2) (clock m + took t1 + timerMs (postDelay m)),
                     Finished (jobId p2) (clock m + took t1 + timerMs (postDelay m) + took t2)]\<rparr>))
   \<and> (queue n = q # behind \<and> fst (processPost q u) = Rejected msg \<and> retries q < maxRetries n \<longrightarrow>
        events (iteration u n) =
          events n @ [Started (jobId q) (clock n),
                      Failed (jobId q) (clock n + snd (processPost q u)) msg,
                      Waited (5000 * (retries q + 1))]
        \<and> hd (queue (iteration u n)) = q\<lparr>retries := retries q + 1\<rparr>
        \<and> clock (iteration u n) =
            clock n + snd (processPost q u) + timerMs (5000 * (retries q + 1)))
   \<and> (queue n = q1 # q2 # waiting \<and> fst (processPost q1 u1) = Rejected msg
        \<and> \<not> retries q1 < maxRetries n \<longrightarrow>
        (\<exists>es. events (iteration u2 (iteration u1 n)) =
           events n @ [Started (jobId q1) (clock n),
                       Failed (jobId q1) (clock n + snd (processPost q1 u1)) msg,
                       Skipped (jobId q1),
                       Started (jobId q2) (clock n + snd (processPost q1 u1))] @ es))"
proof (intro conjI impI)
  assume a: "queue m = p # rest \<and> hasProcessor p \<and> outcome t = Resolved"
  then show "events (iteration t m) =
        events m @ [Started (jobId p) (clock m), Finished (jobId p) (clock m + took t)]
          @ (if rest @ arrivedWhileProcessing t = [] then [] else [Waited (postDelay m)])"
    by (simp add: iteration_resolved [where p = p and rest = rest])
  from a show "clock (iteration t m) =
          clock m + took t
            + (if rest @ arrivedWhileProcessing t = [] then 0 else timerMs (postDelay m))"
    by (simp add: iteration_resolved [where p = p and rest = rest])
next
  assume "queue m = p1 # p2 # others \<and> hasProcessor p1 \<and> outcome t1 = Resolved"
  then show "\<exists>es. events (iteration t2 (iteration t1 m)) =
           events m @ [Started (jobId p1) (clock m), Finished (jobId p1) (clock m + took t1),
                       Waited (postDelay m),
                       Started (jobId p2) (clock m + took t1 + timerMs (postDelay m))] @ es"
    using second_post_start [of m p1 p2 others t1 t2] by blast
next
  assume "queue m = [p] \<and> \<not> isProcessing m \<and> hasProcessor p \<and> outcome t = Resolved
        \<and> arrivedWhileProcessing t = []"
  then show "processQueue (t # ts) m =
          Some (m\<lparr>queue := [], clock := clock m + took t,
                  events := events m @ [Started (jobId p) (clock m),
                                        Finished (jobId p) (clock m + took t)]\<rparr>)"
    using single_post_run [of m p t ts] by blast
next
  assume "queue m = [p1, p2] \<and> \<not> isProcessing m \<and> hasProcessor p1 \<and> hasProcessor p2
        \<and> outcome t1 = Resolved \<and> outcome t2 = Resolved
        \<and> arrivedWhileProcessing t1 = [] \<and> arrivedWhileWaiting t1 = []
        \<and> arrivedWhileProcessing t2 = []"
  then show "processQueue [t1, t2] m =
          Some (m\<lparr>queue := [],
                  clock := clock m + took t1 + timerMs (postDelay m) + took t2,
                  events := events m @
                    [Started (jobId p1) (clock m), Finished (jobId p1) (clock m + took t1),
                     Waited (postDelay m),
                     Started (jobId p2) (clock m + took t1 + timerMs (postDelay m)),
                     Finished (jobId p2) (clock m + took t1 + timerMs (postDelay m) + took t2)]\<rparr>)"
    using two_posts_run [of m p1 p2 t1 t2] by blast
next
  assume b: "queue n = q # behind \<and> fst (processPost q u) = Rejected msg \<and> retries q < maxRetries n"
  then have step: "iteration u n =
      n\<lparr>queue := q\<lparr>retries := retries q + 1\<rparr> # behind @ map (\<lambda>p. p\<lparr>retries := 0\<rparr>) (arrivedWhileProcessing u)
                         @ map (\<lambda>p. p\<lparr>retries := 0\<rparr>) (arrivedWhileWaiting u),
             clock := clock n + snd (processPost q u) + timerMs (5000 * (retries q + 1)),
             events := events n @ [Started (jobId q) (clock n), Failed (jobId q) (clock n + snd (processPost q u)) msg,
                                   Waited (5000 * (retries q + 1))]\<rparr>"
    using iteration_rejected_retry [of n q behind u msg] by blast
  show "events (iteration u n) =
          events n @ [Started (jobId q) (clock n),
                      Failed (jobId q) (clock n + snd (processPost q u)) msg,
                      Waited (5000 * (retries q + 1))]"
    by (simp add: step)
  show "hd (queue (iteration u n)) = q\<lparr>retries := retries q + 1\<rparr>"
    by (simp add: step)
  show "clock (iteration u n) =
            clock n + snd (processPost q u) + timerMs (5000 * (retries q + 1))"
    by (simp add: step)
next
  assume "queue n = q1 # q2 # waiting \<and> fst (processPost q1 u1) = Rejected msg
        \<and> \<not> retries q1 < maxRetries n"
  then show "\<exists>es. events (iteration u2 (iteration u1 n)) =
           events n @ [Started (jobId q1) (clock n),
                       Failed (jobId q1) (clock n + snd (processPost q1 u1)) msg,
                       Skipped (jobId q1),
                       Started (jobId q2) (clock n + snd (processPost q1 u1))] @ es"
    using post_after_dropped_post [of n q1 q2 waiting u1 msg u2] by blast
qed

text \<open>
  The run of two posts that resolve, the run of one post, a post rejected with retries
  left, and a post dropped in front of another one.
\<close>

theorem postDelay_between_posts_witness:
  "events (iteration \<lparr>outcome = Resolved, took = 7, arrivedWhileProcessing = [], arrivedWhileWaiting = []\<rparr>
      ((newQueueManager \<lparr>cfgPostDelay = 20000, cfgMaxRetries = 2, cfgRetryDelay = 5000\<rparr>)\<lparr>queue := [\<lparr>jobId = 1, hasProcessor = True, retries = 0\<rparr>, \<lparr>jobId = 2, hasProcessor = True, retries = 0\<rparr>]\<rparr>))
     = [Started 1 0, Finished 1 7, Waited 20000]
   \<and> (\<exists>es. events (iteration \<lparr>outcome = Resolved, took = 9, arrivedWhileProcessing = [], arrivedWhileWaiting = []\<rparr>
        (iteration \<lparr>outcome = Resolved, took = 7, arrivedWhileProcessing = [], arrivedWhileWaiting = []\<rparr>
          ((newQueueManager \<lparr>cfgPostDelay = 20000, cfgMaxRetries = 2, cfgRetryDelay = 5000\<rparr>)\<lparr>queue := [\<lparr>jobId = 1, hasProcessor = True, retries = 0\<rparr>, \<lparr>jobId = 2, hasProcessor = True, retries = 0\<rparr>]\<rparr>)))
       = [Started 1 0, Finished 1 7, Waited 20000, Started 2 20007] @ es)
   \<and> processQueue [\<lparr>outcome = Resolved, took = 7, arrivedWhileProcessing = [], arrivedWhileWaiting = []\<rparr>]
        ((newQueueManager \<lparr>cfgPostDelay = 20000, cfgMaxRetries = 2, cfgRetryDelay = 5000\<rparr>)\<lparr>queue := [\<lparr>jobId = 1, hasProcessor = True, retries = 0\<rparr>]\<rparr>)
       = Some ((newQueueManager \<lparr>cfgPostDelay = 20000, cfgMaxRetries = 2, cfgRetryDelay = 5000\<rparr>)
                 \<lparr>clock := 7, events := [Started 1 0, Finished 1 7]\<rparr>)
   \<and> processQueue [\<lparr>outcome = Resolved, took = 7, arrivedWhileProcessing = [], arrivedWhileWaiting = []\<rparr>,
                    \<lparr>outcome = Resolved, took = 9, arrivedWhileProcessing = [], arrivedWhileWaiting = []\<rparr>]
        ((newQueueManager \<lparr>cfgPostDelay = 20000, cfgMaxRetries = 2, cfgRetryDelay = 5000\<rparr>)\<lparr>queue := [\<lparr>jobId = 1, hasProcessor = True, retries = 0\<rparr>, \<lparr>jobId = 2, hasProcessor = True, retries = 0\<rparr>]\<rparr>)
       = Some ((newQueueManager \<lparr>cfgPostDelay = 20000, cfgMaxRetries = 2, cfgRetryDelay = 5000\<rparr>)
                 \<lparr>clock := 20016,
                  events := [Started 1 0, Finished 1 7, Waited 20000,
                             Started 2 20007, Finished 2 20016]\<rparr>)
   \<and> events (iteration \<lparr>outcome = Rejected ''boom'', took = 7, arrivedWhileProcessing = [], arrivedWhileWaiting = []\<rparr>
      ((newQueueManager \<lparr>cfgPostDelay = 20000, cfgMaxRetries = 2, cfgRetryDelay = 5000\<rparr>)\<lparr>queue := [\<lparr>jobId = 1, hasProcessor = True, retries = 0\<rparr>, \<lparr>jobId = 2, hasProcessor = True, retries = 0\<rparr>]\<rparr>))
     = [Started 1 0, Failed 1 7 ''boom'', Waited 5000]
   \<and> (\<exists>es. events (iteration \<lparr>outcome = Resolved, took = 9, arrivedWhileProcessing = [], arrivedWhileWaiting = []\<rparr>
        (iteration \<lparr>outcome = Rejected ''boom'', took = 7, arrivedWhileProcessing = [], arrivedWhileWaiting = []\<rparr>
          ((newQueueManager \<lparr>cfgPostDelay = 20000, cfgMaxRetries = 2, cfgRetryDelay = 5000\<rparr>)\<lparr>queue := [\<lparr>jobId = 1, hasProcessor = True, retries = 2\<rparr>, \<lparr>jobId = 2, hasProcessor = True, retries = 0\<rparr>]\<rparr>)))
       = [Started 1 0, Failed 1 7 ''boom'', Skipped 1, Started 2 7] @ es)"
  using postDelay_between_posts
      [where m = "((newQueueManager \<lparr>cfgPostDelay = 20000, cfgMaxRetries = 2, cfgRetryDelay = 5000\<rparr>)\<lparr>queue := [\<lparr>jobId = 1, hasProcessor = True, retries = 0\<rparr>, \<lparr>jobId = 2, hasProcessor = True, retries = 0\<rparr>]\<rparr>)"
         and p = "\<lparr>jobId = 1, hasProcessor = True, retries = 0\<rparr>"
         and rest = "[\<lparr>jobId = 2, hasProcessor = True, retries = 0\<rparr>]"
         and t = "\<lparr>outcome = Resolved, took = 7, arrivedWhileProcessing = [], arrivedWhileWaiting = []\<rparr>"
         and others = "[]"
         and ?p1.0 = "\<lparr>jobId = 1, hasProcessor = True, retries = 0\<rparr>"
         and ?p2.0 = "\<lparr>jobId = 2, hasProcessor = True, retries = 0\<rparr>"
         and ?t1.0 = "\<lparr>outcome = Resolved, took = 7, arrivedWhileProcessing = [], arrivedWhileWaiting = []\<rparr>"
         and ?t2.0 = "\<lparr>outcome = Resolved, took = 9, arrivedWhileProcessing = [], arrivedWhileWaiting = []\<rparr>"
         and ts = "[]"
         and n = "((newQueueManager \<lparr>cfgPostDelay = 20000, cfgMaxRetries = 2, cfgRetryDelay = 5000\<rparr>)\<lparr>queue := [\<lparr>jobId = 1, hasProcessor = True, retries = 0\<rparr>, \<lparr>jobId = 2, hasProcessor = True, retries = 0\<rparr>]\<rparr>)"
         and q = "\<lparr>jobId = 1, hasProcessor = True, retries = 0\<rparr>"
         and behind = "[\<lparr>jobId = 2, hasProcessor = True, retries = 0\<rparr>]"
         and u = "\<lparr>outcome = Rejected ''boom'', took = 7, arrivedWhileProcessing = [], arrivedWhileWaiting = []\<rparr>"
         and msg = "''boom''"]
    postDelay_between_posts
      [where m = "((newQueueManager \<lparr>cfgPostDelay = 20000, cfgMaxRetries = 2, cfgRetryDelay = 5000\<rparr>)\<lparr>queue := [\<lparr>jobId = 1, hasProcessor = True, retries = 0\<rparr>]\<rparr>)"
         and p = "\<lparr>jobId = 1, hasProcessor = True, retries = 0\<rparr>"
         and rest = "[]"
         and t = "\<lparr>outcome = Resolved, took = 7, arrivedWhileProcessing = [], arrivedWhileWaiting = []\<rparr>"
         and ts = "[]"
         and n = "((newQueueManager \<lparr>cfgPostDelay = 20000, cfgMaxRetries = 2, cfgRetryDelay = 5000\<rparr>)\<lparr>queue := [\<lparr>jobId = 1, hasProcessor = True, retries = 2\<rparr>, \<lparr>jobId = 2, hasProcessor = True, retries = 0\<rparr>]\<rparr>)"
         and ?q1.0 = "\<lparr>jobId = 1, hasProcessor = True, retries = 2\<rparr>"
         and ?q2.0 = "\<lparr>jobId = 2, hasProcessor = True, retries = 0\<rparr>"
         and waiting = "[]"
         and ?u1.0 = "\<lparr>outcome = Rejected ''boom'', took = 7, arrivedWhileProcessing = [], arrivedWhileWaiting = []\<rparr>"
         and ?u2.0 = "\<lparr>outcome = Resolved, took = 9, arrivedWhileProcessing = [], arrivedWhileWaiting = []\<rparr>"
         and msg = "''boom''"]
  by (simp add: newQueueManager_def orDefault_def processPost_def timerMs_def)

text \<open>
  What the retry branch does, for any configuration: a post whose processing failed with
  fewer than \<open>maxRetries\<close> retries behind it has its count incremented and goes back to
  the front of the backlog, ahead of everything that arrived meanwhile and of everything
  that arrives during the wait; the wait is \<open>5000\<close> times the new count.
\<close>

lemma retry_puts_post_in_front:
  assumes "queue m = p # rest" "fst (processPost p t) = Rejected msg" "retries p < maxRetries m"
  shows "hd (queue (iteration t m)) = p\<lparr>retries := retries p + 1\<rparr>
     \<and> last (events (iteration t m)) = Waited (5000 * (retries p + 1))"
  using iteration_rejected_retry [OF assms] by simp

text \<open>
  C5. The claim: the wait before a retry is the configured \<^verbatim>\<open>config.queue.retryDelay\<close>
  (\<^verbatim>\<open>QUEUE_RETRY_DELAY\<close>) times the post's new retry count. The queue never reads
  that setting: the factor is the literal 5000. With the setting at 1000 and a post that
  fails once, the post is put back in front with count 1 and the queue waits 5000 ms, not
  1000 ms.
\<close>

theorem retry_delay_ignores_config:
  "iteration \<lparr>outcome = Rejected ''boom'', took = 7, arrivedWhileProcessing = [],
              arrivedWhileWaiting = []\<rparr>
     ((newQueueManager \<lparr>cfgPostDelay = 20000, cfgMaxRetries = 2, cfgRetryDelay = 1000\<rparr>)
        \<lparr>queue := [\<lparr>jobId = 1, hasProcessor = True, retries = 0\<rparr>]\<rparr>)
   = (newQueueManager \<lparr>cfgPostDelay = 20000, cfgMaxRetries = 2, cfgRetryDelay = 1000\<rparr>)
        \<lparr>queue := [\<lparr>jobId = 1, hasProcessor = True, retries = 1\<rparr>],
         clock := 5007,
         events := [Started 1 0, Failed 1 7 ''boom'', Waited 5000]\<rparr>
   \<and> Waited 5000 \<noteq> Waited (cfgRetryDelay
         (config (newQueueManager
            \<lparr>cfgPostDelay = 20000, cfgMaxRetries = 2, cfgRetryDelay = 1000\<rparr>)) * 1)"
  by (simp add: iteration_def processPost_def pushAll_def observe_def delay_def timerMs_def
      newQueueManager_def orDefault_def Let_def)

section \<open>What the steps leave unchanged\<close>

lemma emit_fields [simp]:
  "browser (emit e s) = browser s" "page (emit e s) = page s"
  "isLoggedIn (emit e s) = isLoggedIn s" "running (emit e s) = running s"
  "launches (emit e s) = launches s" "now (emit e s) = now s"
  "killTimers (emit e s) = killTimers s" "twitterRetryDelay (emit e s) = twitterRetryDelay s"
  by (simp_all add: emit_def)

lemma forceKill_fields [simp]:
  "browser (forceKill k s) = browser s" "page (forceKill k s) = page s"
  "isLoggedIn (forceKill k s) = isLoggedIn s" "launches (forceKill k s) = launches s"
  "now (forceKill k s) = now s" "killTimers (forceKill k s) = killTimers s"
  "twitterRetryDelay (forceKill k s) = twitterRetryDelay s"
  by (simp_all add: forceKill_def split: option.splits)

lemma running_forceKill:
  "running (forceKill k s) = (case browser s of None \<Rightarrow> running s
      | Some b \<Rightarrow> if k then running s else running s - {b})"
  by (simp add: forceKill_def split: option.splits)

lemma running_forceKill_subset: "running (forceKill k s) \<subseteq> running s"
  by (auto simp: running_forceKill split: option.splits)

text \<open>The timers that fire: a sequence of kills.\<close>

lemma kills_fields [simp]:
  "browser (fold (\<lambda>timer. forceKill (snd timer)) ts s) = browser s"
  "page (fold (\<lambda>timer. forceKill (snd timer)) ts s) = page s"
  "isLoggedIn (fold (\<lambda>timer. forceKill (snd timer)) ts s) = isLoggedIn s"
  "launches (fold (\<lambda>timer. forceKill (snd timer)) ts s) = launches s"
  "now (fold (\<lambda>timer. forceKill (snd timer)) ts s) = now s"
  "killTimers (fold (\<lambda>timer. forceKill (snd timer)) ts s) = killTimers s"
  "twitterRetryDelay (fold (\<lambda>timer. forceKill (snd timer)) ts s) = twitterRetryDelay s"
  by (induction ts arbitrary: s) simp_all

lemma running_kills_subset:
  "running (fold (\<lambda>timer. forceKill (snd timer)) ts s) \<subseteq> running s"
proof (induction ts arbitrary: s)
  case Nil
  show ?case by simp
next
  case (Cons t ts)
  have "running (fold (\<lambda>timer. forceKill (snd timer)) ts (forceKill (snd t) s))
      \<subseteq> running (forceKill (snd t) s)"
    by (rule Cons.IH)
  also have "\<dots> \<subseteq> running s"
    by (rule running_forceKill_subset)
  finally show ?case by simp
qed

lemma elapse_fields [simp]:
  "browser (elapse d s) = browser s" "page (elapse d s) = page s"
  "isLoggedIn (elapse d s) = isLoggedIn s" "launches (elapse d s) = launches s"
  "now (elapse d s) = now s + d" "twitterRetryDelay (elapse d s) = twitterRetryDelay s"
  by (simp_all add: elapse_def fireKillTimers_def)

lemma running_fireKillTimers_subset: "running (fireKillTimers t s) \<subseteq> running s"
proof -
  have "running (fireKillTimers t s)
      \<subseteq> running (s\<lparr>killTimers := filter (\<lambda>timer. \<not> fst timer \<le> t) (killTimers s)\<rparr>)"
    unfolding fireKillTimers_def by (rule running_kills_subset)
  then show ?thesis by simp
qed

lemma running_elapse_subset: "running (elapse d s) \<subseteq> running s"
  using running_fireKillTimers_subset [of "now s + d" s] by (simp add: elapse_def)

lemma armKillTimer_fields [simp]:
  "browser (armKillTimer due k s) = browser s" "page (armKillTimer due k s) = page s"
  "isLoggedIn (armKillTimer due k s) = isLoggedIn s" "running (armKillTimer due k s) = running s"
  "launches (armKillTimer due k s) = launches s" "now (armKillTimer due k s) = now s"
  "trace (armKillTimer due k s) = trace s"
  "twitterRetryDelay (armKillTimer due k s) = twitterRetryDelay s"
  by (simp_all add: armKillTimer_def)

lemma sleep_fields [simp]:
  "browser (sleep ms s) = browser s" "page (sleep ms s) = page s"
  "isLoggedIn (sleep ms s) = isLoggedIn s" "launches (sleep ms s) = launches s"
  "now (sleep ms s) = now s + timerMs ms" "twitterRetryDelay (sleep ms s) = twitterRetryDelay s"
  by (simp_all add: sleep_def)

lemma running_sleep_subset: "running (sleep ms s) \<subseteq> running s"
  using running_elapse_subset [of "timerMs ms" s] by (simp add: sleep_def)

section \<open>Properties of closeBrowser\<close>

lemma closeAttempt_settles: "fst (closeAttempt te s) \<noteq> Hung"
  by (cases "closing te")
     (auto simp: closeAttempt_def split: option.splits raced.splits closed.splits)

lemma closeBrowser_resets:
  "browser (closeBrowser te s) = None \<and> page (closeBrowser te s) = None
   \<and> \<not> isLoggedIn (closeBrowser te s)"
  by (simp add: closeBrowser_def Let_def)

lemma closeBrowser_without_browser:
  "browser s = None \<Longrightarrow>
   closeBrowser te s = (emit CloseRequested s)\<lparr>page := None, isLoggedIn := False\<rparr>"
  by (simp add: closeBrowser_def closeAttempt_def emit_def Let_def)

lemma closeBrowser_twice:
  "closeBrowser te2 (closeBrowser te1 s) = emit CloseRequested (closeBrowser te1 s)"
proof -
  have "closeBrowser te2 (closeBrowser te1 s)
      = (emit CloseRequested (closeBrowser te1 s))\<lparr>page := None, isLoggedIn := False\<rparr>"
    by (rule closeBrowser_without_browser) (simp add: closeBrowser_resets)
  also have "\<dots> = emit CloseRequested (closeBrowser te1 s)"
    using closeBrowser_resets [of te1 s] by (simp add: emit_def)
  finally show ?thesis .
qed

lemma closeBrowser_running_subset: "running (closeBrowser te s) \<subseteq> running s"
proof (cases "browser s")
  case None
  then show ?thesis by (simp add: closeBrowser_without_browser)
next
  case (Some b)
  have e: "\<And>d. running (elapse d (emit CloseRequested s)) \<subseteq> running s"
    using running_elapse_subset [of _ "emit CloseRequested s"] by simp
  have e': "\<And>d. running (elapse d ((emit CloseRequested s)\<lparr>running := running s - {b}\<rparr>)) \<subseteq> running s"
    using running_elapse_subset [of _ "(emit CloseRequested s)\<lparr>running := running s - {b}\<rparr>"]
    by auto
  have k: "\<And>k u. running u \<subseteq> running s \<Longrightarrow> running (forceKill k u) \<subseteq> running s"
    using running_forceKill_subset by blast
  show ?thesis
  proof (cases "closing te")
    case Never
    then show ?thesis using Some e k
      by (simp add: closeBrowser_def closeAttempt_def Let_def)
  next
    case (Settles d c)
    then show ?thesis using Some e e' k
      by (cases c) (simp_all add: closeBrowser_def closeAttempt_def Let_def)
  qed
qed

lemma closeBrowser_process_gone:
  assumes "browser s = Some b"
    and "\<not> killThrows te \<or> (\<exists>d. d \<le> 5000 \<and> closing te = Settles d CloseResolved)"
  shows "b \<notin> running (closeBrowser te s)"
proof -
  have gone: "\<And>d. b \<notin> running (elapse d ((emit CloseRequested s)\<lparr>running := running s - {b}\<rparr>))"
    using running_elapse_subset [of _ "(emit CloseRequested s)\<lparr>running := running s - {b}\<rparr>"]
    by auto
  have kill: "\<And>u. browser u = Some b \<Longrightarrow> b \<notin> running (forceKill False u)"
    by (simp add: running_forceKill)
  show ?thesis
  proof (cases "closing te")
    case Never
    then have "\<not> killThrows te" using assms by simp
    then show ?thesis using Never assms(1) kill [of "elapse 5000 (emit CloseRequested s)"]
      by (simp add: closeBrowser_def closeAttempt_def Let_def)
  next
    case (Settles d c)
    show ?thesis
    proof (cases c)
      case CloseResolved
      show ?thesis
      proof (cases "d \<le> 5000")
        case True
        then show ?thesis using Settles CloseResolved assms(1) gone
          by (simp add: closeBrowser_def closeAttempt_def Let_def)
      next
        case False
        then have "\<not> killThrows te" using assms Settles by auto
        then show ?thesis using Settles CloseResolved False assms(1)
            kill [of "elapse 5000 (emit CloseRequested s)"]
          by (simp add: closeBrowser_def closeAttempt_def Let_def)
      qed
    next
      case (CloseRejected msg)
      then have nk: "\<not> killThrows te" using assms Settles by auto
      show ?thesis
      proof (cases "d \<le> 5000")
        case True
        then show ?thesis using Settles CloseRejected nk assms(1)
            kill [of "armKillTimer (now s + 5000) False (elapse d (emit CloseRequested s))"]
          by (simp add: closeBrowser_def closeAttempt_def Let_def)
      next
        case False
        then show ?thesis using Settles CloseRejected nk assms(1)
            kill [of "elapse 5000 (emit CloseRequested s)"]
          by (simp add: closeBrowser_def closeAttempt_def Let_def)
      qed
    qed
  qed
qed

text \<open>
  C9, as the code has it. \<^verbatim>\<open>closeBrowser\<close> always returns (its result is a state:
  every error is caught and the \<^verbatim>\<open>finally\<close> block ends each path). After any call,
  whatever the graceful close did, the browser, the page and the login flag are reset;
  a second call right after does nothing but return (the recorded call apart, the state
  is the same: no process is touched, no time passes). The browser process is gone
  after the calls provided the graceful close resolved before the 5 second timer or the
  kill signal was delivered.
\<close>

theorem closeBrowser_idempotent:
  "browser (closeBrowser te1 s) = None \<and> page (closeBrowser te1 s) = None
   \<and> \<not> isLoggedIn (closeBrowser te1 s)
   \<and> closeBrowser te2 (closeBrowser te1 s) = emit CloseRequested (closeBrowser te1 s)
   \<and> (browser s = Some b
        \<and> (\<not> killThrows te1 \<or> (\<exists>d. d \<le> 5000 \<and> closing te1 = Settles d CloseResolved))
       \<longrightarrow> b \<notin> running (closeBrowser te2 (closeBrowser te1 s)))"
proof (intro conjI impI)
  show "browser (closeBrowser te1 s) = None" "page (closeBrowser te1 s) = None"
    "\<not> isLoggedIn (closeBrowser te1 s)"
    by (simp_all add: closeBrowser_resets)
  show "closeBrowser te2 (closeBrowser te1 s) = emit CloseRequested (closeBrowser te1 s)"
    by (rule closeBrowser_twice)
next
  assume a: "browser s = Some b
    \<and> (\<not> killThrows te1 \<or> (\<exists>d. d \<le> 5000 \<and> closing te1 = Settles d CloseResolved))"
  then have "b \<notin> running (closeBrowser te1 s)"
    using closeBrowser_process_gone [of s b te1] by blast
  then show "b \<notin> running (closeBrowser te2 (closeBrowser te1 s))"
    by (simp add: closeBrowser_twice)
qed

theorem closeBrowser_idempotent_witness:
  "browser (snd (initializeBrowser LaunchOk (newTwitterPoster \<lparr>cfgTwitterMaxRetries = 2, cfgTwitterRetryDelay = 5000\<rparr>))) = Some 0
   \<and> 0 \<in> running (snd (initializeBrowser LaunchOk (newTwitterPoster \<lparr>cfgTwitterMaxRetries = 2, cfgTwitterRetryDelay = 5000\<rparr>)))
   \<and> 0 \<notin> running
        (closeBrowser \<lparr>closing = Never, killThrows = False\<rparr>
          (closeBrowser \<lparr>closing = Never, killThrows = False\<rparr>
            (snd (initializeBrowser LaunchOk (newTwitterPoster \<lparr>cfgTwitterMaxRetries = 2, cfgTwitterRetryDelay = 5000\<rparr>)))))"
proof -
  have b: "browser (snd (initializeBrowser LaunchOk (newTwitterPoster \<lparr>cfgTwitterMaxRetries = 2, cfgTwitterRetryDelay = 5000\<rparr>))) = Some 0"
    and r: "0 \<in> running (snd (initializeBrowser LaunchOk (newTwitterPoster \<lparr>cfgTwitterMaxRetries = 2, cfgTwitterRetryDelay = 5000\<rparr>)))"
    by (simp_all add: initializeBrowser_def newTwitterPoster_def emit_def Let_def)
  have k: "\<not> killThrows \<lparr>closing = Never, killThrows = False\<rparr>"
    by simp
  have "0 \<notin> running
        (closeBrowser \<lparr>closing = Never, killThrows = False\<rparr>
          (closeBrowser \<lparr>closing = Never, killThrows = False\<rparr>
            (snd (initializeBrowser LaunchOk (newTwitterPoster \<lparr>cfgTwitterMaxRetries = 2, cfgTwitterRetryDelay = 5000\<rparr>)))))"
    using closeBrowser_idempotent
      [where s = "snd (initializeBrowser LaunchOk (newTwitterPoster \<lparr>cfgTwitterMaxRetries = 2, cfgTwitterRetryDelay = 5000\<rparr>))"
         and b = 0
         and ?te1.0 = "\<lparr>closing = Never, killThrows = False\<rparr>"
         and ?te2.0 = "\<lparr>closing = Never, killThrows = False\<rparr>"] b k
    by blast
  with b r show ?thesis by blast
qed

text \<open>
  C9 as stated fails where the graceful close rejects and the kill throws as well: both
  errors are caught and logged, the handle is dropped, and the browser process launched
  before is still running after two calls.
\<close>

theorem closeBrowser_residual_process:
  "0 \<in> running
     (closeBrowser \<lparr>closing = Settles 10 (CloseRejected ''Target closed''), killThrows = True\<rparr>
       (closeBrowser \<lparr>closing = Settles 10 (CloseRejected ''Target closed''), killThrows = True\<rparr>
         (snd (initializeBrowser LaunchOk (newTwitterPoster \<lparr>cfgTwitterMaxRetries = 2, cfgTwitterRetryDelay = 5000\<rparr>)))))
   \<and> browser
     (closeBrowser \<lparr>closing = Settles 10 (CloseRejected ''Target closed''), killThrows = True\<rparr>
       (closeBrowser \<lparr>closing = Settles 10 (CloseRejected ''Target closed''), killThrows = True\<rparr>
         (snd (initializeBrowser LaunchOk (newTwitterPoster \<lparr>cfgTwitterMaxRetries = 2, cfgTwitterRetryDelay = 5000\<rparr>))))) = None"
  by (simp add: closeBrowser_def closeAttempt_def forceKill_def initializeBrowser_def
      armKillTimer_def newTwitterPoster_def emit_def elapse_def fireKillTimers_def Let_def)

section \<open>Properties of the retry loop\<close>

text \<open>No step of a try changes the retry delay.\<close>

lemma retryDelay_closeAttempt [simp]:
  "twitterRetryDelay (snd (closeAttempt te s)) = twitterRetryDelay s"
  by (simp add: closeAttempt_def split: option.splits promise.splits raced.splits closed.splits)

lemma retryDelay_closeBrowser [simp]: "twitterRetryDelay (closeBrowser te s) = twitterRetryDelay s"
  by (simp add: closeBrowser_def Let_def split: step.splits)

lemma retryDelay_initializeBrowser [simp]:
  "twitterRetryDelay (snd (initializeBrowser l s)) = twitterRetryDelay s"
  by (simp add: initializeBrowser_def Let_def split: launching.splits)

lemma retryDelay_runPhases [simp]:
  "twitterRetryDelay (snd (runPhases ph s)) = twitterRetryDelay s"
  by (simp add: runPhases_def split: phases.splits)

lemma retryDelay_publishSequence [simp]:
  "twitterRetryDelay (snd (publishSequence e s)) = twitterRetryDelay s"
  by (simp add: publishSequence_def Let_def split: step.splits)

lemma retryDelay_captureErrorScreenshot [simp]:
  "twitterRetryDelay (snd (captureErrorScreenshot sh a s)) = twitterRetryDelay s"
  by (simp add: captureErrorScreenshot_def Let_def split: shot.splits)

lemma retry_success:
  "fst (publishSequence (env a) (emit (AttemptStarted a) s)) = Done url \<Longrightarrow>
   postTweetWithRetry env a s =
     (Some (Inr url), snd (publishSequence (env a) (emit (AttemptStarted a) s)))"
  by (simp add: postTweetWithRetry.simps [of env a s] Let_def)

lemma retry_hang:
  "fst (publishSequence (env a) (emit (AttemptStarted a) s)) = Hung \<Longrightarrow>
   postTweetWithRetry env a s =
     (None, snd (publishSequence (env a) (emit (AttemptStarted a) s)))"
  by (simp add: postTweetWithRetry.simps [of env a s] Let_def)

text \<open>The state in which the \<^verbatim>\<open>catch\<close> block has closed the browser.\<close>

lemma retry_capture_hang:
  assumes "fst (publishSequence (env a) (emit (AttemptStarted a) s)) = Threw msg"
    and "\<not> fst (captureErrorScreenshot (shot (env a)) a
           (emit (AttemptFailed a msg) (snd (publishSequence (env a) (emit (AttemptStarted a) s)))))"
  shows "postTweetWithRetry env a s =
     (None, snd (captureErrorScreenshot (shot (env a)) a
           (emit (AttemptFailed a msg) (snd (publishSequence (env a) (emit (AttemptStarted a) s))))))"
  using assms by (simp add: postTweetWithRetry.simps [of env a s] Let_def)

lemma retry_again:
  assumes "fst (publishSequence (env a) (emit (AttemptStarted a) s)) = Threw msg"
    and "fst (captureErrorScreenshot (shot (env a)) a
           (emit (AttemptFailed a msg) (snd (publishSequence (env a) (emit (AttemptStarted a) s)))))"
    and "int a < twitterMaxRetries s"
  shows "postTweetWithRetry env a s =
     postTweetWithRetry env (a + 1)
       (sleep (twitterRetryDelay s * (int a + 1))
         (closeBrowser (teardown (env a))
           (snd (captureErrorScreenshot (shot (env a)) a
             (emit (AttemptFailed a msg)
               (snd (publishSequence (env a) (emit (AttemptStarted a) s))))))))"
  using assms by (simp add: postTweetWithRetry.simps [of env a s] Let_def)

lemma retry_final:
  assumes "fst (publishSequence (env a) (emit (AttemptStarted a) s)) = Threw msg"
    and "fst (captureErrorScreenshot (shot (env a)) a
           (emit (AttemptFailed a msg) (snd (publishSequence (env a) (emit (AttemptStarted a) s)))))"
    and "\<not> int a < twitterMaxRetries s"
  shows "postTweetWithRetry env a s =
     (Some (Inl (Error msg)),
      closeBrowser (teardown (env a))
        (snd (captureErrorScreenshot (shot (env a)) a
          (emit (AttemptFailed a msg)
            (snd (publishSequence (env a) (emit (AttemptStarted a) s)))))))"
  using assms by (simp add: postTweetWithRetry.simps [of env a s] Let_def)

subsection \<open>The calls among the events\<close>

lemma calls_append [simp]: "calls (xs @ ys) = calls xs @ calls ys"
  by (simp add: calls_def)

lemma calls_emit: "calls (trace (emit e s)) = calls (trace s) @ (if isCall e then [e] else [])"
  by (simp add: emit_def calls_def)

text \<open>A kill is no call and no try, so the timers that fire add none.\<close>

lemma filter_trace_forceKill:
  "(\<And>b. \<not> P (Killed b)) \<Longrightarrow> filter P (trace (forceKill k s)) = filter P (trace s)"
  by (simp add: forceKill_def emit_def split: option.splits)

lemma filter_trace_kills:
  "(\<And>b. \<not> P (Killed b)) \<Longrightarrow>
   filter P (trace (fold (\<lambda>timer. forceKill (snd timer)) ts s)) = filter P (trace s)"
  by (induction ts arbitrary: s) (simp_all add: filter_trace_forceKill)

lemma filter_trace_elapse:
  "(\<And>b. \<not> P (Killed b)) \<Longrightarrow> filter P (trace (elapse d s)) = filter P (trace s)"
  by (simp add: elapse_def fireKillTimers_def filter_trace_kills)

lemma calls_elapse [simp]: "calls (trace (elapse d s)) = calls (trace s)"
  by (simp add: calls_def filter_trace_elapse)

lemma calls_sleep [simp]: "calls (trace (sleep ms s)) = calls (trace s) @ [Slept ms]"
  by (simp add: sleep_def calls_emit)

lemma calls_forceKill [simp]: "calls (trace (forceKill k s)) = calls (trace s)"
  by (simp add: calls_def filter_trace_forceKill)

lemma calls_armKillTimer [simp]: "calls (trace (armKillTimer due k s)) = calls (trace s)"
  by simp

lemma calls_closeAttempt [simp]: "calls (trace (snd (closeAttempt te s))) = calls (trace s)"
  by (simp add: closeAttempt_def calls_emit
      split: option.splits promise.splits raced.splits closed.splits)

lemma calls_closeBrowser [simp]:
  "calls (trace (closeBrowser te s)) = calls (trace s) @ [CloseRequested]"
  by (simp add: closeBrowser_def Let_def calls_emit split: step.splits)

lemma calls_initializeBrowser [simp]:
  "calls (trace (snd (initializeBrowser l s))) = calls (trace s)"
  by (simp add: initializeBrowser_def Let_def calls_emit split: launching.splits)

lemma calls_runPhases [simp]: "calls (trace (snd (runPhases ph s))) = calls (trace s)"
  by (simp add: runPhases_def split: phases.splits)

lemma calls_publishSequence [simp]:
  "calls (trace (snd (publishSequence e s))) = calls (trace s)"
  by (simp add: publishSequence_def Let_def calls_emit split: step.splits)

lemma calls_captureErrorScreenshot [simp]:
  "calls (trace (snd (captureErrorScreenshot sh a s))) = calls (trace s) @ [ScreenshotRequested a]"
  by (simp add: captureErrorScreenshot_def Let_def calls_emit split: shot.splits)

lemma retryBlock_cong:
  "\<forall>k \<in> set ks. msgs k = msgs' k \<Longrightarrow>
   map (retryBlock d msgs) ks = map (retryBlock d msgs') ks"
  by (simp add: retryBlock_def)

lemma retry_calls:
  "\<exists>n msgs rest.
      a \<le> n \<and> (n = a \<or> int n \<le> twitterMaxRetries s)
    \<and> calls (trace (snd (postTweetWithRetry env a s))) =
        calls (trace s) @ concat (map (retryBlock (twitterRetryDelay s) msgs) [a..<n])
          @ AttemptStarted n # rest
    \<and> ((rest = [] \<and> (fst (postTweetWithRetry env a s) = None
                      \<or> (\<exists>url. fst (postTweetWithRetry env a s) = Some (Inr url))))
       \<or> (rest = [AttemptFailed n (msgs n), ScreenshotRequested n]
           \<and> fst (postTweetWithRetry env a s) = None)
       \<or> (rest = [AttemptFailed n (msgs n), ScreenshotRequested n, CloseRequested]
           \<and> fst (postTweetWithRetry env a s) = Some (Inl (Error (msgs n)))
           \<and> \<not> int n < twitterMaxRetries s))"
  (is "\<exists>n msgs rest. ?P env a s n msgs rest")
proof (induction env a s rule: postTweetWithRetry.induct)
  case (1 env a s)
  define tried where "tried = publishSequence (env a) (emit (AttemptStarted a) s)"
  have c0: "calls (trace (snd tried)) = calls (trace s) @ [AttemptStarted a]"
    by (simp add: tried_def calls_emit)
  show ?case
  proof (cases "fst tried")
    case (Done url)
    then have "postTweetWithRetry env a s = (Some (Inr url), snd tried)"
      unfolding tried_def by (rule retry_success)
    then have "fst (postTweetWithRetry env a s) = Some (Inr url)"
      and "snd (postTweetWithRetry env a s) = snd tried"
      by simp_all
    then have "?P env a s a (\<lambda>_. []) []"
      by (simp add: c0)
    then show ?thesis by blast
  next
    case Hung
    then have "postTweetWithRetry env a s = (None, snd tried)"
      unfolding tried_def by (rule retry_hang)
    then have "fst (postTweetWithRetry env a s) = None"
      and "snd (postTweetWithRetry env a s) = snd tried"
      by simp_all
    then have "?P env a s a (\<lambda>_. []) []"
      by (simp add: c0)
    then show ?thesis by blast
  next
    case (Threw msg)
    define captured where
      "captured = captureErrorScreenshot (shot (env a)) a (emit (AttemptFailed a msg) (snd tried))"
    have c1: "calls (trace (snd captured)) =
        calls (trace s) @ [AttemptStarted a, AttemptFailed a msg, ScreenshotRequested a]"
      by (simp add: captured_def calls_emit c0)
    show ?thesis
    proof (cases "fst captured")
      case False
      then have "postTweetWithRetry env a s = (None, snd captured)"
        using Threw retry_capture_hang [of env a s msg]
        unfolding tried_def captured_def by simp
      then have "fst (postTweetWithRetry env a s) = None"
        and "snd (postTweetWithRetry env a s) = snd captured"
        by simp_all
      then have "?P env a s a (\<lambda>_. msg) [AttemptFailed a msg, ScreenshotRequested a]"
        by (simp add: c1)
      then show ?thesis by blast
    next
      case True
      define s3 where "s3 = closeBrowser (teardown (env a)) (snd captured)"
      have m3: "twitterMaxRetries s3 = twitterMaxRetries s"
        and d3: "twitterRetryDelay s3 = twitterRetryDelay s"
        by (simp_all add: s3_def captured_def tried_def)
      have c3: "calls (trace s3) =
          calls (trace s) @ [AttemptStarted a, AttemptFailed a msg, ScreenshotRequested a,
                             CloseRequested]"
        by (simp add: s3_def c1)
      show ?thesis
      proof (cases "int a < twitterMaxRetries s")
        case False
        then have "postTweetWithRetry env a s = (Some (Inl (Error msg)), s3)"
          using Threw True retry_final [of env a s msg]
          unfolding tried_def captured_def s3_def by simp
        then have "fst (postTweetWithRetry env a s) = Some (Inl (Error msg))"
          and "snd (postTweetWithRetry env a s) = s3"
          by simp_all
        then have "?P env a s a (\<lambda>_. msg)
            [AttemptFailed a msg, ScreenshotRequested a, CloseRequested]"
          using False by (simp add: c3)
        then show ?thesis by blast
      next
        case less: True
        define s4 where "s4 = sleep (twitterRetryDelay s3 * (int a + 1)) s3"
        have eq: "postTweetWithRetry env a s = postTweetWithRetry env (a + 1) s4"
          using Threw True less retry_again [of env a s msg]
          unfolding tried_def captured_def s3_def s4_def by (simp add: d3 [unfolded s3_def captured_def tried_def])
        have m4: "twitterMaxRetries s4 = twitterMaxRetries s"
          and d4: "twitterRetryDelay s4 = twitterRetryDelay s"
          by (simp_all add: s4_def m3 d3)
        have c4: "calls (trace s4) =
            calls (trace s) @ retryBlock (twitterRetryDelay s) (\<lambda>_. msg) a"
          by (simp add: s4_def c3 d3 retryBlock_def)
        have "\<exists>n msgs rest. ?P env (a + 1) s4 n msgs rest"
          using "1.IH" [OF tried_def Threw captured_def _ s3_def] True less
          unfolding s4_def by (simp add: m3)
        then obtain n msgs rest where ih: "?P env (a + 1) s4 n msgs rest"
          by blast
        define msgs' where "msgs' = msgs(a := msg)"
        have n: "a < n" using ih by simp
        have "map (retryBlock (twitterRetryDelay s) msgs') [Suc a..<n]
            = map (retryBlock (twitterRetryDelay s) msgs) [Suc a..<n]"
          by (rule retryBlock_cong) (simp add: msgs'_def)
        then have same': "concat (map (retryBlock (twitterRetryDelay s) msgs') [Suc a..<n])
            = concat (map (retryBlock (twitterRetryDelay s) msgs) [Suc a..<n])"
          by (rule arg_cong)
        have blk: "retryBlock (twitterRetryDelay s) (\<lambda>_. msg) a
            = retryBlock (twitterRetryDelay s) msgs' a"
          by (simp add: retryBlock_def msgs'_def)
        have upt: "[a..<n] = a # [a + 1..<n]"
          using n by (simp add: upt_conv_Cons)
        have last: "msgs' n = msgs n"
          using n by (simp add: msgs'_def)
        have le: "int n \<le> twitterMaxRetries s"
          using ih less unfolding m4 by auto
        have "?P env a s n msgs' rest"
          using ih n le unfolding eq [symmetric] m4 d4 c4 upt last blk
          by (simp add: same')
        then show ?thesis by blast
      qed
    qed
  qed
qed

subsection \<open>The tries among the events\<close>

lemma isAttemptStart_isCall: "isAttemptStart e \<Longrightarrow> isCall e"
  by (cases e) simp_all

lemma tries_calls: "tries (calls es) = tries es"
  by (induction es) (auto simp: tries_def calls_def dest: isAttemptStart_isCall)

lemma tries_append [simp]: "tries (xs @ ys) = tries xs @ tries ys"
  by (simp add: tries_def)

lemma tries_retryBlocks:
  "tries (concat (map (retryBlock d msgs) [a..<n])) = map AttemptStarted [a..<n]"
  by (induction n) (simp_all add: tries_def retryBlock_def)

lemma retry_tries:
  assumes "a \<le> n"
    and "calls (trace u) =
        calls (trace s) @ concat (map (retryBlock d msgs) [a..<n]) @ AttemptStarted n # rest"
    and "rest = [] \<or> rest = [AttemptFailed n m, ScreenshotRequested n]
       \<or> rest = [AttemptFailed n m, ScreenshotRequested n, CloseRequested]"
  shows "tries (trace u) = tries (trace s) @ map AttemptStarted [a..<n + 1]"
proof -
  have r: "tries (AttemptStarted n # rest) = [AttemptStarted n]"
    using assms(3) by (auto simp: tries_def)
  have "tries (trace u) = tries (calls (trace u))"
    by (simp add: tries_calls)
  also have "\<dots> = tries (calls (trace s)) @ map AttemptStarted [a..<n] @ [AttemptStarted n]"
    unfolding assms(2) by (simp only: tries_append tries_retryBlocks r)
  also have "\<dots> = tries (trace s) @ map AttemptStarted [a..<n + 1]"
    using assms(1) by (simp add: tries_calls)
  finally show ?thesis .
qed

subsection \<open>The session across the tries\<close>

lemma consistent_emit [simp]: "consistent (emit e s) = consistent s"
  by (simp add: consistent_def)

lemma consistent_elapse [simp]: "consistent (elapse d s) = consistent s"
  by (simp add: consistent_def)

lemma consistent_sleep [simp]: "consistent (sleep ms s) = consistent s"
  by (simp add: consistent_def)

lemma consistent_closeBrowser [simp]: "consistent (closeBrowser te s)"
  by (simp add: consistent_def closeBrowser_resets)


lemma initializeBrowser_done:
  "fst (initializeBrowser l s) = Done u \<Longrightarrow> browser (snd (initializeBrowser l s)) \<noteq> None"
  by (auto simp: initializeBrowser_def Let_def split: if_splits launching.splits)

lemma initializeBrowser_not_hung: "fst (initializeBrowser l s) \<noteq> Hung"
  by (auto simp: initializeBrowser_def Let_def split: if_splits launching.splits)

lemma consistent_initializeBrowser:
  "consistent s \<Longrightarrow> consistent (snd (initializeBrowser l s))"
  by (auto simp: initializeBrowser_def Let_def consistent_def split: if_splits launching.splits)

lemma runPhases_fields [simp]:
  "browser (snd (runPhases ph s)) = browser s" "page (snd (runPhases ph s)) = page s"
  "running (snd (runPhases ph s)) = running s"
  by (simp_all add: runPhases_def split: phases.splits)

lemma runPhases_done:
  "fst (runPhases ph s) = Done url \<Longrightarrow> page s \<noteq> None \<and> isLoggedIn (snd (runPhases ph s))"
  by (auto simp: runPhases_def split: if_splits phases.splits)

lemma runPhases_hung: "fst (runPhases ph s) = Hung \<Longrightarrow> page s \<noteq> None"
  by (auto simp: runPhases_def split: if_splits phases.splits)

lemma consistent_runPhases [simp]: "consistent (snd (runPhases ph s)) = consistent s"
  by (simp add: consistent_def)

lemma publishSequence_done:
  assumes "fst (publishSequence e s) = Done url"
  shows "browser (snd (publishSequence e s)) \<noteq> None \<and> page (snd (publishSequence e s)) \<noteq> None
     \<and> isLoggedIn (snd (publishSequence e s))"
proof -
  define started where "started = initializeBrowser (launch e) (elapse (startTook e) s)"
  define ran where "ran = runPhases (phases e) (snd started)"
  have i: "fst started = Done ()" and r: "fst ran = Done url"
    and u: "snd (publishSequence e s)
        = emit ImagesDeleted (emit (Published url) (elapse (tryTook e) (snd ran)))"
    using assms unfolding started_def ran_def
    by (auto simp: publishSequence_def Let_def split: step.splits)
  have "browser (snd started) \<noteq> None"
    using i unfolding started_def by (rule initializeBrowser_done)
  moreover have "page (snd started) \<noteq> None \<and> isLoggedIn (snd ran)"
    using r unfolding ran_def by (rule runPhases_done)
  ultimately show ?thesis
    unfolding u by (simp add: ran_def)
qed

lemma publishSequence_hung:
  assumes "fst (publishSequence e s) = Hung"
  shows "browser (snd (publishSequence e s)) \<noteq> None"
proof -
  define started where "started = initializeBrowser (launch e) (elapse (startTook e) s)"
  define ran where "ran = runPhases (phases e) (snd started)"
  have i: "fst started = Done ()" and u: "snd (publishSequence e s) = snd ran"
    using assms initializeBrowser_not_hung [of "launch e" "elapse (startTook e) s"]
    unfolding started_def ran_def
    by (auto simp: publishSequence_def Let_def split: step.splits)
  have "browser (snd started) \<noteq> None"
    using i unfolding started_def by (rule initializeBrowser_done)
  then show ?thesis
    unfolding u by (simp add: ran_def)
qed

lemma consistent_publishSequence:
  "consistent s \<Longrightarrow> consistent (snd (publishSequence e s))"
  by (auto simp: publishSequence_def Let_def split: step.splits
      intro: consistent_initializeBrowser)

lemma captureErrorScreenshot_fields [simp]:
  "browser (snd (captureErrorScreenshot sh a s)) = browser s"
  "page (snd (captureErrorScreenshot sh a s)) = page s"
  "isLoggedIn (snd (captureErrorScreenshot sh a s)) = isLoggedIn s"
  "running (snd (captureErrorScreenshot sh a s)) = running s"
  "now (snd (captureErrorScreenshot sh a s)) = now s"
  by (simp_all add: captureErrorScreenshot_def Let_def split: shot.splits)

lemma captureErrorScreenshot_trace:
  "trace (snd (captureErrorScreenshot sh a s)) =
     trace s @ ScreenshotRequested a #
       (if page s \<noteq> None \<and> sh = ShotTaken then [ScreenshotTaken a] else [])"
  by (cases sh) (simp_all add: captureErrorScreenshot_def Let_def emit_def)

lemma captureErrorScreenshot_settles:
  "fst (captureErrorScreenshot sh a s) \<longleftrightarrow> page s = None \<or> sh \<noteq> ShotHangs"
  by (cases sh) (simp_all add: captureErrorScreenshot_def Let_def)

lemma captureErrorScreenshot_hung:
  "\<not> fst (captureErrorScreenshot sh a s) \<Longrightarrow> page s \<noteq> None"
  by (simp add: captureErrorScreenshot_settles)

lemma consistent_captureErrorScreenshot [simp]:
  "consistent (snd (captureErrorScreenshot sh a s)) = consistent s"
  by (simp add: consistent_def)

lemma retry_outcome_state:
  "(\<forall>e. fst (postTweetWithRetry env a s) = Some (Inl e) \<longrightarrow>
        browser (snd (postTweetWithRetry env a s)) = None
      \<and> page (snd (postTweetWithRetry env a s)) = None
      \<and> \<not> isLoggedIn (snd (postTweetWithRetry env a s)))
   \<and> (\<forall>url. fst (postTweetWithRetry env a s) = Some (Inr url) \<longrightarrow>
        browser (snd (postTweetWithRetry env a s)) \<noteq> None
      \<and> page (snd (postTweetWithRetry env a s)) \<noteq> None
      \<and> isLoggedIn (snd (postTweetWithRetry env a s)))
   \<and> (consistent s \<longrightarrow> consistent (snd (postTweetWithRetry env a s)))
   \<and> (fst (postTweetWithRetry env a s) = None \<and> consistent s \<longrightarrow>
        browser (snd (postTweetWithRetry env a s)) \<noteq> None)"
  (is "?Q env a s")
proof (induction env a s rule: postTweetWithRetry.induct)
  case (1 env a s)
  define tried where "tried = publishSequence (env a) (emit (AttemptStarted a) s)"
  have k0: "consistent s \<Longrightarrow> consistent (snd tried)"
    by (simp add: tried_def consistent_publishSequence)
  show ?case
  proof (cases "fst tried")
    case (Done url)
    then have "postTweetWithRetry env a s = (Some (Inr url), snd tried)"
      unfolding tried_def by (rule retry_success)
    then have "fst (postTweetWithRetry env a s) = Some (Inr url)"
      and "snd (postTweetWithRetry env a s) = snd tried"
      by simp_all
    moreover have "browser (snd tried) \<noteq> None \<and> page (snd tried) \<noteq> None \<and> isLoggedIn (snd tried)"
      using Done unfolding tried_def by (rule publishSequence_done)
    ultimately show ?thesis using k0 by simp
  next
    case Hung
    then have "postTweetWithRetry env a s = (None, snd tried)"
      unfolding tried_def by (rule retry_hang)
    then have "fst (postTweetWithRetry env a s) = None"
      and "snd (postTweetWithRetry env a s) = snd tried"
      by simp_all
    moreover have "browser (snd tried) \<noteq> None"
      using Hung unfolding tried_def by (rule publishSequence_hung)
    ultimately show ?thesis using k0 by simp
  next
    case (Threw msg)
    define captured where
      "captured = captureErrorScreenshot (shot (env a)) a (emit (AttemptFailed a msg) (snd tried))"
    have k1: "consistent s \<Longrightarrow> consistent (snd captured)"
      using k0 by (simp add: captured_def)
    show ?thesis
    proof (cases "fst captured")
      case False
      then have "postTweetWithRetry env a s = (None, snd captured)"
        using Threw retry_capture_hang [of env a s msg]
        unfolding tried_def captured_def by simp
      then have "fst (postTweetWithRetry env a s) = None"
        and "snd (postTweetWithRetry env a s) = snd captured"
        by simp_all
      moreover have "page (snd captured) \<noteq> None"
        using False captureErrorScreenshot_hung unfolding captured_def by fastforce
      ultimately show ?thesis using k1 by (auto simp: consistent_def)
    next
      case True
      define s3 where "s3 = closeBrowser (teardown (env a)) (snd captured)"
      have m3: "twitterMaxRetries s3 = twitterMaxRetries s"
        by (simp add: s3_def captured_def tried_def)
      show ?thesis
      proof (cases "int a < twitterMaxRetries s")
        case False
        then have "postTweetWithRetry env a s = (Some (Inl (Error msg)), s3)"
          using Threw True retry_final [of env a s msg]
          unfolding tried_def captured_def s3_def by simp
        then have "fst (postTweetWithRetry env a s) = Some (Inl (Error msg))"
          and "snd (postTweetWithRetry env a s) = s3"
          by simp_all
        then show ?thesis
          by (simp add: s3_def closeBrowser_resets)
      next
        case less: True
        define s4 where "s4 = sleep (twitterRetryDelay s3 * (int a + 1)) s3"
        have d3: "twitterRetryDelay s3 = twitterRetryDelay s"
          by (simp add: s3_def captured_def tried_def)
        have eq: "postTweetWithRetry env a s = postTweetWithRetry env (a + 1) s4"
          using Threw True less retry_again [of env a s msg]
          unfolding tried_def captured_def s3_def s4_def
          by (simp add: d3 [unfolded s3_def captured_def tried_def])
        have k4: "consistent s4"
          by (simp add: s4_def s3_def)
        have "?Q env (a + 1) s4"
          using "1.IH" [OF tried_def Threw captured_def _ s3_def] True less
          unfolding s4_def by (simp add: m3)
        then show ?thesis
          unfolding eq [symmetric] using k4 by simp
      qed
    qed
  qed
qed

subsection \<open>Four runs\<close>

text \<open>
  With the default settings (2 retries, 5000 ms): a run whose three tries fail in
  \<^verbatim>\<open>publishTweet\<close>, a run that publishes at the first try, a run whose first try
  never gets past \<^verbatim>\<open>navigateToCompose\<close>, and a run in which the browser cannot be
  launched. The launch takes 200 ms, the rest of a try 1000 ms, the close 100 ms.
\<close>

lemma run_three_failures:
  "postTweetWithRetry (always \<lparr>startTook = 200, launch = LaunchOk, phases = FailsIn PublishTweet ''boom'',
        tryTook = 1000, shot = ShotTaken,
        teardown = \<lparr>closing = Settles 100 CloseResolved, killThrows = False\<rparr>\<rparr>) 0 (newTwitterPoster \<lparr>cfgTwitterMaxRetries = 2, cfgTwitterRetryDelay = 5000\<rparr>)
   = (Some (Inl (Error ''boom'')),
      \<lparr>browser = None, page = None, isLoggedIn = False,
         twitterMaxRetries = 2, twitterRetryDelay = 5000,
         running = {}, launches = 3, killTimers = [(23800, False)], now = 18900,
         trace = [AttemptStarted 0, Launched 0, AttemptFailed 0 ''boom'', ScreenshotRequested 0,
                  ScreenshotTaken 0, CloseRequested, Closed 0, Slept 5000,
                  AttemptStarted 1, Launched 1, AttemptFailed 1 ''boom'', ScreenshotRequested 1,
                  ScreenshotTaken 1, CloseRequested, Closed 1, Slept 10000,
                  AttemptStarted 2, Launched 2, AttemptFailed 2 ''boom'', ScreenshotRequested 2,
                  ScreenshotTaken 2, CloseRequested, Closed 2]\<rparr>)"
  by (simp add: postTweetWithRetry.simps always_def publishSequence_def initializeBrowser_def runPhases_def
      captureErrorScreenshot_def closeBrowser_def closeAttempt_def forceKill_def armKillTimer_def
      sleep_def timerMs_def emit_def elapse_def fireKillTimers_def newTwitterPoster_def
      orDefault_def Let_def)

lemma run_success:
  "postTweetWithRetry (always \<lparr>startTook = 200, launch = LaunchOk, phases = Publishes ''https://x.com/u/status/1'',
        tryTook = 1000, shot = ShotTaken,
        teardown = \<lparr>closing = Settles 100 CloseResolved, killThrows = False\<rparr>\<rparr>) 0 (newTwitterPoster \<lparr>cfgTwitterMaxRetries = 2, cfgTwitterRetryDelay = 5000\<rparr>)
   = (Some (Inr ''https://x.com/u/status/1''),
      \<lparr>browser = Some 0, page = Some 0, isLoggedIn = True,
         twitterMaxRetries = 2, twitterRetryDelay = 5000,
         running = {0}, launches = 1, killTimers = [], now = 1200,
         trace = [AttemptStarted 0, Launched 0, Published ''https://x.com/u/status/1'',
                  ImagesDeleted]\<rparr>)"
  by (simp add: postTweetWithRetry.simps always_def publishSequence_def initializeBrowser_def runPhases_def
      captureErrorScreenshot_def closeBrowser_def closeAttempt_def forceKill_def armKillTimer_def
      sleep_def timerMs_def emit_def elapse_def fireKillTimers_def newTwitterPoster_def
      orDefault_def Let_def)

lemma run_hang:
  "postTweetWithRetry (always \<lparr>startTook = 200, launch = LaunchOk, phases = HangsIn NavigateToCompose,
        tryTook = 1000, shot = ShotTaken,
        teardown = \<lparr>closing = Settles 100 CloseResolved, killThrows = False\<rparr>\<rparr>) 0 (newTwitterPoster \<lparr>cfgTwitterMaxRetries = 2, cfgTwitterRetryDelay = 5000\<rparr>)
   = (None,
      \<lparr>browser = Some 0, page = Some 0, isLoggedIn = True,
         twitterMaxRetries = 2, twitterRetryDelay = 5000,
         running = {0}, launches = 1, killTimers = [], now = 200,
         trace = [AttemptStarted 0, Launched 0]\<rparr>)"
  by (simp add: postTweetWithRetry.simps always_def publishSequence_def initializeBrowser_def runPhases_def
      captureErrorScreenshot_def closeBrowser_def closeAttempt_def forceKill_def armKillTimer_def
      sleep_def timerMs_def emit_def elapse_def fireKillTimers_def newTwitterPoster_def
      orDefault_def Let_def)

text \<open>The defaults of the constructor: 2 retries, hence 3 tries, and 5000 ms.\<close>

lemma default_settings:
  "twitterMaxRetries (newTwitterPoster \<lparr>cfgTwitterMaxRetries = 0, cfgTwitterRetryDelay = 0\<rparr>) = 2
   \<and> twitterRetryDelay (newTwitterPoster \<lparr>cfgTwitterMaxRetries = 0, cfgTwitterRetryDelay = 0\<rparr>)
       = 5000"
  by (simp add: newTwitterPoster_def orDefault_def)

text \<open>
  C6, as claimed: between any two consecutive tries the loop captures a diagnostic
  screenshot of the failure point. It does not when there is no page: if
  \<^verbatim>\<open>puppeteer.launch\<close> fails at each of the three tries, \<^verbatim>\<open>captureErrorScreenshot\<close> and
  \<^verbatim>\<open>closeBrowser\<close> are called between the tries, but no screenshot is taken (the test
  \<^verbatim>\<open>if (this.page)\<close> fails) and there is no session to close: the events of the whole
  run hold no \<open>ScreenshotTaken\<close> and no \<open>Closed\<close>.
\<close>

theorem retry_without_screenshot:
  "postTweetWithRetry (always \<lparr>startTook = 200, launch = LaunchFails ''Failed to launch the browser process'', phases = FailsIn PublishTweet ''boom'',
        tryTook = 0, shot = ShotTaken,
        teardown = \<lparr>closing = Settles 100 CloseResolved, killThrows = False\<rparr>\<rparr>) 0 (newTwitterPoster \<lparr>cfgTwitterMaxRetries = 2, cfgTwitterRetryDelay = 5000\<rparr>)
   = (Some (Inl (Error ''Failed to launch the browser process'')),
      \<lparr>browser = None, page = None, isLoggedIn = False,
         twitterMaxRetries = 2, twitterRetryDelay = 5000,
         running = {}, launches = 0, killTimers = [], now = 15600,
         trace = [AttemptStarted 0, AttemptFailed 0 ''Failed to launch the browser process'',
                  ScreenshotRequested 0, CloseRequested, Slept 5000,
                  AttemptStarted 1, AttemptFailed 1 ''Failed to launch the browser process'',
                  ScreenshotRequested 1, CloseRequested, Slept 10000,
                  AttemptStarted 2, AttemptFailed 2 ''Failed to launch the browser process'',
                  ScreenshotRequested 2, CloseRequested]\<rparr>)"
  by (simp add: postTweetWithRetry.simps always_def publishSequence_def initializeBrowser_def runPhases_def
      captureErrorScreenshot_def closeBrowser_def closeAttempt_def forceKill_def armKillTimer_def
      sleep_def timerMs_def emit_def elapse_def fireKillTimers_def newTwitterPoster_def
      orDefault_def Let_def)

text \<open>
  C6, amended. A run of \<^verbatim>\<open>postTweetWithRetry\<close> from try 0 makes the tries \<open>0, \<dots>, n\<close>
  one after the other and no other, with \<open>n \<le> maxRetries\<close> (at most \<open>maxRetries + 1\<close>
  tries, 3 by default) or \<open>n = 0\<close> (one try, if \<open>maxRetries\<close> is negative); between the start of try
  \<open>k\<close> and the start of try \<open>k + 1\<close> the calls are exactly: the try fails,
  \<^verbatim>\<open>captureErrorScreenshot\<close>, \<^verbatim>\<open>closeBrowser\<close>, sleep of \<open>retryDelay \<times> (k + 1)\<close>; and the
  run ends in try \<open>n\<close> in one of four ways (first part).

  What the steps after a failed try do, when the screenshot capture settles (second
  part): the capture takes a screenshot exactly when there is a page and
  \<^verbatim>\<open>page.screenshot\<close> succeeds; \<^verbatim>\<open>closeBrowser\<close> resets browser, page and login flag, and
  the process of the browser that the try held is gone if the close resolved within 5
  seconds or the kill was delivered; with a retry left, the run goes on as the run from
  try \<open>a + 1\<close> in the state behind the close and a sleep of
  \<open>timerMs (retryDelay \<times> (a + 1))\<close> milliseconds (which is \<open>retryDelay \<times> (a + 1)\<close> between 1 and
  \<open>2\<^sup>3\<^sup>1 - 1\<close>); with none left, the promise rejects with the very error of the try.

  A try that publishes ends the run with the post's URL (third part). If the screenshot
  capture never settles, the run never settles: nothing is closed and nothing is retried
  (fourth part). If the try itself never settles, neither does the run (fifth part).
\<close>

theorem postTweetWithRetry_retries:
  "(\<exists>n msgs rest.
      (n = 0 \<or> int n \<le> twitterMaxRetries s)
    \<and> tries (trace (snd (postTweetWithRetry env 0 s))) =
        tries (trace s) @ map AttemptStarted [0..<n + 1]
    \<and> calls (trace (snd (postTweetWithRetry env 0 s))) =
        calls (trace s) @ concat (map (retryBlock (twitterRetryDelay s) msgs) [0..<n])
          @ AttemptStarted n # rest
    \<and> ((rest = [] \<and> (fst (postTweetWithRetry env 0 s) = None
                      \<or> (\<exists>url. fst (postTweetWithRetry env 0 s) = Some (Inr url))))
       \<or> (rest = [AttemptFailed n (msgs n), ScreenshotRequested n]
           \<and> fst (postTweetWithRetry env 0 s) = None)
       \<or> (rest = [AttemptFailed n (msgs n), ScreenshotRequested n, CloseRequested]
           \<and> fst (postTweetWithRetry env 0 s) = Some (Inl (Error (msgs n)))
           \<and> \<not> int n < twitterMaxRetries s)))
   \<and> (tried = publishSequence (env a) (emit (AttemptStarted a) s)
      \<and> captured = captureErrorScreenshot (shot (env a)) a (emit (AttemptFailed a msg) (snd tried))
      \<and> closed = closeBrowser (teardown (env a)) (snd captured)
      \<and> fst tried = Threw msg \<and> fst captured \<longrightarrow>
        trace (snd captured) =
          trace (snd tried) @ [AttemptFailed a msg, ScreenshotRequested a]
            @ (if page (snd tried) \<noteq> None \<and> shot (env a) = ShotTaken
               then [ScreenshotTaken a] else [])
      \<and> browser closed = None \<and> page closed = None \<and> \<not> isLoggedIn closed
      \<and> (browser (snd tried) = Some b
           \<and> (\<not> killThrows (teardown (env a))
               \<or> (\<exists>d. d \<le> 5000 \<and> closing (teardown (env a)) = Settles d CloseResolved))
          \<longrightarrow> b \<notin> running closed)
      \<and> (int a < twitterMaxRetries s \<longrightarrow>
            postTweetWithRetry env a s =
              postTweetWithRetry env (a + 1) (sleep (twitterRetryDelay s * (int a + 1)) closed)
          \<and> now (sleep (twitterRetryDelay s * (int a + 1)) closed)
              = now closed + timerMs (twitterRetryDelay s * (int a + 1)))
      \<and> (\<not> int a < twitterMaxRetries s \<longrightarrow>
            postTweetWithRetry env a s = (Some (Inl (Error msg)), closed)))
   \<and> (fst (publishSequence (env a) (emit (AttemptStarted a) s)) = Done url \<longrightarrow>
        postTweetWithRetry env a s =
          (Some (Inr url), snd (publishSequence (env a) (emit (AttemptStarted a) s))))
   \<and> (stuck = captureErrorScreenshot (shot (env a)) a
          (emit (AttemptFailed a msg) (snd (publishSequence (env a) (emit (AttemptStarted a) s))))
      \<and> fst (publishSequence (env a) (emit (AttemptStarted a) s)) = Threw msg
      \<and> \<not> fst stuck \<longrightarrow>
        postTweetWithRetry env a s = (None, snd stuck)
      \<and> browser (snd stuck) = browser (snd (publishSequence (env a) (emit (AttemptStarted a) s)))
      \<and> calls (trace (snd stuck)) =
          calls (trace s) @ [AttemptStarted a, AttemptFailed a msg, ScreenshotRequested a])
   \<and> (fst (publishSequence (env a) (emit (AttemptStarted a) s)) = Hung \<longrightarrow>
        postTweetWithRetry env a s =
          (None, snd (publishSequence (env a) (emit (AttemptStarted a) s))))"
proof -
  obtain n msgs rest where
    n: "n = 0 \<or> int n \<le> twitterMaxRetries s"
    and c: "calls (trace (snd (postTweetWithRetry env 0 s))) =
        calls (trace s) @ concat (map (retryBlock (twitterRetryDelay s) msgs) [0..<n])
          @ AttemptStarted n # rest"
    and e: "(rest = [] \<and> (fst (postTweetWithRetry env 0 s) = None
                      \<or> (\<exists>url. fst (postTweetWithRetry env 0 s) = Some (Inr url))))
       \<or> (rest = [AttemptFailed n (msgs n), ScreenshotRequested n]
           \<and> fst (postTweetWithRetry env 0 s) = None)
       \<or> (rest = [AttemptFailed n (msgs n), ScreenshotRequested n, CloseRequested]
           \<and> fst (postTweetWithRetry env 0 s) = Some (Inl (Error (msgs n)))
           \<and> \<not> int n < twitterMaxRetries s)"
    using retry_calls [of 0 s env] by blast
  note b = n
  from e have "rest = [] \<or> rest = [AttemptFailed n (msgs n), ScreenshotRequested n]
       \<or> rest = [AttemptFailed n (msgs n), ScreenshotRequested n, CloseRequested]"
    by blast
  then have t: "tries (trace (snd (postTweetWithRetry env 0 s))) =
        tries (trace s) @ map AttemptStarted [0..<n + 1]"
    using retry_tries [of 0 n "snd (postTweetWithRetry env 0 s)" s "twitterRetryDelay s" msgs rest "msgs n"] c
    by blast
  from b t c e have whole: "\<exists>n msgs rest.
      (n = 0 \<or> int n \<le> twitterMaxRetries s)
    \<and> tries (trace (snd (postTweetWithRetry env 0 s))) =
        tries (trace s) @ map AttemptStarted [0..<n + 1]
    \<and> calls (trace (snd (postTweetWithRetry env 0 s))) =
        calls (trace s) @ concat (map (retryBlock (twitterRetryDelay s) msgs) [0..<n])
          @ AttemptStarted n # rest
    \<and> ((rest = [] \<and> (fst (postTweetWithRetry env 0 s) = None
                      \<or> (\<exists>url. fst (postTweetWithRetry env 0 s) = Some (Inr url))))
       \<or> (rest = [AttemptFailed n (msgs n), ScreenshotRequested n]
           \<and> fst (postTweetWithRetry env 0 s) = None)
       \<or> (rest = [AttemptFailed n (msgs n), ScreenshotRequested n, CloseRequested]
           \<and> fst (postTweetWithRetry env 0 s) = Some (Inl (Error (msgs n)))
           \<and> \<not> int n < twitterMaxRetries s))"
    by blast
  have failed: "tried = publishSequence (env a) (emit (AttemptStarted a) s)
      \<and> captured = captureErrorScreenshot (shot (env a)) a (emit (AttemptFailed a msg) (snd tried))
      \<and> closed = closeBrowser (teardown (env a)) (snd captured)
      \<and> fst tried = Threw msg \<and> fst captured \<longrightarrow>
        trace (snd captured) =
          trace (snd tried) @ [AttemptFailed a msg, ScreenshotRequested a]
            @ (if page (snd tried) \<noteq> None \<and> shot (env a) = ShotTaken
               then [ScreenshotTaken a] else [])
      \<and> browser closed = None \<and> page closed = None \<and> \<not> isLoggedIn closed
      \<and> (browser (snd tried) = Some b
           \<and> (\<not> killThrows (teardown (env a))
               \<or> (\<exists>d. d \<le> 5000 \<and> closing (teardown (env a)) = Settles d CloseResolved))
          \<longrightarrow> b \<notin> running closed)
      \<and> (int a < twitterMaxRetries s \<longrightarrow>
            postTweetWithRetry env a s =
              postTweetWithRetry env (a + 1) (sleep (twitterRetryDelay s * (int a + 1)) closed)
          \<and> now (sleep (twitterRetryDelay s * (int a + 1)) closed)
              = now closed + timerMs (twitterRetryDelay s * (int a + 1)))
      \<and> (\<not> int a < twitterMaxRetries s \<longrightarrow>
            postTweetWithRetry env a s = (Some (Inl (Error msg)), closed))"
  proof (intro impI)
    assume h: "tried = publishSequence (env a) (emit (AttemptStarted a) s)
      \<and> captured = captureErrorScreenshot (shot (env a)) a (emit (AttemptFailed a msg) (snd tried))
      \<and> closed = closeBrowser (teardown (env a)) (snd captured)
      \<and> fst tried = Threw msg \<and> fst captured"
    then have tried: "tried = publishSequence (env a) (emit (AttemptStarted a) s)"
      and captured: "captured = captureErrorScreenshot (shot (env a)) a
                       (emit (AttemptFailed a msg) (snd tried))"
      and closed: "closed = closeBrowser (teardown (env a)) (snd captured)"
      and threw: "fst tried = Threw msg" and settled: "fst captured"
      by blast+
    have threw': "fst (publishSequence (env a) (emit (AttemptStarted a) s)) = Threw msg"
      using threw unfolding tried .
    have settled': "fst (captureErrorScreenshot (shot (env a)) a
             (emit (AttemptFailed a msg) (snd (publishSequence (env a) (emit (AttemptStarted a) s)))))"
      using settled unfolding captured tried .
    have 1: "trace (snd captured) =
            trace (snd tried) @ [AttemptFailed a msg, ScreenshotRequested a]
              @ (if page (snd tried) \<noteq> None \<and> shot (env a) = ShotTaken
                 then [ScreenshotTaken a] else [])"
      unfolding captured by (simp add: captureErrorScreenshot_trace emit_def)
    have 2: "browser closed = None \<and> page closed = None \<and> \<not> isLoggedIn closed"
      unfolding closed by (simp add: closeBrowser_resets)
    have 3: "browser (snd tried) = Some b
           \<and> (\<not> killThrows (teardown (env a))
               \<or> (\<exists>d. d \<le> 5000 \<and> closing (teardown (env a)) = Settles d CloseResolved))
          \<longrightarrow> b \<notin> running closed"
    proof
      assume g: "browser (snd tried) = Some b
           \<and> (\<not> killThrows (teardown (env a))
               \<or> (\<exists>d. d \<le> 5000 \<and> closing (teardown (env a)) = Settles d CloseResolved))"
      then have "browser (snd captured) = Some b"
        unfolding captured by simp
      then show "b \<notin> running closed"
        using g closeBrowser_process_gone [of "snd captured" b "teardown (env a)"]
        unfolding closed by blast
    qed
    have 4: "int a < twitterMaxRetries s \<longrightarrow>
            postTweetWithRetry env a s =
              postTweetWithRetry env (a + 1) (sleep (twitterRetryDelay s * (int a + 1)) closed)
          \<and> now (sleep (twitterRetryDelay s * (int a + 1)) closed)
              = now closed + timerMs (twitterRetryDelay s * (int a + 1))"
    proof (intro impI conjI)
      assume less: "int a < twitterMaxRetries s"
      show "postTweetWithRetry env a s =
              postTweetWithRetry env (a + 1) (sleep (twitterRetryDelay s * (int a + 1)) closed)"
        unfolding closed captured tried
        using threw' settled' less by (rule retry_again)
      show "now (sleep (twitterRetryDelay s * (int a + 1)) closed)
              = now closed + timerMs (twitterRetryDelay s * (int a + 1))"
        by simp
    qed
    have 5: "\<not> int a < twitterMaxRetries s \<longrightarrow>
            postTweetWithRetry env a s = (Some (Inl (Error msg)), closed)"
    proof
      assume last: "\<not> int a < twitterMaxRetries s"
      show "postTweetWithRetry env a s = (Some (Inl (Error msg)), closed)"
        unfolding closed captured tried
        using threw' settled' last by (rule retry_final)
    qed
    from 1 2 3 4 5 show "trace (snd captured) =
          trace (snd tried) @ [AttemptFailed a msg, ScreenshotRequested a]
            @ (if page (snd tried) \<noteq> None \<and> shot (env a) = ShotTaken
               then [ScreenshotTaken a] else [])
      \<and> browser closed = None \<and> page closed = None \<and> \<not> isLoggedIn closed
      \<and> (browser (snd tried) = Some b
           \<and> (\<not> killThrows (teardown (env a))
               \<or> (\<exists>d. d \<le> 5000 \<and> closing (teardown (env a)) = Settles d CloseResolved))
          \<longrightarrow> b \<notin> running closed)
      \<and> (int a < twitterMaxRetries s \<longrightarrow>
            postTweetWithRetry env a s =
              postTweetWithRetry env (a + 1) (sleep (twitterRetryDelay s * (int a + 1)) closed)
          \<and> now (sleep (twitterRetryDelay s * (int a + 1)) closed)
              = now closed + timerMs (twitterRetryDelay s * (int a + 1)))
      \<and> (\<not> int a < twitterMaxRetries s \<longrightarrow>
            postTweetWithRetry env a s = (Some (Inl (Error msg)), closed))"
      by (intro conjI) blast+
  qed
  have published: "fst (publishSequence (env a) (emit (AttemptStarted a) s)) = Done url \<longrightarrow>
        postTweetWithRetry env a s =
          (Some (Inr url), snd (publishSequence (env a) (emit (AttemptStarted a) s)))"
    by (simp add: retry_success)
  have capturing: "stuck = captureErrorScreenshot (shot (env a)) a
          (emit (AttemptFailed a msg) (snd (publishSequence (env a) (emit (AttemptStarted a) s))))
      \<and> fst (publishSequence (env a) (emit (AttemptStarted a) s)) = Threw msg
      \<and> \<not> fst stuck \<longrightarrow>
        postTweetWithRetry env a s = (None, snd stuck)
      \<and> browser (snd stuck) = browser (snd (publishSequence (env a) (emit (AttemptStarted a) s)))
      \<and> calls (trace (snd stuck)) =
          calls (trace s) @ [AttemptStarted a, AttemptFailed a msg, ScreenshotRequested a]"
  proof (intro impI conjI)
    assume h: "stuck = captureErrorScreenshot (shot (env a)) a
          (emit (AttemptFailed a msg) (snd (publishSequence (env a) (emit (AttemptStarted a) s))))
      \<and> fst (publishSequence (env a) (emit (AttemptStarted a) s)) = Threw msg
      \<and> \<not> fst stuck"
    then have stuck: "stuck = captureErrorScreenshot (shot (env a)) a
          (emit (AttemptFailed a msg) (snd (publishSequence (env a) (emit (AttemptStarted a) s))))"
      by blast
    show "postTweetWithRetry env a s = (None, snd stuck)"
      using h retry_capture_hang [of env a s msg] unfolding stuck by blast
    show "browser (snd stuck) = browser (snd (publishSequence (env a) (emit (AttemptStarted a) s)))"
      unfolding stuck by simp
    show "calls (trace (snd stuck)) =
          calls (trace s) @ [AttemptStarted a, AttemptFailed a msg, ScreenshotRequested a]"
      unfolding stuck by (simp add: calls_emit)
  qed
  have hanging: "fst (publishSequence (env a) (emit (AttemptStarted a) s)) = Hung \<longrightarrow>
        postTweetWithRetry env a s =
          (None, snd (publishSequence (env a) (emit (AttemptStarted a) s)))"
    by (simp add: retry_hang)
  show ?thesis
    by (rule conjI [OF whole conjI [OF failed conjI [OF published conjI [OF capturing hanging]]]])
qed

text \<open>
  The run of three failing tries; its first try and the steps behind it; a try that is
  the last one; a try that publishes; a try behind which the screenshot capture never
  settles; a try that never settles.
\<close>

theorem postTweetWithRetry_retries_witness:
  "(\<exists>msgs. calls (trace (snd (postTweetWithRetry (always \<lparr>startTook = 200, launch = LaunchOk, phases = FailsIn PublishTweet ''boom'',
        tryTook = 1000, shot = ShotTaken,
        teardown = \<lparr>closing = Settles 100 CloseResolved, killThrows = False\<rparr>\<rparr>) 0 (newTwitterPoster \<lparr>cfgTwitterMaxRetries = 2, cfgTwitterRetryDelay = 5000\<rparr>))))
          = concat (map (retryBlock 5000 msgs) [0..<2])
              @ [AttemptStarted 2, AttemptFailed 2 (msgs 2), ScreenshotRequested 2, CloseRequested]
        \<and> msgs 2 = ''boom'')
   \<and> tries (trace (snd (postTweetWithRetry (always \<lparr>startTook = 200, launch = LaunchOk, phases = FailsIn PublishTweet ''boom'',
        tryTook = 1000, shot = ShotTaken,
        teardown = \<lparr>closing = Settles 100 CloseResolved, killThrows = False\<rparr>\<rparr>) 0 (newTwitterPoster \<lparr>cfgTwitterMaxRetries = 2, cfgTwitterRetryDelay = 5000\<rparr>))))
       = [AttemptStarted 0, AttemptStarted 1, AttemptStarted 2]
   \<and> trace (snd (captureErrorScreenshot (shot (always \<lparr>startTook = 200, launch = LaunchOk, phases = FailsIn PublishTweet ''boom'',
        tryTook = 1000, shot = ShotTaken,
        teardown = \<lparr>closing = Settles 100 CloseResolved, killThrows = False\<rparr>\<rparr> 0)) 0
          (emit (AttemptFailed 0 ''boom'') (snd (publishSequence (always \<lparr>startTook = 200, launch = LaunchOk, phases = FailsIn PublishTweet ''boom'',
        tryTook = 1000, shot = ShotTaken,
        teardown = \<lparr>closing = Settles 100 CloseResolved, killThrows = False\<rparr>\<rparr> 0) (emit (AttemptStarted 0) (newTwitterPoster \<lparr>cfgTwitterMaxRetries = 2, cfgTwitterRetryDelay = 5000\<rparr>)))))))
       = [AttemptStarted 0, Launched 0, AttemptFailed 0 ''boom'', ScreenshotRequested 0,
          ScreenshotTaken 0]
   \<and> browser (closeBrowser (teardown (always \<lparr>startTook = 200, launch = LaunchOk, phases = FailsIn PublishTweet ''boom'',
        tryTook = 1000, shot = ShotTaken,
        teardown = \<lparr>closing = Settles 100 CloseResolved, killThrows = False\<rparr>\<rparr> 0))
          (snd (captureErrorScreenshot (shot (always \<lparr>startTook = 200, launch = LaunchOk, phases = FailsIn PublishTweet ''boom'',
        tryTook = 1000, shot = ShotTaken,
        teardown = \<lparr>closing = Settles 100 CloseResolved, killThrows = False\<rparr>\<rparr> 0)) 0
          (emit (AttemptFailed 0 ''boom'') (snd (publishSequence (always \<lparr>startTook = 200, launch = LaunchOk, phases = FailsIn PublishTweet ''boom'',
        tryTook = 1000, shot = ShotTaken,
        teardown = \<lparr>closing = Settles 100 CloseResolved, killThrows = False\<rparr>\<rparr> 0) (emit (AttemptStarted 0) (newTwitterPoster \<lparr>cfgTwitterMaxRetries = 2, cfgTwitterRetryDelay = 5000\<rparr>)))))))) = None
   \<and> 0 \<notin> running (closeBrowser (teardown (always \<lparr>startTook = 200, launch = LaunchOk, phases = FailsIn PublishTweet ''boom'',
        tryTook = 1000, shot = ShotTaken,
        teardown = \<lparr>closing = Settles 100 CloseResolved, killThrows = False\<rparr>\<rparr> 0))
          (snd (captureErrorScreenshot (shot (always \<lparr>startTook = 200, launch = LaunchOk, phases = FailsIn PublishTweet ''boom'',
        tryTook = 1000, shot = ShotTaken,
        teardown = \<lparr>closing = Settles 100 CloseResolved, killThrows = False\<rparr>\<rparr> 0)) 0
          (emit (AttemptFailed 0 ''boom'') (snd (publishSequence (always \<lparr>startTook = 200, launch = LaunchOk, phases = FailsIn PublishTweet ''boom'',
        tryTook = 1000, shot = ShotTaken,
        teardown = \<lparr>closing = Settles 100 CloseResolved, killThrows = False\<rparr>\<rparr> 0) (emit (AttemptStarted 0) (newTwitterPoster \<lparr>cfgTwitterMaxRetries = 2, cfgTwitterRetryDelay = 5000\<rparr>))))))))
   \<and> postTweetWithRetry (always \<lparr>startTook = 200, launch = LaunchOk, phases = FailsIn PublishTweet ''boom'',
        tryTook = 1000, shot = ShotTaken,
        teardown = \<lparr>closing = Settles 100 CloseResolved, killThrows = False\<rparr>\<rparr>) 0 (newTwitterPoster \<lparr>cfgTwitterMaxRetries = 2, cfgTwitterRetryDelay = 5000\<rparr>)
       = postTweetWithRetry (always \<lparr>startTook = 200, launch = LaunchOk, phases = FailsIn PublishTweet ''boom'',
        tryTook = 1000, shot = ShotTaken,
        teardown = \<lparr>closing = Settles 100 CloseResolved, killThrows = False\<rparr>\<rparr>) (0 + 1)
           \<lparr>browser = None, page = None, isLoggedIn = False,
         twitterMaxRetries = 2, twitterRetryDelay = 5000,
         running = {}, launches = 1, killTimers = [], now = 6300,
         trace = [AttemptStarted 0, Launched 0, AttemptFailed 0 ''boom'',
                  ScreenshotRequested 0, ScreenshotTaken 0, CloseRequested, Closed 0,
                  Slept 5000]\<rparr>
   \<and> postTweetWithRetry (always \<lparr>startTook = 200, launch = LaunchOk, phases = FailsIn PublishTweet ''boom'',
        tryTook = 1000, shot = ShotTaken,
        teardown = \<lparr>closing = Settles 100 CloseResolved, killThrows = False\<rparr>\<rparr>) 2 (newTwitterPoster \<lparr>cfgTwitterMaxRetries = 2, cfgTwitterRetryDelay = 5000\<rparr>)
       = (Some (Inl (Error ''boom'')),
           \<lparr>browser = None, page = None, isLoggedIn = False,
         twitterMaxRetries = 2, twitterRetryDelay = 5000,
         running = {}, launches = 1, killTimers = [(6200, False)], now = 1300,
         trace = [AttemptStarted 2, Launched 0, AttemptFailed 2 ''boom'',
                  ScreenshotRequested 2, ScreenshotTaken 2, CloseRequested, Closed 0]\<rparr>)
   \<and> postTweetWithRetry (always \<lparr>startTook = 200, launch = LaunchOk, phases = Publishes ''https://x.com/u/status/1'',
        tryTook = 1000, shot = ShotTaken,
        teardown = \<lparr>closing = Settles 100 CloseResolved, killThrows = False\<rparr>\<rparr>) 0 (newTwitterPoster \<lparr>cfgTwitterMaxRetries = 2, cfgTwitterRetryDelay = 5000\<rparr>)
       = (Some (Inr ''https://x.com/u/status/1''),
           \<lparr>browser = Some 0, page = Some 0, isLoggedIn = True,
         twitterMaxRetries = 2, twitterRetryDelay = 5000,
         running = {0}, launches = 1, killTimers = [], now = 1200,
         trace = [AttemptStarted 0, Launched 0, Published ''https://x.com/u/status/1'',
                  ImagesDeleted]\<rparr>)
   \<and> postTweetWithRetry (always \<lparr>startTook = 200, launch = LaunchOk, phases = FailsIn PublishTweet ''boom'',
        tryTook = 1000, shot = ShotHangs,
        teardown = \<lparr>closing = Settles 100 CloseResolved, killThrows = False\<rparr>\<rparr>) 0 (newTwitterPoster \<lparr>cfgTwitterMaxRetries = 2, cfgTwitterRetryDelay = 5000\<rparr>)
       = (None,
           \<lparr>browser = Some 0, page = Some 0, isLoggedIn = True,
         twitterMaxRetries = 2, twitterRetryDelay = 5000,
         running = {0}, launches = 1, killTimers = [], now = 1200,
         trace = [AttemptStarted 0, Launched 0, AttemptFailed 0 ''boom'',
                  ScreenshotRequested 0]\<rparr>)
   \<and> postTweetWithRetry (always \<lparr>startTook = 200, launch = LaunchOk, phases = HangsIn NavigateToCompose,
        tryTook = 1000, shot = ShotTaken,
        teardown = \<lparr>closing = Settles 100 CloseResolved, killThrows = False\<rparr>\<rparr>) 0 (newTwitterPoster \<lparr>cfgTwitterMaxRetries = 2, cfgTwitterRetryDelay = 5000\<rparr>)
       = (None,
           \<lparr>browser = Some 0, page = Some 0, isLoggedIn = True,
         twitterMaxRetries = 2, twitterRetryDelay = 5000,
         running = {0}, launches = 1, killTimers = [], now = 200,
         trace = [AttemptStarted 0, Launched 0]\<rparr>)"
proof -
  have m: "twitterMaxRetries (newTwitterPoster \<lparr>cfgTwitterMaxRetries = 2, cfgTwitterRetryDelay = 5000\<rparr>) = 2"
    and d: "twitterRetryDelay (newTwitterPoster \<lparr>cfgTwitterMaxRetries = 2, cfgTwitterRetryDelay = 5000\<rparr>) = 5000"
    and t: "trace (newTwitterPoster \<lparr>cfgTwitterMaxRetries = 2, cfgTwitterRetryDelay = 5000\<rparr>) = []"
    by (simp_all add: newTwitterPoster_def orDefault_def)
  have f: "fst (postTweetWithRetry (always \<lparr>startTook = 200, launch = LaunchOk, phases = FailsIn PublishTweet ''boom'',
        tryTook = 1000, shot = ShotTaken,
        teardown = \<lparr>closing = Settles 100 CloseResolved, killThrows = False\<rparr>\<rparr>) 0 (newTwitterPoster \<lparr>cfgTwitterMaxRetries = 2, cfgTwitterRetryDelay = 5000\<rparr>)) = Some (Inl (Error ''boom''))"
    by (simp add: run_three_failures)
  have "\<exists>n msgs rest.
      (n = 0 \<or> int n \<le> 2)
    \<and> tries (trace (snd (postTweetWithRetry (always \<lparr>startTook = 200, launch = LaunchOk, phases = FailsIn PublishTweet ''boom'',
        tryTook = 1000, shot = ShotTaken,
        teardown = \<lparr>closing = Settles 100 CloseResolved, killThrows = False\<rparr>\<rparr>) 0 (newTwitterPoster \<lparr>cfgTwitterMaxRetries = 2, cfgTwitterRetryDelay = 5000\<rparr>)))) =
        tries [] @ map AttemptStarted [0..<n + 1]
    \<and> calls (trace (snd (postTweetWithRetry (always \<lparr>startTook = 200, launch = LaunchOk, phases = FailsIn PublishTweet ''boom'',
        tryTook = 1000, shot = ShotTaken,
        teardown = \<lparr>closing = Settles 100 CloseResolved, killThrows = False\<rparr>\<rparr>) 0 (newTwitterPoster \<lparr>cfgTwitterMaxRetries = 2, cfgTwitterRetryDelay = 5000\<rparr>)))) =
        calls [] @ concat (map (retryBlock 5000 msgs) [0..<n])
          @ AttemptStarted n # rest
    \<and> ((rest = [] \<and> (fst (postTweetWithRetry (always \<lparr>startTook = 200, launch = LaunchOk, phases = FailsIn PublishTweet ''boom'',
        tryTook = 1000, shot = ShotTaken,
        teardown = \<lparr>closing = Settles 100 CloseResolved, killThrows = False\<rparr>\<rparr>) 0 (newTwitterPoster \<lparr>cfgTwitterMaxRetries = 2, cfgTwitterRetryDelay = 5000\<rparr>)) = None
                      \<or> (\<exists>url. fst (postTweetWithRetry (always \<lparr>startTook = 200, launch = LaunchOk, phases = FailsIn PublishTweet ''boom'',
        tryTook = 1000, shot = ShotTaken,
        teardown = \<lparr>closing = Settles 100 CloseResolved, killThrows = False\<rparr>\<rparr>) 0 (newTwitterPoster \<lparr>cfgTwitterMaxRetries = 2, cfgTwitterRetryDelay = 5000\<rparr>)) = Some (Inr url))))
       \<or> (rest = [AttemptFailed n (msgs n), ScreenshotRequested n]
           \<and> fst (postTweetWithRetry (always \<lparr>startTook = 200, launch = LaunchOk, phases = FailsIn PublishTweet ''boom'',
        tryTook = 1000, shot = ShotTaken,
        teardown = \<lparr>closing = Settles 100 CloseResolved, killThrows = False\<rparr>\<rparr>) 0 (newTwitterPoster \<lparr>cfgTwitterMaxRetries = 2, cfgTwitterRetryDelay = 5000\<rparr>)) = None)
       \<or> (rest = [AttemptFailed n (msgs n), ScreenshotRequested n, CloseRequested]
           \<and> fst (postTweetWithRetry (always \<lparr>startTook = 200, launch = LaunchOk, phases = FailsIn PublishTweet ''boom'',
        tryTook = 1000, shot = ShotTaken,
        teardown = \<lparr>closing = Settles 100 CloseResolved, killThrows = False\<rparr>\<rparr>) 0 (newTwitterPoster \<lparr>cfgTwitterMaxRetries = 2, cfgTwitterRetryDelay = 5000\<rparr>)) = Some (Inl (Error (msgs n)))
           \<and> \<not> int n < 2))"
    using postTweetWithRetry_retries
      [where env = "always \<lparr>startTook = 200, launch = LaunchOk, phases = FailsIn PublishTweet ''boom'',
        tryTook = 1000, shot = ShotTaken,
        teardown = \<lparr>closing = Settles 100 CloseResolved, killThrows = False\<rparr>\<rparr>" and s = "(newTwitterPoster \<lparr>cfgTwitterMaxRetries = 2, cfgTwitterRetryDelay = 5000\<rparr>)"]
    unfolding m d t by (rule conjunct1)
  then obtain n msgs rest where
    n: "int n \<le> 2"
    and tr: "tries (trace (snd (postTweetWithRetry (always \<lparr>startTook = 200, launch = LaunchOk, phases = FailsIn PublishTweet ''boom'',
        tryTook = 1000, shot = ShotTaken,
        teardown = \<lparr>closing = Settles 100 CloseResolved, killThrows = False\<rparr>\<rparr>) 0 (newTwitterPoster \<lparr>cfgTwitterMaxRetries = 2, cfgTwitterRetryDelay = 5000\<rparr>))))
        = map AttemptStarted [0..<n + 1]"
    and c: "calls (trace (snd (postTweetWithRetry (always \<lparr>startTook = 200, launch = LaunchOk, phases = FailsIn PublishTweet ''boom'',
        tryTook = 1000, shot = ShotTaken,
        teardown = \<lparr>closing = Settles 100 CloseResolved, killThrows = False\<rparr>\<rparr>) 0 (newTwitterPoster \<lparr>cfgTwitterMaxRetries = 2, cfgTwitterRetryDelay = 5000\<rparr>))))
        = concat (map (retryBlock 5000 msgs) [0..<n]) @ AttemptStarted n # rest"
    and e: "(rest = [] \<and> (fst (postTweetWithRetry (always \<lparr>startTook = 200, launch = LaunchOk, phases = FailsIn PublishTweet ''boom'',
        tryTook = 1000, shot = ShotTaken,
        teardown = \<lparr>closing = Settles 100 CloseResolved, killThrows = False\<rparr>\<rparr>) 0 (newTwitterPoster \<lparr>cfgTwitterMaxRetries = 2, cfgTwitterRetryDelay = 5000\<rparr>)) = None
            \<or> (\<exists>url. fst (postTweetWithRetry (always \<lparr>startTook = 200, launch = LaunchOk, phases = FailsIn PublishTweet ''boom'',
        tryTook = 1000, shot = ShotTaken,
        teardown = \<lparr>closing = Settles 100 CloseResolved, killThrows = False\<rparr>\<rparr>) 0 (newTwitterPoster \<lparr>cfgTwitterMaxRetries = 2, cfgTwitterRetryDelay = 5000\<rparr>)) = Some (Inr url))))
       \<or> (rest = [AttemptFailed n (msgs n), ScreenshotRequested n]
           \<and> fst (postTweetWithRetry (always \<lparr>startTook = 200, launch = LaunchOk, phases = FailsIn PublishTweet ''boom'',
        tryTook = 1000, shot = ShotTaken,
        teardown = \<lparr>closing = Settles 100 CloseResolved, killThrows = False\<rparr>\<rparr>) 0 (newTwitterPoster \<lparr>cfgTwitterMaxRetries = 2, cfgTwitterRetryDelay = 5000\<rparr>)) = None)
       \<or> (rest = [AttemptFailed n (msgs n), ScreenshotRequested n, CloseRequested]
           \<and> fst (postTweetWithRetry (always \<lparr>startTook = 200, launch = LaunchOk, phases = FailsIn PublishTweet ''boom'',
        tryTook = 1000, shot = ShotTaken,
        teardown = \<lparr>closing = Settles 100 CloseResolved, killThrows = False\<rparr>\<rparr>) 0 (newTwitterPoster \<lparr>cfgTwitterMaxRetries = 2, cfgTwitterRetryDelay = 5000\<rparr>)) = Some (Inl (Error (msgs n)))
           \<and> \<not> int n < 2)"
    by (auto simp: calls_def tries_def)
  from e f have r: "rest = [AttemptFailed n (msgs n), ScreenshotRequested n, CloseRequested]"
    and b: "msgs n = ''boom''" and "\<not> int n < 2"
    by auto
  with n have n2: "n = 2" by simp
  have 1: "\<exists>msgs. calls (trace (snd (postTweetWithRetry (always \<lparr>startTook = 200, launch = LaunchOk, phases = FailsIn PublishTweet ''boom'',
        tryTook = 1000, shot = ShotTaken,
        teardown = \<lparr>closing = Settles 100 CloseResolved, killThrows = False\<rparr>\<rparr>) 0 (newTwitterPoster \<lparr>cfgTwitterMaxRetries = 2, cfgTwitterRetryDelay = 5000\<rparr>))))
          = concat (map (retryBlock 5000 msgs) [0..<2])
              @ [AttemptStarted 2, AttemptFailed 2 (msgs 2), ScreenshotRequested 2, CloseRequested]
        \<and> msgs 2 = ''boom''"
    using c r b unfolding n2 by blast
  have 2: "tries (trace (snd (postTweetWithRetry (always \<lparr>startTook = 200, launch = LaunchOk, phases = FailsIn PublishTweet ''boom'',
        tryTook = 1000, shot = ShotTaken,
        teardown = \<lparr>closing = Settles 100 CloseResolved, killThrows = False\<rparr>\<rparr>) 0 (newTwitterPoster \<lparr>cfgTwitterMaxRetries = 2, cfgTwitterRetryDelay = 5000\<rparr>))))
       = [AttemptStarted 0, AttemptStarted 1, AttemptStarted 2]"
    using tr unfolding n2 by (simp add: upt_rec)
  have h: "publishSequence (always \<lparr>startTook = 200, launch = LaunchOk, phases = FailsIn PublishTweet ''boom'',
        tryTook = 1000, shot = ShotTaken,
        teardown = \<lparr>closing = Settles 100 CloseResolved, killThrows = False\<rparr>\<rparr> 0) (emit (AttemptStarted 0) (newTwitterPoster \<lparr>cfgTwitterMaxRetries = 2, cfgTwitterRetryDelay = 5000\<rparr>)) = publishSequence (always \<lparr>startTook = 200, launch = LaunchOk, phases = FailsIn PublishTweet ''boom'',
        tryTook = 1000, shot = ShotTaken,
        teardown = \<lparr>closing = Settles 100 CloseResolved, killThrows = False\<rparr>\<rparr> 0) (emit (AttemptStarted 0) (newTwitterPoster \<lparr>cfgTwitterMaxRetries = 2, cfgTwitterRetryDelay = 5000\<rparr>))
      \<and> captureErrorScreenshot (shot (always \<lparr>startTook = 200, launch = LaunchOk, phases = FailsIn PublishTweet ''boom'',
        tryTook = 1000, shot = ShotTaken,
        teardown = \<lparr>closing = Settles 100 CloseResolved, killThrows = False\<rparr>\<rparr> 0)) 0
          (emit (AttemptFailed 0 ''boom'') (snd (publishSequence (always \<lparr>startTook = 200, launch = LaunchOk, phases = FailsIn PublishTweet ''boom'',
        tryTook = 1000, shot = ShotTaken,
        teardown = \<lparr>closing = Settles 100 CloseResolved, killThrows = False\<rparr>\<rparr> 0) (emit (AttemptStarted 0) (newTwitterPoster \<lparr>cfgTwitterMaxRetries = 2, cfgTwitterRetryDelay = 5000\<rparr>)))))
        = captureErrorScreenshot (shot (always \<lparr>startTook = 200, launch = LaunchOk, phases = FailsIn PublishTweet ''boom'',
        tryTook = 1000, shot = ShotTaken,
        teardown = \<lparr>closing = Settles 100 CloseResolved, killThrows = False\<rparr>\<rparr> 0)) 0
          (emit (AttemptFailed 0 ''boom'') (snd (publishSequence (always \<lparr>startTook = 200, launch = LaunchOk, phases = FailsIn PublishTweet ''boom'',
        tryTook = 1000, shot = ShotTaken,
        teardown = \<lparr>closing = Settles 100 CloseResolved, killThrows = False\<rparr>\<rparr> 0) (emit (AttemptStarted 0) (newTwitterPoster \<lparr>cfgTwitterMaxRetries = 2, cfgTwitterRetryDelay = 5000\<rparr>)))))
      \<and> closeBrowser (teardown (always \<lparr>startTook = 200, launch = LaunchOk, phases = FailsIn PublishTweet ''boom'',
        tryTook = 1000, shot = ShotTaken,
        teardown = \<lparr>closing = Settles 100 CloseResolved, killThrows = False\<rparr>\<rparr> 0))
          (snd (captureErrorScreenshot (shot (always \<lparr>startTook = 200, launch = LaunchOk, phases = FailsIn PublishTweet ''boom'',
        tryTook = 1000, shot = ShotTaken,
        teardown = \<lparr>closing = Settles 100 CloseResolved, killThrows = False\<rparr>\<rparr> 0)) 0
          (emit (AttemptFailed 0 ''boom'') (snd (publishSequence (always \<lparr>startTook = 200, launch = LaunchOk, phases = FailsIn PublishTweet ''boom'',
        tryTook = 1000, shot = ShotTaken,
        teardown = \<lparr>closing = Settles 100 CloseResolved, killThrows = False\<rparr>\<rparr> 0) (emit (AttemptStarted 0) (newTwitterPoster \<lparr>cfgTwitterMaxRetries = 2, cfgTwitterRetryDelay = 5000\<rparr>)))))))
        = closeBrowser (teardown (always \<lparr>startTook = 200, launch = LaunchOk, phases = FailsIn PublishTweet ''boom'',
        tryTook = 1000, shot = ShotTaken,
        teardown = \<lparr>closing = Settles 100 CloseResolved, killThrows = False\<rparr>\<rparr> 0))
          (snd (captureErrorScreenshot (shot (always \<lparr>startTook = 200, launch = LaunchOk, phases = FailsIn PublishTweet ''boom'',
        tryTook = 1000, shot = ShotTaken,
        teardown = \<lparr>closing = Settles 100 CloseResolved, killThrows = False\<rparr>\<rparr> 0)) 0
          (emit (AttemptFailed 0 ''boom'') (snd (publishSequence (always \<lparr>startTook = 200, launch = LaunchOk, phases = FailsIn PublishTweet ''boom'',
        tryTook = 1000, shot = ShotTaken,
        teardown = \<lparr>closing = Settles 100 CloseResolved, killThrows = False\<rparr>\<rparr> 0) (emit (AttemptStarted 0) (newTwitterPoster \<lparr>cfgTwitterMaxRetries = 2, cfgTwitterRetryDelay = 5000\<rparr>)))))))
      \<and> fst (publishSequence (always \<lparr>startTook = 200, launch = LaunchOk, phases = FailsIn PublishTweet ''boom'',
        tryTook = 1000, shot = ShotTaken,
        teardown = \<lparr>closing = Settles 100 CloseResolved, killThrows = False\<rparr>\<rparr> 0) (emit (AttemptStarted 0) (newTwitterPoster \<lparr>cfgTwitterMaxRetries = 2, cfgTwitterRetryDelay = 5000\<rparr>))) = Threw ''boom''
      \<and> fst (captureErrorScreenshot (shot (always \<lparr>startTook = 200, launch = LaunchOk, phases = FailsIn PublishTweet ''boom'',
        tryTook = 1000, shot = ShotTaken,
        teardown = \<lparr>closing = Settles 100 CloseResolved, killThrows = False\<rparr>\<rparr> 0)) 0
          (emit (AttemptFailed 0 ''boom'') (snd (publishSequence (always \<lparr>startTook = 200, launch = LaunchOk, phases = FailsIn PublishTweet ''boom'',
        tryTook = 1000, shot = ShotTaken,
        teardown = \<lparr>closing = Settles 100 CloseResolved, killThrows = False\<rparr>\<rparr> 0) (emit (AttemptStarted 0) (newTwitterPoster \<lparr>cfgTwitterMaxRetries = 2, cfgTwitterRetryDelay = 5000\<rparr>))))))"
    by (simp add: postTweetWithRetry.simps always_def publishSequence_def initializeBrowser_def runPhases_def
      captureErrorScreenshot_def closeBrowser_def closeAttempt_def forceKill_def armKillTimer_def
      sleep_def timerMs_def emit_def elapse_def fireKillTimers_def newTwitterPoster_def
      orDefault_def Let_def)
  have g: "browser (snd (publishSequence (always \<lparr>startTook = 200, launch = LaunchOk, phases = FailsIn PublishTweet ''boom'',
        tryTook = 1000, shot = ShotTaken,
        teardown = \<lparr>closing = Settles 100 CloseResolved, killThrows = False\<rparr>\<rparr> 0) (emit (AttemptStarted 0) (newTwitterPoster \<lparr>cfgTwitterMaxRetries = 2, cfgTwitterRetryDelay = 5000\<rparr>)))) = Some 0
           \<and> (\<not> killThrows (teardown (always \<lparr>startTook = 200, launch = LaunchOk, phases = FailsIn PublishTweet ''boom'',
        tryTook = 1000, shot = ShotTaken,
        teardown = \<lparr>closing = Settles 100 CloseResolved, killThrows = False\<rparr>\<rparr> 0))
               \<or> (\<exists>d. d \<le> 5000 \<and> closing (teardown (always \<lparr>startTook = 200, launch = LaunchOk, phases = FailsIn PublishTweet ''boom'',
        tryTook = 1000, shot = ShotTaken,
        teardown = \<lparr>closing = Settles 100 CloseResolved, killThrows = False\<rparr>\<rparr> 0)) = Settles d CloseResolved))"
    by (simp add: postTweetWithRetry.simps always_def publishSequence_def initializeBrowser_def runPhases_def
      captureErrorScreenshot_def closeBrowser_def closeAttempt_def forceKill_def armKillTimer_def
      sleep_def timerMs_def emit_def elapse_def fireKillTimers_def newTwitterPoster_def
      orDefault_def Let_def)
  note step = postTweetWithRetry_retries
      [where env = "always \<lparr>startTook = 200, launch = LaunchOk, phases = FailsIn PublishTweet ''boom'',
        tryTook = 1000, shot = ShotTaken,
        teardown = \<lparr>closing = Settles 100 CloseResolved, killThrows = False\<rparr>\<rparr>" and s = "(newTwitterPoster \<lparr>cfgTwitterMaxRetries = 2, cfgTwitterRetryDelay = 5000\<rparr>)" and a = 0 and msg = "''boom''" and b = 0
         and tried = "publishSequence (always \<lparr>startTook = 200, launch = LaunchOk, phases = FailsIn PublishTweet ''boom'',
        tryTook = 1000, shot = ShotTaken,
        teardown = \<lparr>closing = Settles 100 CloseResolved, killThrows = False\<rparr>\<rparr> 0) (emit (AttemptStarted 0) (newTwitterPoster \<lparr>cfgTwitterMaxRetries = 2, cfgTwitterRetryDelay = 5000\<rparr>))"
         and captured = "captureErrorScreenshot (shot (always \<lparr>startTook = 200, launch = LaunchOk, phases = FailsIn PublishTweet ''boom'',
        tryTook = 1000, shot = ShotTaken,
        teardown = \<lparr>closing = Settles 100 CloseResolved, killThrows = False\<rparr>\<rparr> 0)) 0
          (emit (AttemptFailed 0 ''boom'') (snd (publishSequence (always \<lparr>startTook = 200, launch = LaunchOk, phases = FailsIn PublishTweet ''boom'',
        tryTook = 1000, shot = ShotTaken,
        teardown = \<lparr>closing = Settles 100 CloseResolved, killThrows = False\<rparr>\<rparr> 0) (emit (AttemptStarted 0) (newTwitterPoster \<lparr>cfgTwitterMaxRetries = 2, cfgTwitterRetryDelay = 5000\<rparr>)))))"
         and closed = "closeBrowser (teardown (always \<lparr>startTook = 200, launch = LaunchOk, phases = FailsIn PublishTweet ''boom'',
        tryTook = 1000, shot = ShotTaken,
        teardown = \<lparr>closing = Settles 100 CloseResolved, killThrows = False\<rparr>\<rparr> 0))
          (snd (captureErrorScreenshot (shot (always \<lparr>startTook = 200, launch = LaunchOk, phases = FailsIn PublishTweet ''boom'',
        tryTook = 1000, shot = ShotTaken,
        teardown = \<lparr>closing = Settles 100 CloseResolved, killThrows = False\<rparr>\<rparr> 0)) 0
          (emit (AttemptFailed 0 ''boom'') (snd (publishSequence (always \<lparr>startTook = 200, launch = LaunchOk, phases = FailsIn PublishTweet ''boom'',
        tryTook = 1000, shot = ShotTaken,
        teardown = \<lparr>closing = Settles 100 CloseResolved, killThrows = False\<rparr>\<rparr> 0) (emit (AttemptStarted 0) (newTwitterPoster \<lparr>cfgTwitterMaxRetries = 2, cfgTwitterRetryDelay = 5000\<rparr>)))))))"]
  have 3: "trace (snd (captureErrorScreenshot (shot (always \<lparr>startTook = 200, launch = LaunchOk, phases = FailsIn PublishTweet ''boom'',
        tryTook = 1000, shot = ShotTaken,
        teardown = \<lparr>closing = Settles 100 CloseResolved, killThrows = False\<rparr>\<rparr> 0)) 0
          (emit (AttemptFailed 0 ''boom'') (snd (publishSequence (always \<lparr>startTook = 200, launch = LaunchOk, phases = FailsIn PublishTweet ''boom'',
        tryTook = 1000, shot = ShotTaken,
        teardown = \<lparr>closing = Settles 100 CloseResolved, killThrows = False\<rparr>\<rparr> 0) (emit (AttemptStarted 0) (newTwitterPoster \<lparr>cfgTwitterMaxRetries = 2, cfgTwitterRetryDelay = 5000\<rparr>)))))))
       = [AttemptStarted 0, Launched 0, AttemptFailed 0 ''boom'', ScreenshotRequested 0,
          ScreenshotTaken 0]"
    by (simp add: postTweetWithRetry.simps always_def publishSequence_def initializeBrowser_def runPhases_def
      captureErrorScreenshot_def closeBrowser_def closeAttempt_def forceKill_def armKillTimer_def
      sleep_def timerMs_def emit_def elapse_def fireKillTimers_def newTwitterPoster_def
      orDefault_def Let_def)
  have 4: "browser (closeBrowser (teardown (always \<lparr>startTook = 200, launch = LaunchOk, phases = FailsIn PublishTweet ''boom'',
        tryTook = 1000, shot = ShotTaken,
        teardown = \<lparr>closing = Settles 100 CloseResolved, killThrows = False\<rparr>\<rparr> 0))
          (snd (captureErrorScreenshot (shot (always \<lparr>startTook = 200, launch = LaunchOk, phases = FailsIn PublishTweet ''boom'',
        tryTook = 1000, shot = ShotTaken,
        teardown = \<lparr>closing = Settles 100 CloseResolved, killThrows = False\<rparr>\<rparr> 0)) 0
          (emit (AttemptFailed 0 ''boom'') (snd (publishSequence (always \<lparr>startTook = 200, launch = LaunchOk, phases = FailsIn PublishTweet ''boom'',
        tryTook = 1000, shot = ShotTaken,
        teardown = \<lparr>closing = Settles 100 CloseResolved, killThrows = False\<rparr>\<rparr> 0) (emit (AttemptStarted 0) (newTwitterPoster \<lparr>cfgTwitterMaxRetries = 2, cfgTwitterRetryDelay = 5000\<rparr>)))))))) = None"
    using step h by blast
  have 5: "0 \<notin> running (closeBrowser (teardown (always \<lparr>startTook = 200, launch = LaunchOk, phases = FailsIn PublishTweet ''boom'',
        tryTook = 1000, shot = ShotTaken,
        teardown = \<lparr>closing = Settles 100 CloseResolved, killThrows = False\<rparr>\<rparr> 0))
          (snd (captureErrorScreenshot (shot (always \<lparr>startTook = 200, launch = LaunchOk, phases = FailsIn PublishTweet ''boom'',
        tryTook = 1000, shot = ShotTaken,
        teardown = \<lparr>closing = Settles 100 CloseResolved, killThrows = False\<rparr>\<rparr> 0)) 0
          (emit (AttemptFailed 0 ''boom'') (snd (publishSequence (always \<lparr>startTook = 200, launch = LaunchOk, phases = FailsIn PublishTweet ''boom'',
        tryTook = 1000, shot = ShotTaken,
        teardown = \<lparr>closing = Settles 100 CloseResolved, killThrows = False\<rparr>\<rparr> 0) (emit (AttemptStarted 0) (newTwitterPoster \<lparr>cfgTwitterMaxRetries = 2, cfgTwitterRetryDelay = 5000\<rparr>))))))))"
    using step h g by blast
  have "int 0 < twitterMaxRetries (newTwitterPoster \<lparr>cfgTwitterMaxRetries = 2, cfgTwitterRetryDelay = 5000\<rparr>)"
    by (simp add: m)
  then have "postTweetWithRetry (always \<lparr>startTook = 200, launch = LaunchOk, phases = FailsIn PublishTweet ''boom'',
        tryTook = 1000, shot = ShotTaken,
        teardown = \<lparr>closing = Settles 100 CloseResolved, killThrows = False\<rparr>\<rparr>) 0 (newTwitterPoster \<lparr>cfgTwitterMaxRetries = 2, cfgTwitterRetryDelay = 5000\<rparr>)
       = postTweetWithRetry (always \<lparr>startTook = 200, launch = LaunchOk, phases = FailsIn PublishTweet ''boom'',
        tryTook = 1000, shot = ShotTaken,
        teardown = \<lparr>closing = Settles 100 CloseResolved, killThrows = False\<rparr>\<rparr>) (0 + 1)
           (sleep (twitterRetryDelay (newTwitterPoster \<lparr>cfgTwitterMaxRetries = 2, cfgTwitterRetryDelay = 5000\<rparr>) * (int 0 + 1))
             (closeBrowser (teardown (always \<lparr>startTook = 200, launch = LaunchOk, phases = FailsIn PublishTweet ''boom'',
        tryTook = 1000, shot = ShotTaken,
        teardown = \<lparr>closing = Settles 100 CloseResolved, killThrows = False\<rparr>\<rparr> 0))
          (snd (captureErrorScreenshot (shot (always \<lparr>startTook = 200, launch = LaunchOk, phases = FailsIn PublishTweet ''boom'',
        tryTook = 1000, shot = ShotTaken,
        teardown = \<lparr>closing = Settles 100 CloseResolved, killThrows = False\<rparr>\<rparr> 0)) 0
          (emit (AttemptFailed 0 ''boom'') (snd (publishSequence (always \<lparr>startTook = 200, launch = LaunchOk, phases = FailsIn PublishTweet ''boom'',
        tryTook = 1000, shot = ShotTaken,
        teardown = \<lparr>closing = Settles 100 CloseResolved, killThrows = False\<rparr>\<rparr> 0) (emit (AttemptStarted 0) (newTwitterPoster \<lparr>cfgTwitterMaxRetries = 2, cfgTwitterRetryDelay = 5000\<rparr>)))))))))"
    using step h by blast
  moreover have "sleep (twitterRetryDelay (newTwitterPoster \<lparr>cfgTwitterMaxRetries = 2, cfgTwitterRetryDelay = 5000\<rparr>) * (int 0 + 1))
             (closeBrowser (teardown (always \<lparr>startTook = 200, launch = LaunchOk, phases = FailsIn PublishTweet ''boom'',
        tryTook = 1000, shot = ShotTaken,
        teardown = \<lparr>closing = Settles 100 CloseResolved, killThrows = False\<rparr>\<rparr> 0))
          (snd (captureErrorScreenshot (shot (always \<lparr>startTook = 200, launch = LaunchOk, phases = FailsIn PublishTweet ''boom'',
        tryTook = 1000, shot = ShotTaken,
        teardown = \<lparr>closing = Settles 100 CloseResolved, killThrows = False\<rparr>\<rparr> 0)) 0
          (emit (AttemptFailed 0 ''boom'') (snd (publishSequence (always \<lparr>startTook = 200, launch = LaunchOk, phases = FailsIn PublishTweet ''boom'',
        tryTook = 1000, shot = ShotTaken,
        teardown = \<lparr>closing = Settles 100 CloseResolved, killThrows = False\<rparr>\<rparr> 0) (emit (AttemptStarted 0) (newTwitterPoster \<lparr>cfgTwitterMaxRetries = 2, cfgTwitterRetryDelay = 5000\<rparr>))))))))
       = \<lparr>browser = None, page = None, isLoggedIn = False,
         twitterMaxRetries = 2, twitterRetryDelay = 5000,
         running = {}, launches = 1, killTimers = [], now = 6300,
         trace = [AttemptStarted 0, Launched 0, AttemptFailed 0 ''boom'',
                  ScreenshotRequested 0, ScreenshotTaken 0, CloseRequested, Closed 0,
                  Slept 5000]\<rparr>"
    by (simp add: postTweetWithRetry.simps always_def publishSequence_def initializeBrowser_def runPhases_def
      captureErrorScreenshot_def closeBrowser_def closeAttempt_def forceKill_def armKillTimer_def
      sleep_def timerMs_def emit_def elapse_def fireKillTimers_def newTwitterPoster_def
      orDefault_def Let_def)
  ultimately have 6: "postTweetWithRetry (always \<lparr>startTook = 200, launch = LaunchOk, phases = FailsIn PublishTweet ''boom'',
        tryTook = 1000, shot = ShotTaken,
        teardown = \<lparr>closing = Settles 100 CloseResolved, killThrows = False\<rparr>\<rparr>) 0 (newTwitterPoster \<lparr>cfgTwitterMaxRetries = 2, cfgTwitterRetryDelay = 5000\<rparr>)
       = postTweetWithRetry (always \<lparr>startTook = 200, launch = LaunchOk, phases = FailsIn PublishTweet ''boom'',
        tryTook = 1000, shot = ShotTaken,
        teardown = \<lparr>closing = Settles 100 CloseResolved, killThrows = False\<rparr>\<rparr>) (0 + 1)
           \<lparr>browser = None, page = None, isLoggedIn = False,
         twitterMaxRetries = 2, twitterRetryDelay = 5000,
         running = {}, launches = 1, killTimers = [], now = 6300,
         trace = [AttemptStarted 0, Launched 0, AttemptFailed 0 ''boom'',
                  ScreenshotRequested 0, ScreenshotTaken 0, CloseRequested, Closed 0,
                  Slept 5000]\<rparr>"
    by simp
  have h2: "publishSequence (always \<lparr>startTook = 200, launch = LaunchOk, phases = FailsIn PublishTweet ''boom'',
        tryTook = 1000, shot = ShotTaken,
        teardown = \<lparr>closing = Settles 100 CloseResolved, killThrows = False\<rparr>\<rparr> 2) (emit (AttemptStarted 2) (newTwitterPoster \<lparr>cfgTwitterMaxRetries = 2, cfgTwitterRetryDelay = 5000\<rparr>)) = publishSequence (always \<lparr>startTook = 200, launch = LaunchOk, phases = FailsIn PublishTweet ''boom'',
        tryTook = 1000, shot = ShotTaken,
        teardown = \<lparr>closing = Settles 100 CloseResolved, killThrows = False\<rparr>\<rparr> 2) (emit (AttemptStarted 2) (newTwitterPoster \<lparr>cfgTwitterMaxRetries = 2, cfgTwitterRetryDelay = 5000\<rparr>))
      \<and> captureErrorScreenshot (shot (always \<lparr>startTook = 200, launch = LaunchOk, phases = FailsIn PublishTweet ''boom'',
        tryTook = 1000, shot = ShotTaken,
        teardown = \<lparr>closing = Settles 100 CloseResolved, killThrows = False\<rparr>\<rparr> 2)) 2
          (emit (AttemptFailed 2 ''boom'') (snd (publishSequence (always \<lparr>startTook = 200, launch = LaunchOk, phases = FailsIn PublishTweet ''boom'',
        tryTook = 1000, shot = ShotTaken,
        teardown = \<lparr>closing = Settles 100 CloseResolved, killThrows = False\<rparr>\<rparr> 2) (emit (AttemptStarted 2) (newTwitterPoster \<lparr>cfgTwitterMaxRetries = 2, cfgTwitterRetryDelay = 5000\<rparr>)))))
        = captureErrorScreenshot (shot (always \<lparr>startTook = 200, launch = LaunchOk, phases = FailsIn PublishTweet ''boom'',
        tryTook = 1000, shot = ShotTaken,
        teardown = \<lparr>closing = Settles 100 CloseResolved, killThrows = False\<rparr>\<rparr> 2)) 2
          (emit (AttemptFailed 2 ''boom'') (snd (publishSequence (always \<lparr>startTook = 200, launch = LaunchOk, phases = FailsIn PublishTweet ''boom'',
        tryTook = 1000, shot = ShotTaken,
        teardown = \<lparr>closing = Settles 100 CloseResolved, killThrows = False\<rparr>\<rparr> 2) (emit (AttemptStarted 2) (newTwitterPoster \<lparr>cfgTwitterMaxRetries = 2, cfgTwitterRetryDelay = 5000\<rparr>)))))
      \<and> closeBrowser (teardown (always \<lparr>startTook = 200, launch = LaunchOk, phases = FailsIn PublishTweet ''boom'',
        tryTook = 1000, shot = ShotTaken,
        teardown = \<lparr>closing = Settles 100 CloseResolved, killThrows = False\<rparr>\<rparr> 2))
          (snd (captureErrorScreenshot (shot (always \<lparr>startTook = 200, launch = LaunchOk, phases = FailsIn PublishTweet ''boom'',
        tryTook = 1000, shot = ShotTaken,
        teardown = \<lparr>closing = Settles 100 CloseResolved, killThrows = False\<rparr>\<rparr> 2)) 2
          (emit (AttemptFailed 2 ''boom'') (snd (publishSequence (always \<lparr>startTook = 200, launch = LaunchOk, phases = FailsIn PublishTweet ''boom'',
        tryTook = 1000, shot = ShotTaken,
        teardown = \<lparr>closing = Settles 100 CloseResolved, killThrows = False\<rparr>\<rparr> 2) (emit (AttemptStarted 2) (newTwitterPoster \<lparr>cfgTwitterMaxRetries = 2, cfgTwitterRetryDelay = 5000\<rparr>)))))))
        = closeBrowser (teardown (always \<lparr>startTook = 200, launch = LaunchOk, phases = FailsIn PublishTweet ''boom'',
        tryTook = 1000, shot = ShotTaken,
        teardown = \<lparr>closing = Settles 100 CloseResolved, killThrows = False\<rparr>\<rparr> 2))
          (snd (captureErrorScreenshot (shot (always \<lparr>startTook = 200, launch = LaunchOk, phases = FailsIn PublishTweet ''boom'',
        tryTook = 1000, shot = ShotTaken,
        teardown = \<lparr>closing = Settles 100 CloseResolved, killThrows = False\<rparr>\<rparr> 2)) 2
          (emit (AttemptFailed 2 ''boom'') (snd (publishSequence (always \<lparr>startTook = 200, launch = LaunchOk, phases = FailsIn PublishTweet ''boom'',
        tryTook = 1000, shot = ShotTaken,
        teardown = \<lparr>closing = Settles 100 CloseResolved, killThrows = False\<rparr>\<rparr> 2) (emit (AttemptStarted 2) (newTwitterPoster \<lparr>cfgTwitterMaxRetries = 2, cfgTwitterRetryDelay = 5000\<rparr>)))))))
      \<and> fst (publishSequence (always \<lparr>startTook = 200, launch = LaunchOk, phases = FailsIn PublishTweet ''boom'',
        tryTook = 1000, shot = ShotTaken,
        teardown = \<lparr>closing = Settles 100 CloseResolved, killThrows = False\<rparr>\<rparr> 2) (emit (AttemptStarted 2) (newTwitterPoster \<lparr>cfgTwitterMaxRetries = 2, cfgTwitterRetryDelay = 5000\<rparr>))) = Threw ''boom''
      \<and> fst (captureErrorScreenshot (shot (always \<lparr>startTook = 200, launch = LaunchOk, phases = FailsIn PublishTweet ''boom'',
        tryTook = 1000, shot = ShotTaken,
        teardown = \<lparr>closing = Settles 100 CloseResolved, killThrows = False\<rparr>\<rparr> 2)) 2
          (emit (AttemptFailed 2 ''boom'') (snd (publishSequence (always \<lparr>startTook = 200, launch = LaunchOk, phases = FailsIn PublishTweet ''boom'',
        tryTook = 1000, shot = ShotTaken,
        teardown = \<lparr>closing = Settles 100 CloseResolved, killThrows = False\<rparr>\<rparr> 2) (emit (AttemptStarted 2) (newTwitterPoster \<lparr>cfgTwitterMaxRetries = 2, cfgTwitterRetryDelay = 5000\<rparr>))))))"
    by (simp add: postTweetWithRetry.simps always_def publishSequence_def initializeBrowser_def runPhases_def
      captureErrorScreenshot_def closeBrowser_def closeAttempt_def forceKill_def armKillTimer_def
      sleep_def timerMs_def emit_def elapse_def fireKillTimers_def newTwitterPoster_def
      orDefault_def Let_def)
  have "\<not> int 2 < twitterMaxRetries (newTwitterPoster \<lparr>cfgTwitterMaxRetries = 2, cfgTwitterRetryDelay = 5000\<rparr>)"
    by (simp add: m)
  then have "postTweetWithRetry (always \<lparr>startTook = 200, launch = LaunchOk, phases = FailsIn PublishTweet ''boom'',
        tryTook = 1000, shot = ShotTaken,
        teardown = \<lparr>closing = Settles 100 CloseResolved, killThrows = False\<rparr>\<rparr>) 2 (newTwitterPoster \<lparr>cfgTwitterMaxRetries = 2, cfgTwitterRetryDelay = 5000\<rparr>)
       = (Some (Inl (Error ''boom'')), closeBrowser (teardown (always \<lparr>startTook = 200, launch = LaunchOk, phases = FailsIn PublishTweet ''boom'',
        tryTook = 1000, shot = ShotTaken,
        teardown = \<lparr>closing = Settles 100 CloseResolved, killThrows = False\<rparr>\<rparr> 2))
          (snd (captureErrorScreenshot (shot (always \<lparr>startTook = 200, launch = LaunchOk, phases = FailsIn PublishTweet ''boom'',
        tryTook = 1000, shot = ShotTaken,
        teardown = \<lparr>closing = Settles 100 CloseResolved, killThrows = False\<rparr>\<rparr> 2)) 2
          (emit (AttemptFailed 2 ''boom'') (snd (publishSequence (always \<lparr>startTook = 200, launch = LaunchOk, phases = FailsIn PublishTweet ''boom'',
        tryTook = 1000, shot = ShotTaken,
        teardown = \<lparr>closing = Settles 100 CloseResolved, killThrows = False\<rparr>\<rparr> 2) (emit (AttemptStarted 2) (newTwitterPoster \<lparr>cfgTwitterMaxRetries = 2, cfgTwitterRetryDelay = 5000\<rparr>))))))))"
    using postTweetWithRetry_retries
      [where env = "always \<lparr>startTook = 200, launch = LaunchOk, phases = FailsIn PublishTweet ''boom'',
        tryTook = 1000, shot = ShotTaken,
        teardown = \<lparr>closing = Settles 100 CloseResolved, killThrows = False\<rparr>\<rparr>" and s = "(newTwitterPoster \<lparr>cfgTwitterMaxRetries = 2, cfgTwitterRetryDelay = 5000\<rparr>)" and a = 2 and msg = "''boom''"
         and tried = "publishSequence (always \<lparr>startTook = 200, launch = LaunchOk, phases = FailsIn PublishTweet ''boom'',
        tryTook = 1000, shot = ShotTaken,
        teardown = \<lparr>closing = Settles 100 CloseResolved, killThrows = False\<rparr>\<rparr> 2) (emit (AttemptStarted 2) (newTwitterPoster \<lparr>cfgTwitterMaxRetries = 2, cfgTwitterRetryDelay = 5000\<rparr>))"
         and captured = "captureErrorScreenshot (shot (always \<lparr>startTook = 200, launch = LaunchOk, phases = FailsIn PublishTweet ''boom'',
        tryTook = 1000, shot = ShotTaken,
        teardown = \<lparr>closing = Settles 100 CloseResolved, killThrows = False\<rparr>\<rparr> 2)) 2
          (emit (AttemptFailed 2 ''boom'') (snd (publishSequence (always \<lparr>startTook = 200, launch = LaunchOk, phases = FailsIn PublishTweet ''boom'',
        tryTook = 1000, shot = ShotTaken,
        teardown = \<lparr>closing = Settles 100 CloseResolved, killThrows = False\<rparr>\<rparr> 2) (emit (AttemptStarted 2) (newTwitterPoster \<lparr>cfgTwitterMaxRetries = 2, cfgTwitterRetryDelay = 5000\<rparr>)))))"
         and closed = "closeBrowser (teardown (always \<lparr>startTook = 200, launch = LaunchOk, phases = FailsIn PublishTweet ''boom'',
        tryTook = 1000, shot = ShotTaken,
        teardown = \<lparr>closing = Settles 100 CloseResolved, killThrows = False\<rparr>\<rparr> 2))
          (snd (captureErrorScreenshot (shot (always \<lparr>startTook = 200, launch = LaunchOk, phases = FailsIn PublishTweet ''boom'',
        tryTook = 1000, shot = ShotTaken,
        teardown = \<lparr>closing = Settles 100 CloseResolved, killThrows = False\<rparr>\<rparr> 2)) 2
          (emit (AttemptFailed 2 ''boom'') (snd (publishSequence (always \<lparr>startTook = 200, launch = LaunchOk, phases = FailsIn PublishTweet ''boom'',
        tryTook = 1000, shot = ShotTaken,
        teardown = \<lparr>closing = Settles 100 CloseResolved, killThrows = False\<rparr>\<rparr> 2) (emit (AttemptStarted 2) (newTwitterPoster \<lparr>cfgTwitterMaxRetries = 2, cfgTwitterRetryDelay = 5000\<rparr>)))))))"] h2
    by blast
  moreover have "closeBrowser (teardown (always \<lparr>startTook = 200, launch = LaunchOk, phases = FailsIn PublishTweet ''boom'',
        tryTook = 1000, shot = ShotTaken,
        teardown = \<lparr>closing = Settles 100 CloseResolved, killThrows = False\<rparr>\<rparr> 2))
          (snd (captureErrorScreenshot (shot (always \<lparr>startTook = 200, launch = LaunchOk, phases = FailsIn PublishTweet ''boom'',
        tryTook = 1000, shot = ShotTaken,
        teardown = \<lparr>closing = Settles 100 CloseResolved, killThrows = False\<rparr>\<rparr> 2)) 2
          (emit (AttemptFailed 2 ''boom'') (snd (publishSequence (always \<lparr>startTook = 200, launch = LaunchOk, phases = FailsIn PublishTweet ''boom'',
        tryTook = 1000, shot = ShotTaken,
        teardown = \<lparr>closing = Settles 100 CloseResolved, killThrows = False\<rparr>\<rparr> 2) (emit (AttemptStarted 2) (newTwitterPoster \<lparr>cfgTwitterMaxRetries = 2, cfgTwitterRetryDelay = 5000\<rparr>)))))))
       = \<lparr>browser = None, page = None, isLoggedIn = False,
         twitterMaxRetries = 2, twitterRetryDelay = 5000,
         running = {}, launches = 1, killTimers = [(6200, False)], now = 1300,
         trace = [AttemptStarted 2, Launched 0, AttemptFailed 2 ''boom'',
                  ScreenshotRequested 2, ScreenshotTaken 2, CloseRequested, Closed 0]\<rparr>"
    by (simp add: postTweetWithRetry.simps always_def publishSequence_def initializeBrowser_def runPhases_def
      captureErrorScreenshot_def closeBrowser_def closeAttempt_def forceKill_def armKillTimer_def
      sleep_def timerMs_def emit_def elapse_def fireKillTimers_def newTwitterPoster_def
      orDefault_def Let_def)
  ultimately have 7: "postTweetWithRetry (always \<lparr>startTook = 200, launch = LaunchOk, phases = FailsIn PublishTweet ''boom'',
        tryTook = 1000, shot = ShotTaken,
        teardown = \<lparr>closing = Settles 100 CloseResolved, killThrows = False\<rparr>\<rparr>) 2 (newTwitterPoster \<lparr>cfgTwitterMaxRetries = 2, cfgTwitterRetryDelay = 5000\<rparr>)
       = (Some (Inl (Error ''boom'')),
           \<lparr>browser = None, page = None, isLoggedIn = False,
         twitterMaxRetries = 2, twitterRetryDelay = 5000,
         running = {}, launches = 1, killTimers = [(6200, False)], now = 1300,
         trace = [AttemptStarted 2, Launched 0, AttemptFailed 2 ''boom'',
                  ScreenshotRequested 2, ScreenshotTaken 2, CloseRequested, Closed 0]\<rparr>)"
    by simp
  have "fst (publishSequence (always \<lparr>startTook = 200, launch = LaunchOk, phases = Publishes ''https://x.com/u/status/1'',
        tryTook = 1000, shot = ShotTaken,
        teardown = \<lparr>closing = Settles 100 CloseResolved, killThrows = False\<rparr>\<rparr> 0) (emit (AttemptStarted 0) (newTwitterPoster \<lparr>cfgTwitterMaxRetries = 2, cfgTwitterRetryDelay = 5000\<rparr>))) = Done ''https://x.com/u/status/1''"
    by (simp add: postTweetWithRetry.simps always_def publishSequence_def initializeBrowser_def runPhases_def
      captureErrorScreenshot_def closeBrowser_def closeAttempt_def forceKill_def armKillTimer_def
      sleep_def timerMs_def emit_def elapse_def fireKillTimers_def newTwitterPoster_def
      orDefault_def Let_def)
  then have "postTweetWithRetry (always \<lparr>startTook = 200, launch = LaunchOk, phases = Publishes ''https://x.com/u/status/1'',
        tryTook = 1000, shot = ShotTaken,
        teardown = \<lparr>closing = Settles 100 CloseResolved, killThrows = False\<rparr>\<rparr>) 0 (newTwitterPoster \<lparr>cfgTwitterMaxRetries = 2, cfgTwitterRetryDelay = 5000\<rparr>)
       = (Some (Inr ''https://x.com/u/status/1''), snd (publishSequence (always \<lparr>startTook = 200, launch = LaunchOk, phases = Publishes ''https://x.com/u/status/1'',
        tryTook = 1000, shot = ShotTaken,
        teardown = \<lparr>closing = Settles 100 CloseResolved, killThrows = False\<rparr>\<rparr> 0) (emit (AttemptStarted 0) (newTwitterPoster \<lparr>cfgTwitterMaxRetries = 2, cfgTwitterRetryDelay = 5000\<rparr>))))"
    using postTweetWithRetry_retries
      [where env = "always \<lparr>startTook = 200, launch = LaunchOk, phases = Publishes ''https://x.com/u/status/1'',
        tryTook = 1000, shot = ShotTaken,
        teardown = \<lparr>closing = Settles 100 CloseResolved, killThrows = False\<rparr>\<rparr>" and s = "(newTwitterPoster \<lparr>cfgTwitterMaxRetries = 2, cfgTwitterRetryDelay = 5000\<rparr>)" and a = 0 and url = "''https://x.com/u/status/1''"]
    by blast
  moreover have "snd (publishSequence (always \<lparr>startTook = 200, launch = LaunchOk, phases = Publishes ''https://x.com/u/status/1'',
        tryTook = 1000, shot = ShotTaken,
        teardown = \<lparr>closing = Settles 100 CloseResolved, killThrows = False\<rparr>\<rparr> 0) (emit (AttemptStarted 0) (newTwitterPoster \<lparr>cfgTwitterMaxRetries = 2, cfgTwitterRetryDelay = 5000\<rparr>)))
       = \<lparr>browser = Some 0, page = Some 0, isLoggedIn = True,
         twitterMaxRetries = 2, twitterRetryDelay = 5000,
         running = {0}, launches = 1, killTimers = [], now = 1200,
         trace = [AttemptStarted 0, Launched 0, Published ''https://x.com/u/status/1'',
                  ImagesDeleted]\<rparr>"
    by (simp add: postTweetWithRetry.simps always_def publishSequence_def initializeBrowser_def runPhases_def
      captureErrorScreenshot_def closeBrowser_def closeAttempt_def forceKill_def armKillTimer_def
      sleep_def timerMs_def emit_def elapse_def fireKillTimers_def newTwitterPoster_def
      orDefault_def Let_def)
  ultimately have 8: "postTweetWithRetry (always \<lparr>startTook = 200, launch = LaunchOk, phases = Publishes ''https://x.com/u/status/1'',
        tryTook = 1000, shot = ShotTaken,
        teardown = \<lparr>closing = Settles 100 CloseResolved, killThrows = False\<rparr>\<rparr>) 0 (newTwitterPoster \<lparr>cfgTwitterMaxRetries = 2, cfgTwitterRetryDelay = 5000\<rparr>)
       = (Some (Inr ''https://x.com/u/status/1''),
           \<lparr>browser = Some 0, page = Some 0, isLoggedIn = True,
         twitterMaxRetries = 2, twitterRetryDelay = 5000,
         running = {0}, launches = 1, killTimers = [], now = 1200,
         trace = [AttemptStarted 0, Launched 0, Published ''https://x.com/u/status/1'',
                  ImagesDeleted]\<rparr>)"
    by simp
  have h3: "captureErrorScreenshot (shot (always \<lparr>startTook = 200, launch = LaunchOk, phases = FailsIn PublishTweet ''boom'',
        tryTook = 1000, shot = ShotHangs,
        teardown = \<lparr>closing = Settles 100 CloseResolved, killThrows = False\<rparr>\<rparr> 0)) 0
          (emit (AttemptFailed 0 ''boom'') (snd (publishSequence (always \<lparr>startTook = 200, launch = LaunchOk, phases = FailsIn PublishTweet ''boom'',
        tryTook = 1000, shot = ShotHangs,
        teardown = \<lparr>closing = Settles 100 CloseResolved, killThrows = False\<rparr>\<rparr> 0) (emit (AttemptStarted 0) (newTwitterPoster \<lparr>cfgTwitterMaxRetries = 2, cfgTwitterRetryDelay = 5000\<rparr>)))))
        = captureErrorScreenshot (shot (always \<lparr>startTook = 200, launch = LaunchOk, phases = FailsIn PublishTweet ''boom'',
        tryTook = 1000, shot = ShotHangs,
        teardown = \<lparr>closing = Settles 100 CloseResolved, killThrows = False\<rparr>\<rparr> 0)) 0
          (emit (AttemptFailed 0 ''boom'') (snd (publishSequence (always \<lparr>startTook = 200, launch = LaunchOk, phases = FailsIn PublishTweet ''boom'',
        tryTook = 1000, shot = ShotHangs,
        teardown = \<lparr>closing = Settles 100 CloseResolved, killThrows = False\<rparr>\<rparr> 0) (emit (AttemptStarted 0) (newTwitterPoster \<lparr>cfgTwitterMaxRetries = 2, cfgTwitterRetryDelay = 5000\<rparr>)))))
      \<and> fst (publishSequence (always \<lparr>startTook = 200, launch = LaunchOk, phases = FailsIn PublishTweet ''boom'',
        tryTook = 1000, shot = ShotHangs,
        teardown = \<lparr>closing = Settles 100 CloseResolved, killThrows = False\<rparr>\<rparr> 0) (emit (AttemptStarted 0) (newTwitterPoster \<lparr>cfgTwitterMaxRetries = 2, cfgTwitterRetryDelay = 5000\<rparr>))) = Threw ''boom''
      \<and> \<not> fst (captureErrorScreenshot (shot (always \<lparr>startTook = 200, launch = LaunchOk, phases = FailsIn PublishTweet ''boom'',
        tryTook = 1000, shot = ShotHangs,
        teardown = \<lparr>closing = Settles 100 CloseResolved, killThrows = False\<rparr>\<rparr> 0)) 0
          (emit (AttemptFailed 0 ''boom'') (snd (publishSequence (always \<lparr>startTook = 200, launch = LaunchOk, phases = FailsIn PublishTweet ''boom'',
        tryTook = 1000, shot = ShotHangs,
        teardown = \<lparr>closing = Settles 100 CloseResolved, killThrows = False\<rparr>\<rparr> 0) (emit (AttemptStarted 0) (newTwitterPoster \<lparr>cfgTwitterMaxRetries = 2, cfgTwitterRetryDelay = 5000\<rparr>))))))"
    by (simp add: postTweetWithRetry.simps always_def publishSequence_def initializeBrowser_def runPhases_def
      captureErrorScreenshot_def closeBrowser_def closeAttempt_def forceKill_def armKillTimer_def
      sleep_def timerMs_def emit_def elapse_def fireKillTimers_def newTwitterPoster_def
      orDefault_def Let_def)
  have "postTweetWithRetry (always \<lparr>startTook = 200, launch = LaunchOk, phases = FailsIn PublishTweet ''boom'',
        tryTook = 1000, shot = ShotHangs,
        teardown = \<lparr>closing = Settles 100 CloseResolved, killThrows = False\<rparr>\<rparr>) 0 (newTwitterPoster \<lparr>cfgTwitterMaxRetries = 2, cfgTwitterRetryDelay = 5000\<rparr>)
       = (None, snd (captureErrorScreenshot (shot (always \<lparr>startTook = 200, launch = LaunchOk, phases = FailsIn PublishTweet ''boom'',
        tryTook = 1000, shot = ShotHangs,
        teardown = \<lparr>closing = Settles 100 CloseResolved, killThrows = False\<rparr>\<rparr> 0)) 0
          (emit (AttemptFailed 0 ''boom'') (snd (publishSequence (always \<lparr>startTook = 200, launch = LaunchOk, phases = FailsIn PublishTweet ''boom'',
        tryTook = 1000, shot = ShotHangs,
        teardown = \<lparr>closing = Settles 100 CloseResolved, killThrows = False\<rparr>\<rparr> 0) (emit (AttemptStarted 0) (newTwitterPoster \<lparr>cfgTwitterMaxRetries = 2, cfgTwitterRetryDelay = 5000\<rparr>)))))))"
    using postTweetWithRetry_retries
      [where env = "always \<lparr>startTook = 200, launch = LaunchOk, phases = FailsIn PublishTweet ''boom'',
        tryTook = 1000, shot = ShotHangs,
        teardown = \<lparr>closing = Settles 100 CloseResolved, killThrows = False\<rparr>\<rparr>" and s = "(newTwitterPoster \<lparr>cfgTwitterMaxRetries = 2, cfgTwitterRetryDelay = 5000\<rparr>)" and a = 0 and msg = "''boom''"
         and stuck = "captureErrorScreenshot (shot (always \<lparr>startTook = 200, launch = LaunchOk, phases = FailsIn PublishTweet ''boom'',
        tryTook = 1000, shot = ShotHangs,
        teardown = \<lparr>closing = Settles 100 CloseResolved, killThrows = False\<rparr>\<rparr> 0)) 0
          (emit (AttemptFailed 0 ''boom'') (snd (publishSequence (always \<lparr>startTook = 200, launch = LaunchOk, phases = FailsIn PublishTweet ''boom'',
        tryTook = 1000, shot = ShotHangs,
        teardown = \<lparr>closing = Settles 100 CloseResolved, killThrows = False\<rparr>\<rparr> 0) (emit (AttemptStarted 0) (newTwitterPoster \<lparr>cfgTwitterMaxRetries = 2, cfgTwitterRetryDelay = 5000\<rparr>)))))"] h3
    by blast
  moreover have "snd (captureErrorScreenshot (shot (always \<lparr>startTook = 200, launch = LaunchOk, phases = FailsIn PublishTweet ''boom'',
        tryTook = 1000, shot = ShotHangs,
        teardown = \<lparr>closing = Settles 100 CloseResolved, killThrows = False\<rparr>\<rparr> 0)) 0
          (emit (AttemptFailed 0 ''boom'') (snd (publishSequence (always \<lparr>startTook = 200, launch = LaunchOk, phases = FailsIn PublishTweet ''boom'',
        tryTook = 1000, shot = ShotHangs,
        teardown = \<lparr>closing = Settles 100 CloseResolved, killThrows = False\<rparr>\<rparr> 0) (emit (AttemptStarted 0) (newTwitterPoster \<lparr>cfgTwitterMaxRetries = 2, cfgTwitterRetryDelay = 5000\<rparr>))))))
       = \<lparr>browser = Some 0, page = Some 0, isLoggedIn = True,
         twitterMaxRetries = 2, twitterRetryDelay = 5000,
         running = {0}, launches = 1, killTimers = [], now = 1200,
         trace = [AttemptStarted 0, Launched 0, AttemptFailed 0 ''boom'',
                  ScreenshotRequested 0]\<rparr>"
    by (simp add: postTweetWithRetry.simps always_def publishSequence_def initializeBrowser_def runPhases_def
      captureErrorScreenshot_def closeBrowser_def closeAttempt_def forceKill_def armKillTimer_def
      sleep_def timerMs_def emit_def elapse_def fireKillTimers_def newTwitterPoster_def
      orDefault_def Let_def)
  ultimately have 9: "postTweetWithRetry (always \<lparr>startTook = 200, launch = LaunchOk, phases = FailsIn PublishTweet ''boom'',
        tryTook = 1000, shot = ShotHangs,
        teardown = \<lparr>closing = Settles 100 CloseResolved, killThrows = False\<rparr>\<rparr>) 0 (newTwitterPoster \<lparr>cfgTwitterMaxRetries = 2, cfgTwitterRetryDelay = 5000\<rparr>)
       = (None,
           \<lparr>browser = Some 0, page = Some 0, isLoggedIn = True,
         twitterMaxRetries = 2, twitterRetryDelay = 5000,
         running = {0}, launches = 1, killTimers = [], now = 1200,
         trace = [AttemptStarted 0, Launched 0, AttemptFailed 0 ''boom'',
                  ScreenshotRequested 0]\<rparr>)"
    by simp
  have "fst (publishSequence (always \<lparr>startTook = 200, launch = LaunchOk, phases = HangsIn NavigateToCompose,
        tryTook = 1000, shot = ShotTaken,
        teardown = \<lparr>closing = Settles 100 CloseResolved, killThrows = False\<rparr>\<rparr> 0) (emit (AttemptStarted 0) (newTwitterPoster \<lparr>cfgTwitterMaxRetries = 2, cfgTwitterRetryDelay = 5000\<rparr>))) = Hung"
    by (simp add: postTweetWithRetry.simps always_def publishSequence_def initializeBrowser_def runPhases_def
      captureErrorScreenshot_def closeBrowser_def closeAttempt_def forceKill_def armKillTimer_def
      sleep_def timerMs_def emit_def elapse_def fireKillTimers_def newTwitterPoster_def
      orDefault_def Let_def)
  then have "postTweetWithRetry (always \<lparr>startTook = 200, launch = LaunchOk, phases = HangsIn NavigateToCompose,
        tryTook = 1000, shot = ShotTaken,
        teardown = \<lparr>closing = Settles 100 CloseResolved, killThrows = False\<rparr>\<rparr>) 0 (newTwitterPoster \<lparr>cfgTwitterMaxRetries = 2, cfgTwitterRetryDelay = 5000\<rparr>)
       = (None, snd (publishSequence (always \<lparr>startTook = 200, launch = LaunchOk, phases = HangsIn NavigateToCompose,
        tryTook = 1000, shot = ShotTaken,
        teardown = \<lparr>closing = Settles 100 CloseResolved, killThrows = False\<rparr>\<rparr> 0) (emit (AttemptStarted 0) (newTwitterPoster \<lparr>cfgTwitterMaxRetries = 2, cfgTwitterRetryDelay = 5000\<rparr>))))"
    using postTweetWithRetry_retries
      [where env = "always \<lparr>startTook = 200, launch = LaunchOk, phases = HangsIn NavigateToCompose,
        tryTook = 1000, shot = ShotTaken,
        teardown = \<lparr>closing = Settles 100 CloseResolved, killThrows = False\<rparr>\<rparr>" and s = "(newTwitterPoster \<lparr>cfgTwitterMaxRetries = 2, cfgTwitterRetryDelay = 5000\<rparr>)" and a = 0]
    by blast
  moreover have "snd (publishSequence (always \<lparr>startTook = 200, launch = LaunchOk, phases = HangsIn NavigateToCompose,
        tryTook = 1000, shot = ShotTaken,
        teardown = \<lparr>closing = Settles 100 CloseResolved, killThrows = False\<rparr>\<rparr> 0) (emit (AttemptStarted 0) (newTwitterPoster \<lparr>cfgTwitterMaxRetries = 2, cfgTwitterRetryDelay = 5000\<rparr>)))
       = \<lparr>browser = Some 0, page = Some 0, isLoggedIn = True,
         twitterMaxRetries = 2, twitterRetryDelay = 5000,
         running = {0}, launches = 1, killTimers = [], now = 200,
         trace = [AttemptStarted 0, Launched 0]\<rparr>"
    by (simp add: postTweetWithRetry.simps always_def publishSequence_def initializeBrowser_def runPhases_def
      captureErrorScreenshot_def closeBrowser_def closeAttempt_def forceKill_def armKillTimer_def
      sleep_def timerMs_def emit_def elapse_def fireKillTimers_def newTwitterPoster_def
      orDefault_def Let_def)
  ultimately have 10: "postTweetWithRetry (always \<lparr>startTook = 200, launch = LaunchOk, phases = HangsIn NavigateToCompose,
        tryTook = 1000, shot = ShotTaken,
        teardown = \<lparr>closing = Settles 100 CloseResolved, killThrows = False\<rparr>\<rparr>) 0 (newTwitterPoster \<lparr>cfgTwitterMaxRetries = 2, cfgTwitterRetryDelay = 5000\<rparr>)
       = (None,
           \<lparr>browser = Some 0, page = Some 0, isLoggedIn = True,
         twitterMaxRetries = 2, twitterRetryDelay = 5000,
         running = {0}, launches = 1, killTimers = [], now = 200,
         trace = [AttemptStarted 0, Launched 0]\<rparr>)"
    by simp
  show ?thesis
    using 1 2 3 4 5 6 7 8 9 10 by blast
qed

section \<open>Ownership of the browser session\<close>

lemma runPhases_launches [simp]: "launches (snd (runPhases ph s)) = launches s"
  by (simp add: runPhases_def split: phases.splits)



text \<open>
  The timer of a close is not cleared either, and its kill reads \<^verbatim>\<open>this.browser\<close> when
  it fires. With a retry delay of 1000 ms, the timer set by the close after try 0 (at
  1100 ms, due at 6100 ms) is still pending when try 1 launches its browser (at 2300
  ms): it kills the browser of try 1.
\<close>

lemma stale_timer_kills_next_browser:
  "trace (snd (postTweetWithRetry
      ((always \<lparr>startTook = 100, launch = LaunchOk, phases = FailsIn NavigateToCompose ''Navigation timeout'',
        tryTook = 1000, shot = ShotTaken,
        teardown = \<lparr>closing = Settles 100 CloseResolved, killThrows = False\<rparr>\<rparr>)
        (1 := \<lparr>startTook = 100, launch = LaunchOk, phases = Publishes ''https://x.com/u/status/1'',
        tryTook = 6000, shot = ShotTaken,
        teardown = \<lparr>closing = Settles 100 CloseResolved, killThrows = False\<rparr>\<rparr>))
      0 (newTwitterPoster \<lparr>cfgTwitterMaxRetries = 2, cfgTwitterRetryDelay = 1000\<rparr>)))
   = [AttemptStarted 0, Launched 0, AttemptFailed 0 ''Navigation timeout'',
      ScreenshotRequested 0, ScreenshotTaken 0, CloseRequested, Closed 0, Slept 1000,
      AttemptStarted 1, Launched 1, Killed 1, Published ''https://x.com/u/status/1'', ImagesDeleted]"
  by (simp add: postTweetWithRetry.simps always_def publishSequence_def initializeBrowser_def runPhases_def
      captureErrorScreenshot_def closeBrowser_def closeAttempt_def forceKill_def armKillTimer_def
      sleep_def timerMs_def emit_def elapse_def fireKillTimers_def newTwitterPoster_def
      orDefault_def Let_def)



section \<open>The overall deadline\<close>

text \<open>The clock only moves forward, so the time a run takes is the difference of the clocks.\<close>

lemma now_closeAttempt: "now s \<le> now (snd (closeAttempt te s))"
  by (simp add: closeAttempt_def split: option.splits promise.splits raced.splits closed.splits)

lemma now_closeBrowser: "now s \<le> now (closeBrowser te s)"
proof -
  have "now (closeBrowser te s) = now (snd (closeAttempt te (emit CloseRequested s)))"
    by (simp add: closeBrowser_def Let_def split: step.splits)
  then show ?thesis
    using now_closeAttempt [of "emit CloseRequested s" te] by simp
qed

lemma now_initializeBrowser [simp]: "now (snd (initializeBrowser l s)) = now s"
  by (simp add: initializeBrowser_def Let_def split: launching.splits)

lemma now_runPhases [simp]: "now (snd (runPhases ph s)) = now s"
  by (simp add: runPhases_def split: phases.splits)

lemma now_publishSequence: "now s \<le> now (snd (publishSequence e s))"
  by (simp add: publishSequence_def Let_def split: step.splits)

lemma now_postTweetWithRetry: "now s \<le> now (snd (postTweetWithRetry env a s))"
proof (induction env a s rule: postTweetWithRetry.induct)
  case (1 env a s)
  define tried where "tried = publishSequence (env a) (emit (AttemptStarted a) s)"
  have t: "now s \<le> now (snd tried)"
    using now_publishSequence [of "emit (AttemptStarted a) s" "env a"] by (simp add: tried_def)
  show ?case
  proof (cases "fst tried")
    case (Done url)
    then have "postTweetWithRetry env a s = (Some (Inr url), snd tried)"
      unfolding tried_def by (rule retry_success)
    then show ?thesis using t by simp
  next
    case Hung
    then have "postTweetWithRetry env a s = (None, snd tried)"
      unfolding tried_def by (rule retry_hang)
    then show ?thesis using t by simp
  next
    case (Threw msg)
    define captured where
      "captured = captureErrorScreenshot (shot (env a)) a (emit (AttemptFailed a msg) (snd tried))"
    have c: "now s \<le> now (snd captured)"
      using t by (simp add: captured_def)
    show ?thesis
    proof (cases "fst captured")
      case False
      then have "postTweetWithRetry env a s = (None, snd captured)"
        using Threw retry_capture_hang [of env a s msg]
        unfolding tried_def captured_def by simp
      then show ?thesis using c by simp
    next
      case True
      define s3 where "s3 = closeBrowser (teardown (env a)) (snd captured)"
      have m3: "twitterMaxRetries s3 = twitterMaxRetries s"
        and d3: "twitterRetryDelay s3 = twitterRetryDelay s"
        by (simp_all add: s3_def captured_def tried_def)
      have c3: "now s \<le> now s3"
        using c now_closeBrowser [of "snd captured" "teardown (env a)"] by (simp add: s3_def)
      show ?thesis
      proof (cases "int a < twitterMaxRetries s")
        case False
        then have "postTweetWithRetry env a s = (Some (Inl (Error msg)), s3)"
          using Threw True retry_final [of env a s msg]
          unfolding tried_def captured_def s3_def by simp
        then show ?thesis using c3 by simp
      next
        case less: True
        define s4 where "s4 = sleep (twitterRetryDelay s3 * (int a + 1)) s3"
        have eq: "postTweetWithRetry env a s = postTweetWithRetry env (a + 1) s4"
          using Threw True less retry_again [of env a s msg]
          unfolding tried_def captured_def s3_def s4_def
          by (simp add: d3 [unfolded s3_def captured_def tried_def])
        have c4: "now s \<le> now s4"
          using c3 by (simp add: s4_def)
        have "now s4 \<le> now (snd (postTweetWithRetry env (a + 1) s4))"
          using "1.IH" [OF tried_def Threw captured_def _ s3_def] True less
          unfolding s4_def by (simp add: m3)
        then show ?thesis
          unfolding eq [symmetric] using c4 by simp
      qed
    qed
  qed
qed

lemma deadline_first:
  "race (Settles t x) p =
     (case p of
        Never \<Rightarrow> Settles t x
      | Settles d r \<Rightarrow> if t \<le> d then Settles t x else Settles d r)"
  by (cases p) simp_all

text \<open>
  C3. \<^verbatim>\<open>postTweet\<close> always settles, and within 120000 ms: if the run (all its tries
  and sleeps) has settled before, with the run's own result at the run's own time; if
  the run never settles, or not before 120000 ms have passed, with the timeout error at
  120000 ms. The time that the run takes is the difference of the clocks, which only
  move forward. The clock is the logical one of the model; the latency of the event loop
  (the \<open>\<epsilon>\<close> of the claim) is not part of it.
\<close>

theorem postTweet_deadline:
  "now s \<le> now (snd (postTweetWithRetry env 0 s))
   \<and> (\<exists>t r. fst (postTweet env s) = Settles t r \<and> t \<le> 120000
     \<and> (fst (postTweetWithRetry env 0 s) = None
          \<or> (\<exists>r'. fst (postTweetWithRetry env 0 s) = Some r'
                \<and> 120000 \<le> now (snd (postTweetWithRetry env 0 s)) - now s)
        \<longrightarrow> t = 120000 \<and> r = Inl timeoutError)
     \<and> (\<forall>r'. fst (postTweetWithRetry env 0 s) = Some r'
                \<and> now (snd (postTweetWithRetry env 0 s)) - now s < 120000
        \<longrightarrow> t = now (snd (postTweetWithRetry env 0 s)) - now s \<and> r = r'))"
proof (rule conjI)
  show "now s \<le> now (snd (postTweetWithRetry env 0 s))"
    by (rule now_postTweetWithRetry)
next
  show "\<exists>t r. fst (postTweet env s) = Settles t r \<and> t \<le> 120000
     \<and> (fst (postTweetWithRetry env 0 s) = None
          \<or> (\<exists>r'. fst (postTweetWithRetry env 0 s) = Some r'
                \<and> 120000 \<le> now (snd (postTweetWithRetry env 0 s)) - now s)
        \<longrightarrow> t = 120000 \<and> r = Inl timeoutError)
     \<and> (\<forall>r'. fst (postTweetWithRetry env 0 s) = Some r'
                \<and> now (snd (postTweetWithRetry env 0 s)) - now s < 120000
        \<longrightarrow> t = now (snd (postTweetWithRetry env 0 s)) - now s \<and> r = r')"
  proof (cases "fst (postTweetWithRetry env 0 s)")
    case None
    then have "fst (postTweet env s) = Settles 120000 (Inl timeoutError)"
      by (simp add: postTweet_def postTweetWithTimeout_def timerMs_def Let_def)
    with None show ?thesis by simp
  next
    case (Some r')
    show ?thesis
    proof (cases "now (snd (postTweetWithRetry env 0 s)) - now s < 120000")
      case True
      then have "fst (postTweet env s)
          = Settles (now (snd (postTweetWithRetry env 0 s)) - now s) r'"
        using Some by (simp add: postTweet_def postTweetWithTimeout_def timerMs_def Let_def)
      with Some True show ?thesis by simp
    next
      case False
      then have "fst (postTweet env s) = Settles 120000 (Inl timeoutError)"
        using Some by (simp add: postTweet_def postTweetWithTimeout_def timerMs_def Let_def)
      with Some False show ?thesis by simp
    qed
  qed
qed

theorem postTweet_deadline_witness:
  "fst (postTweetWithRetry (always \<lparr>startTook = 200, launch = LaunchOk, phases = HangsIn NavigateToCompose,
        tryTook = 1000, shot = ShotTaken,
        teardown = \<lparr>closing = Settles 100 CloseResolved, killThrows = False\<rparr>\<rparr>) 0 (newTwitterPoster \<lparr>cfgTwitterMaxRetries = 2, cfgTwitterRetryDelay = 5000\<rparr>)) = None
   \<and> fst (postTweet (always \<lparr>startTook = 200, launch = LaunchOk, phases = HangsIn NavigateToCompose,
        tryTook = 1000, shot = ShotTaken,
        teardown = \<lparr>closing = Settles 100 CloseResolved, killThrows = False\<rparr>\<rparr>) (newTwitterPoster \<lparr>cfgTwitterMaxRetries = 2, cfgTwitterRetryDelay = 5000\<rparr>)) = Settles 120000 (Inl timeoutError)
   \<and> fst (postTweetWithRetry (always \<lparr>startTook = 200, launch = LaunchOk, phases = Publishes ''https://x.com/u/status/1'',
        tryTook = 1000, shot = ShotTaken,
        teardown = \<lparr>closing = Settles 100 CloseResolved, killThrows = False\<rparr>\<rparr>) 0 (newTwitterPoster \<lparr>cfgTwitterMaxRetries = 2, cfgTwitterRetryDelay = 5000\<rparr>)) = Some (Inr ''https://x.com/u/status/1'')
   \<and> now (snd (postTweetWithRetry (always \<lparr>startTook = 200, launch = LaunchOk, phases = Publishes ''https://x.com/u/status/1'',
        tryTook = 1000, shot = ShotTaken,
        teardown = \<lparr>closing = Settles 100 CloseResolved, killThrows = False\<rparr>\<rparr>) 0 (newTwitterPoster \<lparr>cfgTwitterMaxRetries = 2, cfgTwitterRetryDelay = 5000\<rparr>))) - now (newTwitterPoster \<lparr>cfgTwitterMaxRetries = 2, cfgTwitterRetryDelay = 5000\<rparr>) < 120000
   \<and> fst (postTweet (always \<lparr>startTook = 200, launch = LaunchOk, phases = Publishes ''https://x.com/u/status/1'',
        tryTook = 1000, shot = ShotTaken,
        teardown = \<lparr>closing = Settles 100 CloseResolved, killThrows = False\<rparr>\<rparr>) (newTwitterPoster \<lparr>cfgTwitterMaxRetries = 2, cfgTwitterRetryDelay = 5000\<rparr>)) = Settles 1200 (Inr ''https://x.com/u/status/1'')"
proof -
  have h: "fst (postTweetWithRetry (always \<lparr>startTook = 200, launch = LaunchOk, phases = HangsIn NavigateToCompose,
        tryTook = 1000, shot = ShotTaken,
        teardown = \<lparr>closing = Settles 100 CloseResolved, killThrows = False\<rparr>\<rparr>) 0 (newTwitterPoster \<lparr>cfgTwitterMaxRetries = 2, cfgTwitterRetryDelay = 5000\<rparr>)) = None"
    by (simp add: run_hang)
  have k: "fst (postTweetWithRetry (always \<lparr>startTook = 200, launch = LaunchOk, phases = Publishes ''https://x.com/u/status/1'',
        tryTook = 1000, shot = ShotTaken,
        teardown = \<lparr>closing = Settles 100 CloseResolved, killThrows = False\<rparr>\<rparr>) 0 (newTwitterPoster \<lparr>cfgTwitterMaxRetries = 2, cfgTwitterRetryDelay = 5000\<rparr>)) = Some (Inr ''https://x.com/u/status/1'')"
    and d: "now (snd (postTweetWithRetry (always \<lparr>startTook = 200, launch = LaunchOk, phases = Publishes ''https://x.com/u/status/1'',
        tryTook = 1000, shot = ShotTaken,
        teardown = \<lparr>closing = Settles 100 CloseResolved, killThrows = False\<rparr>\<rparr>) 0 (newTwitterPoster \<lparr>cfgTwitterMaxRetries = 2, cfgTwitterRetryDelay = 5000\<rparr>))) - now (newTwitterPoster \<lparr>cfgTwitterMaxRetries = 2, cfgTwitterRetryDelay = 5000\<rparr>) = 1200"
    unfolding run_success by (simp_all add: newTwitterPoster_def)
  have 1: "fst (postTweet (always \<lparr>startTook = 200, launch = LaunchOk, phases = HangsIn NavigateToCompose,
        tryTook = 1000, shot = ShotTaken,
        teardown = \<lparr>closing = Settles 100 CloseResolved, killThrows = False\<rparr>\<rparr>) (newTwitterPoster \<lparr>cfgTwitterMaxRetries = 2, cfgTwitterRetryDelay = 5000\<rparr>)) = Settles 120000 (Inl timeoutError)"
    using postTweet_deadline [of "(newTwitterPoster \<lparr>cfgTwitterMaxRetries = 2, cfgTwitterRetryDelay = 5000\<rparr>)" "(always \<lparr>startTook = 200, launch = LaunchOk, phases = HangsIn NavigateToCompose,
        tryTook = 1000, shot = ShotTaken,
        teardown = \<lparr>closing = Settles 100 CloseResolved, killThrows = False\<rparr>\<rparr>)"] h by auto
  have 2: "fst (postTweet (always \<lparr>startTook = 200, launch = LaunchOk, phases = Publishes ''https://x.com/u/status/1'',
        tryTook = 1000, shot = ShotTaken,
        teardown = \<lparr>closing = Settles 100 CloseResolved, killThrows = False\<rparr>\<rparr>) (newTwitterPoster \<lparr>cfgTwitterMaxRetries = 2, cfgTwitterRetryDelay = 5000\<rparr>)) = Settles 1200 (Inr ''https://x.com/u/status/1'')"
    using postTweet_deadline [of "(newTwitterPoster \<lparr>cfgTwitterMaxRetries = 2, cfgTwitterRetryDelay = 5000\<rparr>)" "(always \<lparr>startTook = 200, launch = LaunchOk, phases = Publishes ''https://x.com/u/status/1'',
        tryTook = 1000, shot = ShotTaken,
        teardown = \<lparr>closing = Settles 100 CloseResolved, killThrows = False\<rparr>\<rparr>)"] k d by auto
  show ?thesis
    using h k d 1 2 by simp
qed

text \<open>
  C2 as stated fails: the timer of \<^verbatim>\<open>postTweetWithTimeout\<close> only rejects the promise.
  With a first try that never gets past \<^verbatim>\<open>navigateToCompose\<close>, \<^verbatim>\<open>postTweet\<close> rejects
  with the timeout error at 120000 ms, and the browser is still held and its process
  still running; \<^verbatim>\<open>closeBrowser\<close> has not been called.
\<close>

theorem session_survives_deadline:
  "fst (postTweet (always \<lparr>startTook = 200, launch = LaunchOk, phases = HangsIn NavigateToCompose,
        tryTook = 1000, shot = ShotTaken,
        teardown = \<lparr>closing = Settles 100 CloseResolved, killThrows = False\<rparr>\<rparr>) (newTwitterPoster \<lparr>cfgTwitterMaxRetries = 2, cfgTwitterRetryDelay = 5000\<rparr>)) = Settles 120000 (Inl timeoutError)
   \<and> browser (snd (postTweet (always \<lparr>startTook = 200, launch = LaunchOk, phases = HangsIn NavigateToCompose,
        tryTook = 1000, shot = ShotTaken,
        teardown = \<lparr>closing = Settles 100 CloseResolved, killThrows = False\<rparr>\<rparr>) (newTwitterPoster \<lparr>cfgTwitterMaxRetries = 2, cfgTwitterRetryDelay = 5000\<rparr>))) = Some 0
   \<and> 0 \<in> running (snd (postTweet (always \<lparr>startTook = 200, launch = LaunchOk, phases = HangsIn NavigateToCompose,
        tryTook = 1000, shot = ShotTaken,
        teardown = \<lparr>closing = Settles 100 CloseResolved, killThrows = False\<rparr>\<rparr>) (newTwitterPoster \<lparr>cfgTwitterMaxRetries = 2, cfgTwitterRetryDelay = 5000\<rparr>)))
   \<and> trace (snd (postTweet (always \<lparr>startTook = 200, launch = LaunchOk, phases = HangsIn NavigateToCompose,
        tryTook = 1000, shot = ShotTaken,
        teardown = \<lparr>closing = Settles 100 CloseResolved, killThrows = False\<rparr>\<rparr>) (newTwitterPoster \<lparr>cfgTwitterMaxRetries = 2, cfgTwitterRetryDelay = 5000\<rparr>))) = [AttemptStarted 0, Launched 0]"
  by (simp add: postTweet_def postTweetWithTimeout_def postTweetWithRetry.simps always_def
      publishSequence_def initializeBrowser_def runPhases_def emit_def elapse_def
      fireKillTimers_def timerMs_def newTwitterPoster_def orDefault_def timeoutError_def Let_def)

text \<open>
  C2, amended. When the deadline expires while the run is still in progress, the promise
  rejects with the timeout error and the run's outcome is discarded: so for a run that
  never settles (first part) and for one that has not settled when the timer fires
  (second part); the timer runs \<open>timerMs timeoutMs\<close> milliseconds. The deadline tears
  nothing down and does not cancel the run: the state is the one that the run leaves,
  and a run that never settles, started where a page belongs to a browser, leaves the
  browser held (third part). The session is closed only by the run itself, in the
  \<^verbatim>\<open>catch\<close> block of a failed try.
\<close>

theorem deadline_rejects_without_teardown:
  "(fst (postTweetWithRetry env 0 s) = None \<longrightarrow>
      postTweetWithTimeout t env s
        = (Settles (timerMs t) (Inl timeoutError), snd (postTweetWithRetry env 0 s)))
   \<and> (fst (postTweetWithRetry env 0 s) = Some r
       \<and> timerMs t \<le> now (snd (postTweetWithRetry env 0 s)) - now s \<longrightarrow>
      postTweetWithTimeout t env s
        = (Settles (timerMs t) (Inl timeoutError), snd (postTweetWithRetry env 0 s)))
   \<and> (fst (postTweetWithRetry env 0 s) = None \<and> consistent s \<longrightarrow>
        snd (postTweetWithTimeout t env s) = snd (postTweetWithRetry env 0 s)
      \<and> browser (snd (postTweetWithTimeout t env s)) \<noteq> None)"
proof (intro conjI impI)
  assume "fst (postTweetWithRetry env 0 s) = None"
  then show "postTweetWithTimeout t env s
        = (Settles (timerMs t) (Inl timeoutError), snd (postTweetWithRetry env 0 s))"
    by (simp add: postTweetWithTimeout_def Let_def)
next
  assume "fst (postTweetWithRetry env 0 s) = Some r
       \<and> timerMs t \<le> now (snd (postTweetWithRetry env 0 s)) - now s"
  then show "postTweetWithTimeout t env s
        = (Settles (timerMs t) (Inl timeoutError), snd (postTweetWithRetry env 0 s))"
    by (simp add: postTweetWithTimeout_def Let_def)
next
  assume a: "fst (postTweetWithRetry env 0 s) = None \<and> consistent s"
  show "snd (postTweetWithTimeout t env s) = snd (postTweetWithRetry env 0 s)"
    by (simp add: postTweetWithTimeout_def Let_def)
  from a have "browser (snd (postTweetWithRetry env 0 s)) \<noteq> None"
    using retry_outcome_state [of env 0 s] by blast
  then show "browser (snd (postTweetWithTimeout t env s)) \<noteq> None"
    by (simp add: postTweetWithTimeout_def Let_def)
qed

theorem deadline_rejects_without_teardown_witness:
  "fst (postTweetWithRetry (always \<lparr>startTook = 200, launch = LaunchOk, phases = HangsIn NavigateToCompose,
        tryTook = 1000, shot = ShotTaken,
        teardown = \<lparr>closing = Settles 100 CloseResolved, killThrows = False\<rparr>\<rparr>) 0 (newTwitterPoster \<lparr>cfgTwitterMaxRetries = 2, cfgTwitterRetryDelay = 5000\<rparr>)) = None
   \<and> consistent (newTwitterPoster \<lparr>cfgTwitterMaxRetries = 2, cfgTwitterRetryDelay = 5000\<rparr>)
   \<and> fst (postTweetWithTimeout 120000 (always \<lparr>startTook = 200, launch = LaunchOk, phases = HangsIn NavigateToCompose,
        tryTook = 1000, shot = ShotTaken,
        teardown = \<lparr>closing = Settles 100 CloseResolved, killThrows = False\<rparr>\<rparr>) (newTwitterPoster \<lparr>cfgTwitterMaxRetries = 2, cfgTwitterRetryDelay = 5000\<rparr>)) = Settles 120000 (Inl timeoutError)
   \<and> browser (snd (postTweetWithTimeout 120000 (always \<lparr>startTook = 200, launch = LaunchOk, phases = HangsIn NavigateToCompose,
        tryTook = 1000, shot = ShotTaken,
        teardown = \<lparr>closing = Settles 100 CloseResolved, killThrows = False\<rparr>\<rparr>) (newTwitterPoster \<lparr>cfgTwitterMaxRetries = 2, cfgTwitterRetryDelay = 5000\<rparr>))) \<noteq> None
   \<and> fst (postTweetWithRetry (always \<lparr>startTook = 200, launch = LaunchOk, phases = Publishes ''https://x.com/u/status/1'',
        tryTook = 1000, shot = ShotTaken,
        teardown = \<lparr>closing = Settles 100 CloseResolved, killThrows = False\<rparr>\<rparr>) 0 (newTwitterPoster \<lparr>cfgTwitterMaxRetries = 2, cfgTwitterRetryDelay = 5000\<rparr>)) = Some (Inr ''https://x.com/u/status/1'')
   \<and> timerMs 500 \<le> now (snd (postTweetWithRetry (always \<lparr>startTook = 200, launch = LaunchOk, phases = Publishes ''https://x.com/u/status/1'',
        tryTook = 1000, shot = ShotTaken,
        teardown = \<lparr>closing = Settles 100 CloseResolved, killThrows = False\<rparr>\<rparr>) 0 (newTwitterPoster \<lparr>cfgTwitterMaxRetries = 2, cfgTwitterRetryDelay = 5000\<rparr>))) - now (newTwitterPoster \<lparr>cfgTwitterMaxRetries = 2, cfgTwitterRetryDelay = 5000\<rparr>)
   \<and> fst (postTweetWithTimeout 500 (always \<lparr>startTook = 200, launch = LaunchOk, phases = Publishes ''https://x.com/u/status/1'',
        tryTook = 1000, shot = ShotTaken,
        teardown = \<lparr>closing = Settles 100 CloseResolved, killThrows = False\<rparr>\<rparr>) (newTwitterPoster \<lparr>cfgTwitterMaxRetries = 2, cfgTwitterRetryDelay = 5000\<rparr>)) = Settles 500 (Inl timeoutError)"
proof -
  have h: "fst (postTweetWithRetry (always \<lparr>startTook = 200, launch = LaunchOk, phases = HangsIn NavigateToCompose,
        tryTook = 1000, shot = ShotTaken,
        teardown = \<lparr>closing = Settles 100 CloseResolved, killThrows = False\<rparr>\<rparr>) 0 (newTwitterPoster \<lparr>cfgTwitterMaxRetries = 2, cfgTwitterRetryDelay = 5000\<rparr>)) = None"
    by (simp add: run_hang)
  have c: "consistent (newTwitterPoster \<lparr>cfgTwitterMaxRetries = 2, cfgTwitterRetryDelay = 5000\<rparr>)"
    by (simp add: consistent_def newTwitterPoster_def)
  have k: "fst (postTweetWithRetry (always \<lparr>startTook = 200, launch = LaunchOk, phases = Publishes ''https://x.com/u/status/1'',
        tryTook = 1000, shot = ShotTaken,
        teardown = \<lparr>closing = Settles 100 CloseResolved, killThrows = False\<rparr>\<rparr>) 0 (newTwitterPoster \<lparr>cfgTwitterMaxRetries = 2, cfgTwitterRetryDelay = 5000\<rparr>)) = Some (Inr ''https://x.com/u/status/1'')"
    and d: "timerMs 500 \<le> now (snd (postTweetWithRetry (always \<lparr>startTook = 200, launch = LaunchOk, phases = Publishes ''https://x.com/u/status/1'',
        tryTook = 1000, shot = ShotTaken,
        teardown = \<lparr>closing = Settles 100 CloseResolved, killThrows = False\<rparr>\<rparr>) 0 (newTwitterPoster \<lparr>cfgTwitterMaxRetries = 2, cfgTwitterRetryDelay = 5000\<rparr>))) - now (newTwitterPoster \<lparr>cfgTwitterMaxRetries = 2, cfgTwitterRetryDelay = 5000\<rparr>)"
    unfolding run_success by (simp_all add: newTwitterPoster_def timerMs_def)
  have ms: "timerMs 120000 = 120000" "timerMs 500 = 500"
    by (simp_all add: timerMs_def)
  note hanging = deadline_rejects_without_teardown
      [where env = "(always \<lparr>startTook = 200, launch = LaunchOk, phases = HangsIn NavigateToCompose,
        tryTook = 1000, shot = ShotTaken,
        teardown = \<lparr>closing = Settles 100 CloseResolved, killThrows = False\<rparr>\<rparr>)" and s = "(newTwitterPoster \<lparr>cfgTwitterMaxRetries = 2, cfgTwitterRetryDelay = 5000\<rparr>)" and t = 120000]
  note late = deadline_rejects_without_teardown
      [where env = "(always \<lparr>startTook = 200, launch = LaunchOk, phases = Publishes ''https://x.com/u/status/1'',
        tryTook = 1000, shot = ShotTaken,
        teardown = \<lparr>closing = Settles 100 CloseResolved, killThrows = False\<rparr>\<rparr>)" and s = "(newTwitterPoster \<lparr>cfgTwitterMaxRetries = 2, cfgTwitterRetryDelay = 5000\<rparr>)" and t = 500
         and r = "Inr ''https://x.com/u/status/1''"]
  have 1: "fst (postTweetWithTimeout 120000 (always \<lparr>startTook = 200, launch = LaunchOk, phases = HangsIn NavigateToCompose,
        tryTook = 1000, shot = ShotTaken,
        teardown = \<lparr>closing = Settles 100 CloseResolved, killThrows = False\<rparr>\<rparr>) (newTwitterPoster \<lparr>cfgTwitterMaxRetries = 2, cfgTwitterRetryDelay = 5000\<rparr>)) = Settles 120000 (Inl timeoutError)"
    using hanging h by (simp add: ms)
  have 2: "browser (snd (postTweetWithTimeout 120000 (always \<lparr>startTook = 200, launch = LaunchOk, phases = HangsIn NavigateToCompose,
        tryTook = 1000, shot = ShotTaken,
        teardown = \<lparr>closing = Settles 100 CloseResolved, killThrows = False\<rparr>\<rparr>) (newTwitterPoster \<lparr>cfgTwitterMaxRetries = 2, cfgTwitterRetryDelay = 5000\<rparr>))) \<noteq> None"
    using hanging h c by blast
  have 3: "fst (postTweetWithTimeout 500 (always \<lparr>startTook = 200, launch = LaunchOk, phases = Publishes ''https://x.com/u/status/1'',
        tryTook = 1000, shot = ShotTaken,
        teardown = \<lparr>closing = Settles 100 CloseResolved, killThrows = False\<rparr>\<rparr>) (newTwitterPoster \<lparr>cfgTwitterMaxRetries = 2, cfgTwitterRetryDelay = 5000\<rparr>)) = Settles 500 (Inl timeoutError)"
    using late k d by (simp add: ms)
  show ?thesis
    using h c k d 1 2 3 by blast
qed

section \<open>Properties of uploadImages\<close>











section \<open>Properties of verifyTweetSuccess\<close>

text \<open>The loop makes at most 20 passes; the first pass that yields a URL decides.\<close>

lemma verifyLoop_waiting:
  "k < 20 \<Longrightarrow> pollOnce (env k) = StillWaiting \<Longrightarrow>
   verifyLoop env (1000 * k) = verifyLoop env (1000 * k + 1000)"
  by (simp add: verifyLoop.simps [of env "1000 * k"] maxWaitTime_def checkInterval_def)

lemma verifyLoop_found:
  "k < 20 \<Longrightarrow> pollOnce (env k) = TweetUrl u \<Longrightarrow> verifyLoop env (1000 * k) = Inr u"
  by (simp add: verifyLoop.simps [of env "1000 * k"] maxWaitTime_def checkInterval_def)

lemma verifyLoop_timeout: "verifyLoop env 20000 = Inl verificationError"
  by (simp add: verifyLoop.simps [of env 20000] maxWaitTime_def)

lemma verifyLoop_skip:
  "k \<le> 20 \<Longrightarrow> \<forall>j<k. pollOnce (env j) = StillWaiting \<Longrightarrow>
   verifyLoop env 0 = verifyLoop env (1000 * k)"
proof (induction k)
  case 0
  then show ?case by simp
next
  case (Suc k)
  then have "verifyLoop env 0 = verifyLoop env (1000 * k)"
    by simp
  also have "\<dots> = verifyLoop env (1000 * k + 1000)"
    using Suc.prems by (intro verifyLoop_waiting) simp_all
  finally show ?case by (simp add: add.commute)
qed

lemma verify_first:
  assumes "k < 20" "\<forall>j<k. pollOnce (env j) = StillWaiting" "pollOnce (env k) = TweetUrl u"
  shows "verifyTweetSuccess env = Inr u"
  using verifyLoop_skip [of k env] verifyLoop_found [of k env u] assms
  by (simp add: verifyTweetSuccess_def)

lemma verify_none:
  assumes "\<forall>j<20. pollOnce (env j) = StillWaiting"
  shows "verifyTweetSuccess env = Inl verificationError"
  using verifyLoop_skip [of 20 env] verifyLoop_timeout [of env] assms
  by (simp add: verifyTweetSuccess_def)

lemma newestFirst_empty [simp]: "newestFirst [] = []"
  by (simp add: newestFirst_def)

lemma newestFirst_Nil [simp]: "newestFirst hrefs = [] \<longleftrightarrow> hrefs = []"
  unfolding newestFirst_def by (metis length_0_conv length_sort)

lemma lookedUp_cases:
  "lookedUp x = (case extractTweetUrlFromPage x of Inr u \<Rightarrow> TweetUrl u | Inl e \<Rightarrow> StillWaiting)"
  by (simp add: lookedUp_def)

text \<open>A pass of the loop in which the lookup fails and nothing carries a status link.\<close>

lemma pollOnce_without_reference:
  assumes "\<not> includesStr (currentUrl p) ''/status/''"
    and "viewButton p = Answer None \<or> (\<exists>msg. viewButton p = Raises msg)"
    and "(\<exists>hrefs. statusLinks p = Answer hrefs \<and> filter (\<lambda>h. includesStr h ''/status/'') hrefs = [])
         \<or> (\<exists>msg. statusLinks p = Raises msg)"
    and "extractTweetUrlFromPage (extraction p) = Inl e"
  shows "pollOnce p = StillWaiting"
  using assms
  by (auto simp: pollOnce_def lookedUp_def split: answer.splits option.splits bool.splits list.splits)

lemma pollOnce_status_url:
  "includesStr (currentUrl p) ''/status/'' \<Longrightarrow> pollOnce p = TweetUrl (currentUrl p)"
  by (simp add: pollOnce_def)

lemma pollOnce_view_button:
  "\<not> includesStr (currentUrl p) ''/status/'' \<Longrightarrow> viewButton p = Answer (Some href) \<Longrightarrow>
   pollOnce p = TweetUrl href"
  by (simp add: pollOnce_def)

lemma pollOnce_notification_link:
  assumes "\<not> includesStr (currentUrl p) ''/status/''" "viewButton p = Answer None"
    "successNotification p = Answer True" "statusLinks p = Answer hrefs"
    "filter (\<lambda>h. includesStr h ''/status/'') hrefs \<noteq> []"
  shows "pollOnce p = TweetUrl (hd (newestFirst (filter (\<lambda>h. includesStr h ''/status/'') hrefs)))"
proof -
  obtain u us where "newestFirst (filter (\<lambda>h. includesStr h ''/status/'') hrefs) = u # us"
    using assms(5) by (cases "newestFirst (filter (\<lambda>h. includesStr h ''/status/'') hrefs)") simp_all
  then show ?thesis
    using assms by (simp add: pollOnce_def)
qed

lemma pollOnce_lookup:
  assumes "\<not> includesStr (currentUrl p) ''/status/''" "viewButton p = Answer None"
    "(successNotification p = Answer True \<and> statusLinks p = Answer hrefs
        \<and> filter (\<lambda>h. includesStr h ''/status/'') hrefs = [])
     \<or> (successNotification p = Answer False \<and> composeModal p = Answer False
        \<and> \<not> includesStr (currentUrlCheck p) ''/compose'')"
  shows "pollOnce p = lookedUp (extraction p)"
  using assms by (auto simp: pollOnce_def)

text \<open>
  C4 as stated fails in \<^verbatim>\<open>verifyTweetSuccess\<close>. First run: at every pass the page
  shows the success notification, the compose text area is gone and the location is the
  home page, but no status link is found, neither on the page nor on the profile: the
  lookup throws inside the loop's \<^verbatim>\<open>try\<close>, the loop goes on polling, and after 20
  passes the verification fails. Second run: the compose text area is gone while the
  location is still the compose location (the submit button is not looked at by this
  function): the loop keeps waiting and fails, although a status link is on the page.
\<close>

theorem verification_depends_on_lookup:
  "verifyTweetSuccess (everyPoll
      \<lparr>currentUrl = ''https://x.com/home'', viewButton = Answer None,
       successNotification = Answer True, statusLinks = Answer [],
       composeModal = Answer False, currentUrlCheck = ''https://x.com/home'',
       extraction = \<lparr>urlNow = ''https://x.com/home'', domLinks = Answer [],
                     profileLinks = Answer []\<rparr>\<rparr>)
     = Inl verificationError
   \<and> verifyTweetSuccess (everyPoll
      \<lparr>currentUrl = ''https://x.com/compose/tweet'', viewButton = Answer None,
       successNotification = Answer False, statusLinks = Answer [],
       composeModal = Answer False, currentUrlCheck = ''https://x.com/compose/tweet'',
       extraction = \<lparr>urlNow = ''https://x.com/compose/tweet'', domLinks = Answer [''https://x.com/u/status/1''],
                     profileLinks = Answer []\<rparr>\<rparr>)
     = Inl verificationError"
  by (simp add: verify_none everyPoll_def pollOnce_def lookedUp_def extractTweetUrlFromPage_def newestTweetLink_def)

text \<open>
  C4, as the code has it. In pass \<open>k\<close> of at most 20, all earlier passes having kept
  waiting: a location on a \<^verbatim>\<open>/status/\<close> URL resolves the verification with that URL;
  so does a status link labelled "view", with its link; so does the success
  notification when the page has a status link, with the newest one. The success
  notification without a status link on the page, and the compose text area gone with
  the location off \<^verbatim>\<open>/compose\<close>, resolve the verification only through the lookup of
  the post's URL, with what it returns. And where in every pass there is no status URL,
  no "view" link, no status link on the page and the lookup fails, the verification
  fails, whatever the notification and the compose surface show: success is not decided
  independently of the lookup. The state of the submit button is not consulted.
\<close>

theorem verifyTweetSuccess_signals:
  "(k < 20 \<and> (\<forall>j<k. pollOnce (env j) = StillWaiting) \<longrightarrow>
      (includesStr (currentUrl (env k)) ''/status/'' \<longrightarrow>
         verifyTweetSuccess env = Inr (currentUrl (env k)))
    \<and> (\<not> includesStr (currentUrl (env k)) ''/status/''
        \<and> viewButton (env k) = Answer (Some href) \<longrightarrow>
         verifyTweetSuccess env = Inr href)
    \<and> (\<not> includesStr (currentUrl (env k)) ''/status/''
        \<and> viewButton (env k) = Answer None
        \<and> successNotification (env k) = Answer True
        \<and> statusLinks (env k) = Answer hrefs
        \<and> filter (\<lambda>h. includesStr h ''/status/'') hrefs \<noteq> [] \<longrightarrow>
         verifyTweetSuccess env = Inr (hd (newestFirst (filter (\<lambda>h. includesStr h ''/status/'') hrefs))))
    \<and> (\<not> includesStr (currentUrl (env k)) ''/status/''
        \<and> viewButton (env k) = Answer None
        \<and> ((successNotification (env k) = Answer True \<and> statusLinks (env k) = Answer hrefs
              \<and> filter (\<lambda>h. includesStr h ''/status/'') hrefs = [])
            \<or> (successNotification (env k) = Answer False \<and> composeModal (env k) = Answer False
              \<and> \<not> includesStr (currentUrlCheck (env k)) ''/compose''))
        \<and> extractTweetUrlFromPage (extraction (env k)) = Inr u \<longrightarrow>
         verifyTweetSuccess env = Inr u))
   \<and> ((\<forall>j<20. \<not> includesStr (currentUrl (env j)) ''/status/''
          \<and> (viewButton (env j) = Answer None \<or> (\<exists>msg. viewButton (env j) = Raises msg))
          \<and> ((\<exists>hs. statusLinks (env j) = Answer hs
                  \<and> filter (\<lambda>h. includesStr h ''/status/'') hs = [])
              \<or> (\<exists>msg. statusLinks (env j) = Raises msg))
          \<and> (\<exists>e. extractTweetUrlFromPage (extraction (env j)) = Inl e)) \<longrightarrow>
       verifyTweetSuccess env = Inl verificationError)"
proof (intro conjI impI)
  assume w: "k < 20 \<and> (\<forall>j<k. pollOnce (env j) = StillWaiting)"
  {
    assume "includesStr (currentUrl (env k)) ''/status/''"
    then show "verifyTweetSuccess env = Inr (currentUrl (env k))"
      using w pollOnce_status_url [of "env k"] verify_first [of k env] by simp
  }
  {
    assume "\<not> includesStr (currentUrl (env k)) ''/status/''
        \<and> viewButton (env k) = Answer (Some href)"
    then show "verifyTweetSuccess env = Inr href"
      using w pollOnce_view_button [of "env k" href] verify_first [of k env] by simp
  }
  {
    assume "\<not> includesStr (currentUrl (env k)) ''/status/''
        \<and> viewButton (env k) = Answer None
        \<and> successNotification (env k) = Answer True
        \<and> statusLinks (env k) = Answer hrefs
        \<and> filter (\<lambda>h. includesStr h ''/status/'') hrefs \<noteq> []"
    then show "verifyTweetSuccess env = Inr (hd (newestFirst (filter (\<lambda>h. includesStr h ''/status/'') hrefs)))"
      using w pollOnce_notification_link [of "env k" hrefs] verify_first [of k env] by simp
  }
  {
    assume a: "\<not> includesStr (currentUrl (env k)) ''/status/''
        \<and> viewButton (env k) = Answer None
        \<and> ((successNotification (env k) = Answer True \<and> statusLinks (env k) = Answer hrefs
              \<and> filter (\<lambda>h. includesStr h ''/status/'') hrefs = [])
            \<or> (successNotification (env k) = Answer False \<and> composeModal (env k) = Answer False
              \<and> \<not> includesStr (currentUrlCheck (env k)) ''/compose''))
        \<and> extractTweetUrlFromPage (extraction (env k)) = Inr u"
    then have "pollOnce (env k) = lookedUp (extraction (env k))"
      by (intro pollOnce_lookup [where hrefs = hrefs]) blast+
    then have "pollOnce (env k) = TweetUrl u"
      using a by (simp add: lookedUp_def)
    then show "verifyTweetSuccess env = Inr u"
      using w verify_first [of k env] by simp
  }
next
  assume a: "\<forall>j<20. \<not> includesStr (currentUrl (env j)) ''/status/''
          \<and> (viewButton (env j) = Answer None \<or> (\<exists>msg. viewButton (env j) = Raises msg))
          \<and> ((\<exists>hs. statusLinks (env j) = Answer hs
                  \<and> filter (\<lambda>h. includesStr h ''/status/'') hs = [])
              \<or> (\<exists>msg. statusLinks (env j) = Raises msg))
          \<and> (\<exists>e. extractTweetUrlFromPage (extraction (env j)) = Inl e)"
  have "\<forall>j<20. pollOnce (env j) = StillWaiting"
  proof (intro allI impI)
    fix j :: nat
    assume "j < 20"
    with a obtain e where "\<not> includesStr (currentUrl (env j)) ''/status/''"
      and "viewButton (env j) = Answer None \<or> (\<exists>msg. viewButton (env j) = Raises msg)"
      and "(\<exists>hs. statusLinks (env j) = Answer hs
                  \<and> filter (\<lambda>h. includesStr h ''/status/'') hs = [])
              \<or> (\<exists>msg. statusLinks (env j) = Raises msg)"
      and "extractTweetUrlFromPage (extraction (env j)) = Inl e"
      by blast
    then show "pollOnce (env j) = StillWaiting"
      by (rule pollOnce_without_reference)
  qed
  then show "verifyTweetSuccess env = Inl verificationError"
    by (rule verify_none)
qed

theorem verifyTweetSuccess_signals_witness:
  "verifyTweetSuccess (everyPoll
      \<lparr>currentUrl = ''https://x.com/u/status/1'', viewButton = Answer None,
       successNotification = Answer False, statusLinks = Answer [],
       composeModal = Answer True, currentUrlCheck = ''https://x.com/u/status/1'',
       extraction = \<lparr>urlNow = ''https://x.com/home'', domLinks = Answer [],
                     profileLinks = Answer []\<rparr>\<rparr>)
     = Inr ''https://x.com/u/status/1''
   \<and> verifyTweetSuccess (everyPoll
      \<lparr>currentUrl = ''https://x.com/home'', viewButton = Answer (Some ''https://x.com/u/status/1''),
       successNotification = Answer False, statusLinks = Answer [],
       composeModal = Answer True, currentUrlCheck = ''https://x.com/home'',
       extraction = \<lparr>urlNow = ''https://x.com/home'', domLinks = Answer [],
                     profileLinks = Answer []\<rparr>\<rparr>)
     = Inr ''https://x.com/u/status/1''
   \<and> verifyTweetSuccess (everyPoll
      \<lparr>currentUrl = ''https://x.com/home'', viewButton = Answer None,
       successNotification = Answer True, statusLinks = Answer [''https://x.com/u/status/1'', ''https://x.com/u/status/22''],
       composeModal = Answer True, currentUrlCheck = ''https://x.com/home'',
       extraction = \<lparr>urlNow = ''https://x.com/home'', domLinks = Answer [],
                     profileLinks = Answer []\<rparr>\<rparr>)
     = Inr ''https://x.com/u/status/22''
   \<and> verifyTweetSuccess (everyPoll
      \<lparr>currentUrl = ''https://x.com/home'', viewButton = Answer None,
       successNotification = Answer False, statusLinks = Answer [],
       composeModal = Answer False, currentUrlCheck = ''https://x.com/home'',
       extraction = \<lparr>urlNow = ''https://x.com/home'', domLinks = Answer [],
                     profileLinks = Answer [''https://x.com/u/status/1'']\<rparr>\<rparr>)
     = Inr ''https://x.com/u/status/1''
   \<and> verifyTweetSuccess (everyPoll
      \<lparr>currentUrl = ''https://x.com/home'', viewButton = Answer None,
       successNotification = Answer True, statusLinks = Answer [],
       composeModal = Answer False, currentUrlCheck = ''https://x.com/home'',
       extraction = \<lparr>urlNow = ''https://x.com/home'', domLinks = Answer [],
                     profileLinks = Answer []\<rparr>\<rparr>)
     = Inl verificationError"
proof -
  have 1: "verifyTweetSuccess (everyPoll
      \<lparr>currentUrl = ''https://x.com/u/status/1'', viewButton = Answer None,
       successNotification = Answer False, statusLinks = Answer [],
       composeModal = Answer True, currentUrlCheck = ''https://x.com/u/status/1'',
       extraction = \<lparr>urlNow = ''https://x.com/home'', domLinks = Answer [],
                     profileLinks = Answer []\<rparr>\<rparr>)
     = Inr ''https://x.com/u/status/1''"
    using verifyTweetSuccess_signals
      [where env = "everyPoll
      \<lparr>currentUrl = ''https://x.com/u/status/1'', viewButton = Answer None,
       successNotification = Answer False, statusLinks = Answer [],
       composeModal = Answer True, currentUrlCheck = ''https://x.com/u/status/1'',
       extraction = \<lparr>urlNow = ''https://x.com/home'', domLinks = Answer [],
                     profileLinks = Answer []\<rparr>\<rparr>"
         and k = 0]
    by (simp add: everyPoll_def)
  have 2: "verifyTweetSuccess (everyPoll
      \<lparr>currentUrl = ''https://x.com/home'', viewButton = Answer (Some ''https://x.com/u/status/1''),
       successNotification = Answer False, statusLinks = Answer [],
       composeModal = Answer True, currentUrlCheck = ''https://x.com/home'',
       extraction = \<lparr>urlNow = ''https://x.com/home'', domLinks = Answer [],
                     profileLinks = Answer []\<rparr>\<rparr>)
     = Inr ''https://x.com/u/status/1''"
    using verifyTweetSuccess_signals
      [where env = "everyPoll
      \<lparr>currentUrl = ''https://x.com/home'', viewButton = Answer (Some ''https://x.com/u/status/1''),
       successNotification = Answer False, statusLinks = Answer [],
       composeModal = Answer True, currentUrlCheck = ''https://x.com/home'',
       extraction = \<lparr>urlNow = ''https://x.com/home'', domLinks = Answer [],
                     profileLinks = Answer []\<rparr>\<rparr>"
         and k = 0 and href = "''https://x.com/u/status/1''"]
    by (simp add: everyPoll_def)
  have 3: "verifyTweetSuccess (everyPoll
      \<lparr>currentUrl = ''https://x.com/home'', viewButton = Answer None,
       successNotification = Answer True, statusLinks = Answer [''https://x.com/u/status/1'', ''https://x.com/u/status/22''],
       composeModal = Answer True, currentUrlCheck = ''https://x.com/home'',
       extraction = \<lparr>urlNow = ''https://x.com/home'', domLinks = Answer [],
                     profileLinks = Answer []\<rparr>\<rparr>)
     = Inr ''https://x.com/u/status/22''"
    using verifyTweetSuccess_signals
      [where env = "everyPoll
      \<lparr>currentUrl = ''https://x.com/home'', viewButton = Answer None,
       successNotification = Answer True, statusLinks = Answer [''https://x.com/u/status/1'', ''https://x.com/u/status/22''],
       composeModal = Answer True, currentUrlCheck = ''https://x.com/home'',
       extraction = \<lparr>urlNow = ''https://x.com/home'', domLinks = Answer [],
                     profileLinks = Answer []\<rparr>\<rparr>"
         and k = 0 and hrefs = "[''https://x.com/u/status/1'', ''https://x.com/u/status/22'']"]
    by (simp add: everyPoll_def extractTweetUrlFromPage_def newestTweetLink_def newestFirst_def isDigit_def parseInt_def)
  have 4: "verifyTweetSuccess (everyPoll
      \<lparr>currentUrl = ''https://x.com/home'', viewButton = Answer None,
       successNotification = Answer False, statusLinks = Answer [],
       composeModal = Answer False, currentUrlCheck = ''https://x.com/home'',
       extraction = \<lparr>urlNow = ''https://x.com/home'', domLinks = Answer [],
                     profileLinks = Answer [''https://x.com/u/status/1'']\<rparr>\<rparr>)
     = Inr ''https://x.com/u/status/1''"
    using verifyTweetSuccess_signals
      [where env = "everyPoll
      \<lparr>currentUrl = ''https://x.com/home'', viewButton = Answer None,
       successNotification = Answer False, statusLinks = Answer [],
       composeModal = Answer False, currentUrlCheck = ''https://x.com/home'',
       extraction = \<lparr>urlNow = ''https://x.com/home'', domLinks = Answer [],
                     profileLinks = Answer [''https://x.com/u/status/1'']\<rparr>\<rparr>"
         and k = 0 and hrefs = "[]" and u = "''https://x.com/u/status/1''"]
    by (simp add: everyPoll_def extractTweetUrlFromPage_def newestTweetLink_def newestFirst_def isDigit_def parseInt_def)
  have 5: "verifyTweetSuccess (everyPoll
      \<lparr>currentUrl = ''https://x.com/home'', viewButton = Answer None,
       successNotification = Answer True, statusLinks = Answer [],
       composeModal = Answer False, currentUrlCheck = ''https://x.com/home'',
       extraction = \<lparr>urlNow = ''https://x.com/home'', domLinks = Answer [],
                     profileLinks = Answer []\<rparr>\<rparr>)
     = Inl verificationError"
    using verifyTweetSuccess_signals
      [where env = "everyPoll
      \<lparr>currentUrl = ''https://x.com/home'', viewButton = Answer None,
       successNotification = Answer True, statusLinks = Answer [],
       composeModal = Answer False, currentUrlCheck = ''https://x.com/home'',
       extraction = \<lparr>urlNow = ''https://x.com/home'', domLinks = Answer [],
                     profileLinks = Answer []\<rparr>\<rparr>"
         and k = 0]
    by (simp add: everyPoll_def extractTweetUrlFromPage_def newestTweetLink_def newestFirst_def isDigit_def parseInt_def)
  show ?thesis
    using 1 2 3 4 5 by blast
qed

end
